(* ===== verification/Py_Prelude.thy ===== *)
theory Py_Prelude
  imports Complex_Main "HOL-Library.Word" "HOL-Library.Sublist" "HOL-Library.Monad_Syntax"
begin

text \<open>
  Shared vocabulary of the development: the Python built-ins that the sources of
  \<^verbatim>\<open>src/src/content_generation\<close> call on plain data (\<^verbatim>\<open>max\<close>, \<^verbatim>\<open>list.index\<close>,
  \<^verbatim>\<open>str\<close> of an integer, \<^verbatim>\<open>str.lower\<close>, \<^verbatim>\<open>os.path.join\<close>), each as an executable
  function, with the lemmas the component theories use about them. Failure of a built-in
  (\<^verbatim>\<open>ValueError\<close> of \<^verbatim>\<open>max([])\<close> and of \<^verbatim>\<open>[].index(x)\<close>) is the value \<open>None\<close>.
  The fact collections \<open>py_defs\<close> (definitions that proofs unfold) and \<open>frame\<close> (what an
  effect leaves unchanged) are declared here and filled by the component theories.
\<close>

named_theorems py_defs "definitions of the modelled built-ins and operations, for unfolding"
named_theorems frame "frame facts: the fields of the world an effect leaves unchanged"

type_synonym byte = "8 word"
type_synonym bytes = "byte list"

section \<open>max and list.index\<close>

text \<open>
  \<^verbatim>\<open>max(xs)\<close> keeps the first item and replaces it only by a strictly greater one;
  on the empty list it raises.
\<close>

definition py_max :: "'a::linorder list \<Rightarrow> 'a option" where
  "py_max xs = (case xs of [] \<Rightarrow> None
                | x # ys \<Rightarrow> Some (foldl (\<lambda>m y. if m < y then y else m) x ys))"

text \<open>\<^verbatim>\<open>xs.index(v)\<close>: the position of the first item equal to \<open>v\<close>; raises when there is none.\<close>

fun py_index :: "'a list \<Rightarrow> 'a \<Rightarrow> nat option" where
  "py_index [] v = None"
| "py_index (x # xs) v = (if x = v then Some 0 else map_option Suc (py_index xs v))"

text \<open>The idiom \<^verbatim>\<open>xs.index(max(xs))\<close> of both selectors.\<close>

definition py_argmax :: "'a::linorder list \<Rightarrow> nat option" where
  "py_argmax xs = Option.bind (py_max xs) (py_index xs)"

section \<open>Decimal rendering of integers\<close>

text \<open>\<^verbatim>\<open>str(n)\<close> for a natural number and for an integer, and the inverse reading.\<close>

definition digit_char :: "nat \<Rightarrow> char" where
  "digit_char d = ''0123456789'' ! d"

fun str_nat :: "nat \<Rightarrow> string" where
  "str_nat n = (if n < 10 then [digit_char n] else str_nat (n div 10) @ [digit_char (n mod 10)])"

declare str_nat.simps [simp del]

definition str_int :: "int \<Rightarrow> string" where
  "str_int i = (if i < 0 then CHR ''-'' # str_nat (nat (- i)) else str_nat (nat i))"

text \<open>\<^verbatim>\<open>int(x)\<close> of a float: truncation towards zero.\<close>

definition py_int :: "real \<Rightarrow> int" where
  "py_int x = (if 0 \<le> x then \<lfloor>x\<rfloor> else \<lceil>x\<rceil>)"

definition digit_val :: "char \<Rightarrow> nat" where
  "digit_val c = of_char c - 48"

definition is_digit :: "char \<Rightarrow> bool" where
  "is_digit c \<longleftrightarrow> 48 \<le> (of_char c :: nat) \<and> (of_char c :: nat) \<le> 57"

definition read_nat :: "string \<Rightarrow> nat option" where
  "read_nat s = (if s \<noteq> [] \<and> list_all is_digit s
                 then Some (foldl (\<lambda>acc c. 10 * acc + digit_val c) 0 s) else None)"

section \<open>Strings and paths\<close>

text \<open>\<^verbatim>\<open>str.lower\<close> on the ASCII letters (a \<open>char\<close> is a byte; other bytes are kept).\<close>

definition lower_char :: "char \<Rightarrow> char" where
  "lower_char c = (let n = (of_char c :: nat) in if 65 \<le> n \<and> n \<le> 90 then char_of (n + 32) else c)"

definition py_lower :: "string \<Rightarrow> string" where
  "py_lower s = map lower_char s"

text \<open>\<^verbatim>\<open>os.path.join(a, b)\<close> of \<^verbatim>\<open>posixpath\<close>, for two components.\<close>

definition path_join :: "string \<Rightarrow> string \<Rightarrow> string" where
  "path_join a b =
     (if b \<noteq> [] \<and> hd b = CHR ''/'' then b
      else if a = [] \<or> last a = CHR ''/'' then a @ b
      else a @ ''/'' @ b)"

lemmas [py_defs] = py_argmax_def str_int_def py_lower_def path_join_def

section \<open>Lemmas on max and index\<close>

lemma foldl_py_max: "foldl (\<lambda>m y. if m < y then y else m) x ys = Max (set (x # ys))"
proof -
  have "foldl (\<lambda>m y. if m < y then y else m) x ys = fold max ys x"
  proof (induction ys arbitrary: x)
    case Nil
    show ?case by simp
  next
    case (Cons y ys)
    have "(if x < y then y else x) = max y x" by (auto simp: max_def)
    with Cons.IH [of "max y x"] show ?case by simp
  qed
  then show ?thesis by (simp only: Max.set_eq_fold)
qed

lemma py_max_Nil [simp]: "py_max [] = None"
  by (simp add: py_max_def)

lemma py_max_eq_Max: "xs \<noteq> [] \<Longrightarrow> py_max xs = Some (Max (set xs))"
  by (cases xs) (simp_all add: py_max_def foldl_py_max del: set_simps Max_insert)

lemma py_max_Some_iff: "py_max xs = Some m \<longleftrightarrow> xs \<noteq> [] \<and> m = Max (set xs)"
  by (cases "xs = []") (auto simp: py_max_eq_Max)

lemma py_max_mem: "py_max xs = Some m \<Longrightarrow> m \<in> set xs"
  by (auto simp: py_max_Some_iff intro: Max_in)

lemma py_max_ge: "py_max xs = Some m \<Longrightarrow> x \<in> set xs \<Longrightarrow> x \<le> m"
  by (auto simp: py_max_Some_iff)

lemma py_index_None_iff: "py_index xs v = None \<longleftrightarrow> v \<notin> set xs"
  by (induction xs) auto

lemma py_index_Some_iff:
  "py_index xs v = Some i \<longleftrightarrow> i < length xs \<and> xs ! i = v \<and> (\<forall>j<i. xs ! j \<noteq> v)"
proof (induction xs arbitrary: i)
  case Nil
  show ?case by simp
next
  case (Cons x xs)
  show ?case
  proof (cases "x = v")
    case True
    then show ?thesis by (cases i) auto
  next
    case False
    show ?thesis
    proof (cases i)
      case 0
      with False show ?thesis by auto
    next
      case (Suc k)
      have "(\<forall>j<Suc k. (x # xs) ! j \<noteq> v) \<longleftrightarrow> (\<forall>j<k. xs ! j \<noteq> v)"
        using False by (auto simp: less_Suc_eq_0_disj)
      with Suc False Cons.IH [of k] show ?thesis by auto
    qed
  qed
qed

lemma py_index_mem: "v \<in> set xs \<Longrightarrow> \<exists>i. py_index xs v = Some i"
  by (cases "py_index xs v") (auto simp: py_index_None_iff)

lemma py_argmax_Nil [simp]: "py_argmax [] = None"
  by (simp add: py_argmax_def)

lemma py_argmax_total: "xs \<noteq> [] \<Longrightarrow> \<exists>i. py_argmax xs = Some i"
  using py_index_mem [of "Max (set xs)" xs]
  by (simp add: py_argmax_def py_max_eq_Max)

lemma py_argmax_Some_iff:
  "py_argmax xs = Some i \<longleftrightarrow>
     i < length xs \<and> xs ! i = Max (set xs) \<and> (\<forall>j<i. xs ! j \<noteq> Max (set xs))"
proof (cases "xs = []")
  case True
  then show ?thesis by simp
next
  case False
  then show ?thesis
    by (simp add: py_argmax_def py_max_eq_Max py_index_Some_iff)
qed

lemma py_argmax_greatest:
  assumes "py_argmax xs = Some i" and "j < length xs"
  shows "xs ! j \<le> xs ! i"
  using assms by (auto simp: py_argmax_Some_iff)

lemma py_argmax_first:
  assumes "py_argmax xs = Some i" and "j < i"
  shows "xs ! j < xs ! i"
proof -
  from assms have "j < length xs" and "xs ! j \<noteq> xs ! i"
    by (auto simp: py_argmax_Some_iff)
  with py_argmax_greatest [OF assms(1), of j] show ?thesis by simp
qed

section \<open>Lemmas on decimal rendering\<close>

lemma digit_char_simps:
  "digit_char 0 = CHR ''0''" "digit_char 1 = CHR ''1''" "digit_char 2 = CHR ''2''"
  "digit_char 3 = CHR ''3''" "digit_char 4 = CHR ''4''" "digit_char 5 = CHR ''5''"
  "digit_char 6 = CHR ''6''" "digit_char 7 = CHR ''7''" "digit_char 8 = CHR ''8''"
  "digit_char 9 = CHR ''9''"
  by (simp_all add: digit_char_def)

lemma of_char_digit_char:
  assumes "d < 10"
  shows "(of_char (digit_char d) :: nat) = 48 + d"
proof -
  from assms have "d \<in> {0, 1, 2, 3, 4, 5, 6, 7, 8, 9}" by auto
  then show ?thesis using digit_char_simps(2) by (auto simp: digit_char_simps)
qed

lemma is_digit_digit_char [simp]: "d < 10 \<Longrightarrow> is_digit (digit_char d)"
  by (simp add: is_digit_def of_char_digit_char)

lemma digit_val_digit_char [simp]: "d < 10 \<Longrightarrow> digit_val (digit_char d) = d"
  by (simp add: digit_val_def of_char_digit_char)

lemma str_nat_digits: "list_all is_digit (str_nat n)"
proof (induction n rule: str_nat.induct)
  case (1 n)
  then show ?case by (subst str_nat.simps) simp
qed

lemma str_nat_nonempty [simp]: "str_nat n \<noteq> []"
  by (subst str_nat.simps) simp

lemma foldl_digits_str_nat:
  "foldl (\<lambda>acc c. 10 * acc + digit_val c) 0 (str_nat n) = n"
proof (induction n rule: str_nat.induct)
  case (1 n)
  show ?case
  proof (cases "n < 10")
    case True
    then show ?thesis by (subst str_nat.simps) simp
  next
    case False
    with "1.IH" show ?thesis by (subst str_nat.simps) simp
  qed
qed

lemma str_nat_inject [simp]: "str_nat m = str_nat n \<longleftrightarrow> m = n"
proof
  assume "str_nat m = str_nat n"
  then have "foldl (\<lambda>acc c. 10 * acc + digit_val c) 0 (str_nat m)
      = foldl (\<lambda>acc c. 10 * acc + digit_val c) 0 (str_nat n)" by simp
  then show "m = n" by (simp only: foldl_digits_str_nat)
qed simp

lemma str_nat_small: "n < 10 \<Longrightarrow> str_nat n = [digit_char n]"
  by (subst str_nat.simps) simp

lemma str_nat_1_to_4: "n < 4 \<Longrightarrow> str_nat (n + 1) \<in> {''1'', ''2'', ''3'', ''4''}"
proof -
  assume "n < 4"
  then have "n \<in> {0, 1, 2, 3}" by auto
  then show ?thesis
    by (auto simp: str_nat_small digit_char_def numeral_eq_Suc)
qed

text \<open>Rules that evaluate the rendering of a numeral.\<close>

lemma str_nat_numeral:
  "str_nat (numeral k) =
     (if (numeral k :: nat) < 10 then [digit_char (numeral k)]
      else str_nat (numeral k div 10) @ [digit_char (numeral k mod 10)])"
  by (rule str_nat.simps)

lemma str_nat_digit:
  "str_nat 0 = ''0''" "str_nat 1 = ''1''" "str_nat (Suc 0) = ''1''" "str_nat (Suc (Suc 0)) = ''2''"
  by (simp_all add: str_nat_small digit_char_def)

lemma digit_char_Suc_0: "digit_char (Suc 0) = CHR ''1''"
  by (simp add: digit_char_def)

text \<open>\<^verbatim>\<open>int\<close> and \<^verbatim>\<open>str\<close> of numerals.\<close>

lemma py_int_numeral: "py_int (numeral k) = numeral k" "py_int 0 = 0" "py_int 1 = 1"
  by (simp_all add: py_int_def)

lemma str_int_numeral:
  "str_int (numeral k) = str_nat (numeral k)" "str_int 0 = str_nat 0" "str_int 1 = str_nat 1"
  by (simp_all add: str_int_def)

lemmas str_nat_eval = str_nat_numeral str_nat_digit digit_char_simps digit_char_Suc_0

lemmas stamp_eval = py_int_numeral str_int_numeral str_nat_eval

section \<open>Lower case\<close>

lemma py_lower_simps [simp]:
  "py_lower [] = []" "py_lower (c # cs) = lower_char c # py_lower cs"
  by (simp_all add: py_lower_def)

section \<open>Bytes\<close>

lemma sum_list_upt_add:
  "sum_list (map f [a..<a + (m + n)]) =
     sum_list (map f [a..<a + m]) + (sum_list (map f [a + m..<a + (m + n)]) :: real)"
  using upt_add_eq_append [of a "a + m" n] by (simp add: add.assoc)

text \<open>Subtraction of unsigned bytes wraps modulo 256.\<close>

lemma unat_sub_byte: "unat (x - y :: byte) = (256 + unat x - unat y) mod 256"
proof -
  have b: "unat y < 256" "unat x < 256"
    using unsigned_less [of y, where ?'a = nat] unsigned_less [of x, where ?'a = nat] by simp_all
  have "unat (x - y) = (if unat y \<le> unat x then unat x - unat y else unat x + 256 - unat y)"
    by (simp add: unat_sub_if_size word_size)
  also have "\<dots> = (256 + unat x - unat y) mod 256"
  proof (cases "unat y \<le> unat x")
    case True
    then have "256 + unat x - unat y = (unat x - unat y) + 1 * 256" by simp
    moreover from b have "unat x - unat y < 256" by simp
    ultimately show ?thesis using True by (simp only: mod_mult_self1 mod_less if_True)
  next
    case False
    with b show ?thesis by (simp add: add.commute)
  qed
  finally show ?thesis .
qed

section \<open>Properties of the built-ins\<close>

text \<open>
  C39. \<^verbatim>\<open>xs.index(max(xs))\<close> is defined exactly on the non-empty lists, and its value is
  characterised as the first position of a greatest item: no item is greater than the
  item there, and every earlier item is strictly smaller.
\<close>

theorem py_argmax_first_greatest:
  "py_argmax xs = Some i \<longleftrightarrow>
     i < length xs \<and> (\<forall>j<length xs. xs ! j \<le> xs ! i) \<and> (\<forall>j<i. xs ! j < xs ! i)"
proof
  assume am: "py_argmax xs = Some i"
  then have "i < length xs" by (simp add: py_argmax_Some_iff)
  with py_argmax_greatest [OF am] py_argmax_first [OF am]
  show "i < length xs \<and> (\<forall>j<length xs. xs ! j \<le> xs ! i) \<and> (\<forall>j<i. xs ! j < xs ! i)"
    by blast
next
  assume r: "i < length xs \<and> (\<forall>j<length xs. xs ! j \<le> xs ! i) \<and> (\<forall>j<i. xs ! j < xs ! i)"
  then have "Max (set xs) = xs ! i"
    by (intro Max_eqI) (auto simp: in_set_conv_nth)
  with r show "py_argmax xs = Some i"
    by (auto simp: py_argmax_Some_iff)
qed

theorem py_argmax_first_greatest_witness:
  "py_argmax [0.5, 0.5, 0.3, 0.1 :: real] = Some 0"
  using py_argmax_first_greatest [of "[0.5, 0.5, 0.3, 0.1 :: real]" 0]
  by (simp add: nth_Cons' )



end
