(* ===== verification/Json.thy ===== *)
theory Json
  imports Py_Prelude
begin

text \<open>
  The values that \<^verbatim>\<open>response.json()\<close> yields and the operations that
  \<^verbatim>\<open>ai_content_generator.py\<close> applies to them: \<^verbatim>\<open>d.get(key, default)\<close>, truthiness
  (\<^verbatim>\<open>if not task_id\<close>), \<^verbatim>\<open>.lower()\<close>, \<^verbatim>\<open>"upscale1" in actions\<close> and \<^verbatim>\<open>str\<close> in an
  f-string. An operation applied to a value of the wrong type raises; the result is then
  \<open>Inl\<close> of the exception's message. An object is the list of its items, looked up from
  the front. \<^verbatim>\<open>str\<close> of a float, a list or a dict is left to the parameter \<open>repr\<close>.
\<close>

datatype json =
    JNull
  | JBool bool
  | JInt int
  | JFloat real
  | JStr string
  | JArr "json list"
  | JObj "(string \<times> json) list"

text \<open>A raised exception is its message; a computation that may raise returns a sum.\<close>

type_synonym exn = string
type_synonym 'a raises = "exn + 'a"

definition type_name :: "json \<Rightarrow> string" where
  "type_name v = (case v of JNull \<Rightarrow> ''NoneType'' | JBool _ \<Rightarrow> ''bool'' | JInt _ \<Rightarrow> ''int''
     | JFloat _ \<Rightarrow> ''float'' | JStr _ \<Rightarrow> ''str'' | JArr _ \<Rightarrow> ''list'' | JObj _ \<Rightarrow> ''dict'')"

definition no_attribute :: "json \<Rightarrow> string \<Rightarrow> exn" where
  "no_attribute v attr = [CHR 0x27] @ type_name v @ [CHR 0x27] @ '' object has no attribute ''
     @ [CHR 0x27] @ attr @ [CHR 0x27]"

text \<open>\<^verbatim>\<open>d.get(key, default)\<close>.\<close>

definition dict_get :: "json \<Rightarrow> string \<Rightarrow> json \<Rightarrow> json raises" where
  "dict_get d k dflt =
     (case d of
        JObj items \<Rightarrow> Inr (case map_of items k of Some v \<Rightarrow> v | None \<Rightarrow> dflt)
      | _ \<Rightarrow> Inl (no_attribute d ''get''))"

text \<open>Sequencing of computations that may raise.\<close>

definition bind_raises :: "'a raises \<Rightarrow> ('a \<Rightarrow> 'b raises) \<Rightarrow> 'b raises" where
  "bind_raises m f = (case m of Inl e \<Rightarrow> Inl e | Inr x \<Rightarrow> f x)"

text \<open>The chain \<^verbatim>\<open>r.get("data", {}).get(k, default)\<close>.\<close>

definition data_get :: "json \<Rightarrow> string \<Rightarrow> json \<Rightarrow> json raises" where
  "data_get r k dflt = bind_raises (dict_get r ''data'' (JObj [])) (\<lambda>d. dict_get d k dflt)"

text \<open>The chain \<^verbatim>\<open>r.get("data", {}).get("output", {}).get(k, default)\<close>.\<close>

definition output_get :: "json \<Rightarrow> string \<Rightarrow> json \<Rightarrow> json raises" where
  "output_get r k dflt = bind_raises (data_get r ''output'' (JObj [])) (\<lambda>out. dict_get out k dflt)"

text \<open>Truthiness, as \<^verbatim>\<open>if not v\<close> tests it.\<close>

definition truthy :: "json \<Rightarrow> bool" where
  "truthy v = (case v of JNull \<Rightarrow> False | JBool b \<Rightarrow> b | JInt i \<Rightarrow> i \<noteq> 0 | JFloat r \<Rightarrow> r \<noteq> 0
     | JStr s \<Rightarrow> s \<noteq> [] | JArr xs \<Rightarrow> xs \<noteq> [] | JObj items \<Rightarrow> items \<noteq> [])"

text \<open>\<^verbatim>\<open>v.lower()\<close>: defined on strings only.\<close>

definition str_lower :: "json \<Rightarrow> string raises" where
  "str_lower v = (case v of JStr s \<Rightarrow> Inr (py_lower s) | _ \<Rightarrow> Inl (no_attribute v ''lower''))"

text \<open>
  \<^verbatim>\<open>s in v\<close> for a string \<open>s\<close>: an item of a list, a substring of a string, a key of a
  dict; other values are not iterable.
\<close>

definition str_in :: "string \<Rightarrow> json \<Rightarrow> bool raises" where
  "str_in s v =
     (case v of
        JArr xs \<Rightarrow> Inr (List.member xs (JStr s))
      | JStr t \<Rightarrow> Inr (sublist s t)
      | JObj items \<Rightarrow> Inr (List.member (map fst items) s)
      | _ \<Rightarrow> Inl (''argument of type '' @ [CHR 0x27] @ type_name v @ [CHR 0x27] @ '' is not iterable''))"

text \<open>\<^verbatim>\<open>str(v)\<close>, as an f-string renders a value.\<close>

definition py_str :: "(json \<Rightarrow> string) \<Rightarrow> json \<Rightarrow> string" where
  "py_str repr v =
     (case v of
        JStr s \<Rightarrow> s
      | JInt i \<Rightarrow> str_int i
      | JBool b \<Rightarrow> (if b then ''True'' else ''False'')
      | JNull \<Rightarrow> ''None''
      | _ \<Rightarrow> repr v)"

lemmas json_defs [py_defs] = dict_get_def data_get_def output_get_def bind_raises_def truthy_def
  str_lower_def str_in_def py_str_def type_name_def no_attribute_def

section \<open>Lemmas\<close>

lemma bind_raises_simps [simp]:
  "bind_raises (Inl e) f = Inl e"
  "bind_raises (Inr x) f = f x"
  by (simp_all add: bind_raises_def)

lemma bind_raises_Inr_iff:
  "bind_raises m f = Inr y \<longleftrightarrow> (\<exists>x. m = Inr x \<and> f x = Inr y)"
  by (cases m) simp_all

lemma dict_get_JObj [simp]:
  "dict_get (JObj items) k dflt = Inr (case map_of items k of Some v \<Rightarrow> v | None \<Rightarrow> dflt)"
  by (simp add: dict_get_def)

lemma dict_get_Inr_iff:
  "dict_get d k dflt = Inr v \<longleftrightarrow>
     (\<exists>items. d = JObj items \<and> v = (case map_of items k of Some v \<Rightarrow> v | None \<Rightarrow> dflt))"
  by (cases d) (auto simp: dict_get_def)

lemma truthy_simps [simp]:
  "truthy JNull = False" "truthy (JBool b) = b" "truthy (JInt i) = (i \<noteq> 0)"
  "truthy (JFloat r) = (r \<noteq> 0)"
  "truthy (JStr s) = (s \<noteq> [])" "truthy (JArr xs) = (xs \<noteq> [])" "truthy (JObj items) = (items \<noteq> [])"
  by (simp_all add: truthy_def)

lemma py_str_simps [simp]:
  "py_str repr (JStr s) = s" "py_str repr (JInt i) = str_int i" "py_str repr JNull = ''None''"
  by (simp_all add: py_str_def)

lemma str_in_JArr [simp]: "str_in s (JArr xs) = Inr (JStr s \<in> set xs)"
  by (simp add: str_in_def)

lemma str_lower_JStr [simp]: "str_lower (JStr s) = Inr (py_lower s)"
  by (simp add: str_lower_def)

end
