(* ===== verification/World.thy ===== *)
theory World
  imports Json
begin

text \<open>
  What the program does outside its own memory, as a value that every effect takes and
  returns: the remote HTTP services, the clock and the file system.

  \<^item> \<^verbatim>\<open>requests.get\<close> and \<^verbatim>\<open>requests.post\<close> append the request to \<open>requests_log\<close>
    and return what the field \<open>remote\<close> answers to the \<open>n\<close>-th request of the run:
    \<open>Inl\<close> of a message when the transport raises (connection error, timeout), a
    response otherwise. A request takes \<open>latency\<close> seconds.
  \<^item> \<^verbatim>\<open>time.sleep\<close> advances \<open>clock\<close> and records the duration in \<open>sleeps\<close>;
    \<^verbatim>\<open>time.time\<close> reads \<open>clock\<close>.
  \<^item> \<^verbatim>\<open>open(path, 'wb').write(data)\<close> stores \<open>data\<close> under \<open>path\<close> in \<open>files\<close>
    when the directory of \<open>path\<close> is in \<open>dirs\<close>, the directories that exist, and
    raises \<^verbatim>\<open>FileNotFoundError\<close> otherwise; \<^verbatim>\<open>os.makedirs(path, exist_ok=True)\<close>
    adds \<open>path\<close> and its ancestors to \<open>dirs\<close> and raises when one of them is a file.
    Permissions, symbolic links and a full disk are outside the model.

  The relations \<open>spends\<close> and \<open>took\<close> say what a run has cost: the requests it sent
  and the sleeps it took, as a bound and exactly.

  Logging is not modelled.
\<close>

datatype http_method = GET | POST

record http_request =
  req_method :: http_method
  req_url :: string
  req_headers :: "(string \<times> string option) list"
  req_json :: "json option"
  req_timeout :: nat

record http_response =
  status_code :: nat
  body_text :: string
  body_json :: "json raises"
  content :: bytes

record world =
  remote :: "nat \<Rightarrow> http_request \<Rightarrow> http_response raises"
  latency :: "nat \<Rightarrow> real"
  requests_log :: "http_request list"
  clock :: real
  sleeps :: "real list"
  files :: "string \<rightharpoonup> bytes"
  dirs :: "string set"

type_synonym 'a effect = "world \<Rightarrow> 'a \<times> world"

definition wf_world :: "world \<Rightarrow> bool" where
  "wf_world w \<longleftrightarrow> (\<forall>n. 0 \<le> latency w n) \<and> 0 \<le> clock w"

definition requests_send :: "http_request \<Rightarrow> http_response raises effect" where
  "requests_send rq w =
     (let n = length (requests_log w)
      in (remote w n rq,
          w\<lparr>requests_log := requests_log w @ [rq], clock := clock w + latency w n\<rparr>))"

definition requests_get ::
  "string \<Rightarrow> (string \<times> string option) list \<Rightarrow> nat \<Rightarrow> http_response raises effect" where
  "requests_get url headers timeout =
     requests_send \<lparr>req_method = GET, req_url = url, req_headers = headers,
                    req_json = None, req_timeout = timeout\<rparr>"

definition requests_post ::
  "string \<Rightarrow> (string \<times> string option) list \<Rightarrow> json \<Rightarrow> nat \<Rightarrow> http_response raises effect" where
  "requests_post url headers payload timeout =
     requests_send \<lparr>req_method = POST, req_url = url, req_headers = headers,
                    req_json = Some payload, req_timeout = timeout\<rparr>"

definition time_sleep :: "real \<Rightarrow> world \<Rightarrow> world" where
  "time_sleep d w = w\<lparr>clock := clock w + d, sleeps := sleeps w @ [d]\<rparr>"

text \<open>\<^verbatim>\<open>int(time.time())\<close>.\<close>

definition time_now :: "world \<Rightarrow> int" where
  "time_now w = py_int (clock w)"

section \<open>The file system\<close>

text \<open>\<^verbatim>\<open>os.path.dirname\<close> of \<^verbatim>\<open>posixpath\<close>.\<close>

definition rstrip_slash :: "string \<Rightarrow> string" where
  "rstrip_slash s = rev (dropWhile (\<lambda>c. c = CHR ''/'') (rev s))"

definition dirname :: "string \<Rightarrow> string" where
  "dirname p =
     (let head = rev (dropWhile (\<lambda>c. c \<noteq> CHR ''/'') (rev p))
      in if head \<noteq> [] \<and> head \<noteq> replicate (length head) (CHR ''/'') then rstrip_slash head
         else head)"

text \<open>The path and the directories above it, outermost first.\<close>

definition ancestors :: "string \<Rightarrow> string list" where
  "ancestors p =
     map (\<lambda>k. take k p) (filter (\<lambda>k. k = length p \<or> p ! k = CHR ''/'') [1..<Suc (length p)])"

definition quoted :: "string \<Rightarrow> string" where
  "quoted s = CHR 0x27 # s @ [CHR 0x27]"

text \<open>The world in which \<open>data\<close> is the content of the file \<open>path\<close>.\<close>

definition store :: "string \<Rightarrow> bytes \<Rightarrow> world \<Rightarrow> world" where
  "store path data w = w\<lparr>files := (files w)(path \<mapsto> data)\<rparr>"

text \<open>
  \<^verbatim>\<open>with open(path, 'wb') as f: f.write(data)\<close>: raises \<^verbatim>\<open>FileNotFoundError\<close>
  unless the directory of the path exists (a path without a directory is in the
  working directory, which exists).
\<close>

definition writable :: "string \<Rightarrow> world \<Rightarrow> bool" where
  "writable path w \<longleftrightarrow> dirname path = [] \<or> dirname path \<in> dirs w"

definition write_file :: "string \<Rightarrow> bytes \<Rightarrow> unit raises effect" where
  "write_file path data w =
     (if writable path w then (Inr (), store path data w)
      else (Inl (''[Errno 2] No such file or directory: '' @ quoted path), w))"

text \<open>
  \<^verbatim>\<open>os.makedirs(path, exist_ok=True)\<close>: creates the directory and those above it; raises
  when the path or one of those above it is a file.
\<close>

definition makedirs :: "string \<Rightarrow> unit raises effect" where
  "makedirs path w =
     (if path = [] then (Inl (''[Errno 2] No such file or directory: '' @ quoted path), w)
      else case find (\<lambda>a. files w a \<noteq> None) (ancestors path) of
             Some a \<Rightarrow>
               (Inl ((if a = path then ''[Errno 17] File exists: ''
                      else ''[Errno 20] Not a directory: '') @ quoted path), w)
           | None \<Rightarrow> (Inr (), w\<lparr>dirs := dirs w \<union> set (ancestors path)\<rparr>))"

text \<open>
  What a run may change of the world. \<open>spends r s D w w'\<close>: from \<open>w\<close> to \<open>w'\<close> at most
  \<open>r\<close> requests were sent and at most \<open>s\<close> sleeps taken, each of a duration in \<open>D\<close>;
  both logs were only appended to, no file was removed, the clock advanced by the sleeps
  and the latencies of the requests, and the remote side is the same.
\<close>

definition spends :: "nat \<Rightarrow> nat \<Rightarrow> real set \<Rightarrow> world \<Rightarrow> world \<Rightarrow> bool" where
  "spends r s D w w' \<longleftrightarrow>
     remote w' = remote w \<and> latency w' = latency w \<and> dom (files w) \<subseteq> dom (files w') \<and>
     dirs w \<subseteq> dirs w' \<and>
     (\<exists>rs ss. requests_log w' = requests_log w @ rs \<and> length rs \<le> r \<and>
              sleeps w' = sleeps w @ ss \<and> length ss \<le> s \<and> set ss \<subseteq> D \<and>
              clock w' = clock w + sum_list ss
                + sum_list (map (latency w) [length (requests_log w)..<length (requests_log w')]))"

text \<open>
  The exact form: \<open>took d r s w w'\<close> when \<open>w'\<close> is \<open>w\<close> after exactly \<open>r\<close> requests and \<open>s\<close>
  sleeps of \<open>d\<close> seconds, so that its clock reads \<open>clock_after d w r s\<close>.
\<close>

definition clock_after :: "real \<Rightarrow> world \<Rightarrow> nat \<Rightarrow> nat \<Rightarrow> real" where
  "clock_after d w r s = clock w + real s * d
     + sum_list (map (latency w) [length (requests_log w)..<length (requests_log w) + r])"

definition took :: "real \<Rightarrow> nat \<Rightarrow> nat \<Rightarrow> world \<Rightarrow> world \<Rightarrow> bool" where
  "took d r s w w' \<longleftrightarrow>
     latency w' = latency w \<and> length (requests_log w') = length (requests_log w) + r \<and>
     clock w' = clock_after d w r s"

lemmas world_defs [py_defs] = requests_send_def requests_get_def requests_post_def
  time_sleep_def time_now_def store_def write_file_def writable_def makedirs_def

section \<open>What each effect changes\<close>

lemma requests_send_fields [simp, frame]:
  "requests_log (snd (requests_send rq w)) = requests_log w @ [rq]"
  "clock (snd (requests_send rq w)) = clock w + latency w (length (requests_log w))"
  "sleeps (snd (requests_send rq w)) = sleeps w"
  "files (snd (requests_send rq w)) = files w"
  "remote (snd (requests_send rq w)) = remote w"
  "latency (snd (requests_send rq w)) = latency w"
  "dirs (snd (requests_send rq w)) = dirs w"
  "fst (requests_send rq w) = remote w (length (requests_log w)) rq"
  by (simp_all add: requests_send_def Let_def)

lemma time_sleep_fields [simp, frame]:
  "requests_log (time_sleep d w) = requests_log w"
  "clock (time_sleep d w) = clock w + d"
  "sleeps (time_sleep d w) = sleeps w @ [d]"
  "files (time_sleep d w) = files w"
  "remote (time_sleep d w) = remote w"
  "latency (time_sleep d w) = latency w"
  "dirs (time_sleep d w) = dirs w"
  by (simp_all add: time_sleep_def)

lemma store_fields [simp, frame]:
  "requests_log (store p d w) = requests_log w"
  "clock (store p d w) = clock w"
  "sleeps (store p d w) = sleeps w"
  "files (store p d w) = (files w)(p \<mapsto> d)"
  "remote (store p d w) = remote w"
  "latency (store p d w) = latency w"
  "dirs (store p d w) = dirs w"
  by (simp_all add: store_def)

lemma time_now_frame [simp, frame]:
  "time_now (store p d w) = time_now w"
  by (simp add: time_now_def)

lemma wf_world_requests_send: "wf_world w \<Longrightarrow> wf_world (snd (requests_send rq w))"
  by (simp add: wf_world_def)

lemma wf_world_time_sleep: "wf_world w \<Longrightarrow> 0 \<le> d \<Longrightarrow> wf_world (time_sleep d w)"
  by (simp add: wf_world_def)

lemma wf_world_store: "wf_world w \<Longrightarrow> wf_world (store p d w)"
  by (simp add: wf_world_def)

lemmas wf_world_intros = wf_world_requests_send wf_world_time_sleep wf_world_store

section \<open>Writing files and making directories\<close>

lemma dirname_path_join:
  assumes "d \<noteq> []" "last d \<noteq> CHR ''/''" "name \<noteq> []" "CHR ''/'' \<notin> set name"
  shows "dirname (path_join d name) = d"
proof -
  have p: "path_join d name = d @ CHR ''/'' # name"
    using assms by (cases name) (auto simp: path_join_def)
  have "dropWhile (\<lambda>c. c \<noteq> CHR ''/'') (rev name @ CHR ''/'' # rev d) = CHR ''/'' # rev d"
    using assms(4) by (auto simp: dropWhile_append3)
  then have head: "rev (dropWhile (\<lambda>c. c \<noteq> CHR ''/'') (rev (path_join d name))) = d @ ''/''"
    by (simp add: p)
  have "hd (rev d) \<noteq> CHR ''/''"
    using assms(1,2) by (simp add: hd_rev)
  then have strip: "rstrip_slash (d @ ''/'') = d"
    using assms(1) by (cases "rev d") (simp_all add: rstrip_slash_def)
  have "d @ ''/'' \<noteq> replicate (length (d @ ''/'')) (CHR ''/'')"
  proof
    assume "d @ ''/'' = replicate (length (d @ ''/'')) (CHR ''/'')"
    then have "set (d @ ''/'') \<subseteq> {CHR ''/''}"
      by (metis set_replicate_conv_if empty_subsetI subset_refl)
    moreover have "last d \<in> set d"
      using assms(1) by (rule last_in_set)
    ultimately show False
      using assms(2) by auto
  qed
  then show ?thesis
    by (simp add: dirname_def head strip Let_def)
qed

lemma write_file_writable [simp]:
  "writable path w \<Longrightarrow> write_file path data w = (Inr (), store path data w)"
  by (simp add: write_file_def)

lemma write_file_Inr:
  "fst (write_file path data w) = Inr u \<Longrightarrow>
     writable path w \<and> snd (write_file path data w) = store path data w"
  by (simp add: write_file_def split: if_splits)

lemma write_file_Inl: "fst (write_file path data w) = Inl e \<Longrightarrow> snd (write_file path data w) = w"
  by (simp add: write_file_def split: if_splits)

lemma write_file_world: "snd (write_file path data w) = w \<or> snd (write_file path data w) = store path data w"
  by (simp add: write_file_def)

lemma writable_frame:
  "dirs w' = dirs w \<Longrightarrow> writable path w' = writable path w"
  by (simp add: writable_def)

lemma makedirs_fields [simp, frame]:
  "requests_log (snd (makedirs p w)) = requests_log w"
  "clock (snd (makedirs p w)) = clock w"
  "sleeps (snd (makedirs p w)) = sleeps w"
  "files (snd (makedirs p w)) = files w"
  "remote (snd (makedirs p w)) = remote w"
  "latency (snd (makedirs p w)) = latency w"
  by (simp_all add: makedirs_def split: option.splits)

lemma ancestors_self: "p \<noteq> [] \<Longrightarrow> p \<in> set (ancestors p)"
  by (cases p) (auto simp: ancestors_def intro!: image_eqI [of _ _ "length p"])

lemma parent_ancestor:
  assumes "d \<noteq> []" "last d \<noteq> CHR ''/''" "name \<noteq> []" "hd name \<noteq> CHR ''/''"
  shows "d \<in> set (ancestors (path_join d name))"
proof -
  let ?p = "d @ CHR ''/'' # name"
  have p: "path_join d name = ?p"
    using assms by (simp add: path_join_def)
  have "length d \<in> set (filter (\<lambda>k. k = length ?p \<or> ?p ! k = CHR ''/'') [1..<Suc (length ?p)])"
    using assms(1) by (simp add: Suc_le_eq)
  then have "take (length d) ?p \<in> set (ancestors ?p)"
    unfolding ancestors_def set_map by (rule imageI)
  then show ?thesis
    by (simp add: p)
qed

lemma makedirs_Inr:
  "fst (makedirs p w) = Inr u \<Longrightarrow> dirs (snd (makedirs p w)) = dirs w \<union> set (ancestors p) \<and> p \<noteq> []"
  by (auto simp: makedirs_def split: option.splits if_splits)

lemma makedirs_exists: "fst (makedirs p w) = Inr u \<Longrightarrow> p \<in> dirs (snd (makedirs p w))"
  by (auto dest!: makedirs_Inr intro: ancestors_self)

lemma makedirs_dirs_mono: "dirs w \<subseteq> dirs (snd (makedirs p w))"
  by (auto simp: makedirs_def split: option.splits)

section \<open>The budget of a run\<close>

lemma spends_refl [simp, intro]: "spends r s D w w"
  by (simp add: spends_def)

lemma spends_trans:
  assumes "spends r s D w w1" "spends r' s' D w1 w2"
  shows "spends (r + r') (s + s') D w w2"
proof -
  from assms(1) obtain rs ss where 1: "requests_log w1 = requests_log w @ rs" "length rs \<le> r"
    "sleeps w1 = sleeps w @ ss" "length ss \<le> s" "set ss \<subseteq> D"
    "clock w1 = clock w + sum_list ss
       + sum_list (map (latency w) [length (requests_log w)..<length (requests_log w1)])"
    and f1: "remote w1 = remote w" "latency w1 = latency w" "dom (files w) \<subseteq> dom (files w1)"
      "dirs w \<subseteq> dirs w1"
    unfolding spends_def by blast
  from assms(2) obtain rs' ss' where 2: "requests_log w2 = requests_log w1 @ rs'" "length rs' \<le> r'"
    "sleeps w2 = sleeps w1 @ ss'" "length ss' \<le> s'" "set ss' \<subseteq> D"
    "clock w2 = clock w1 + sum_list ss'
       + sum_list (map (latency w1) [length (requests_log w1)..<length (requests_log w2)])"
    and f2: "remote w2 = remote w1" "latency w2 = latency w1" "dom (files w1) \<subseteq> dom (files w2)"
      "dirs w1 \<subseteq> dirs w2"
    unfolding spends_def by blast
  have "requests_log w2 = requests_log w @ (rs @ rs')" "length (rs @ rs') \<le> r + r'"
    "sleeps w2 = sleeps w @ (ss @ ss')" "length (ss @ ss') \<le> s + s'" "set (ss @ ss') \<subseteq> D"
    "clock w2 = clock w + sum_list (ss @ ss')
       + sum_list (map (latency w) [length (requests_log w)..<length (requests_log w2)])"
    using 1 2 f1 by (simp_all add: sum_list_upt_add)
  then show ?thesis
    unfolding spends_def using f1 f2 by (intro conjI exI [of _ "rs @ rs'"] exI [of _ "ss @ ss'"]) auto
qed

lemma spends_mono: "spends r s D w w' \<Longrightarrow> r \<le> r' \<Longrightarrow> s \<le> s' \<Longrightarrow> D \<subseteq> D' \<Longrightarrow> spends r' s' D' w w'"
  unfolding spends_def by fastforce

lemma spends_send: "spends 1 0 D w (snd (requests_send rq w))"
  unfolding spends_def by (intro conjI exI [of _ "[rq]"] exI [of _ "[]"]) simp_all

lemma spends_sleep: "d \<in> D \<Longrightarrow> spends 0 1 D w (time_sleep d w)"
  unfolding spends_def by (intro conjI exI [of _ "[d]"] exI [of _ "[]"]) simp_all

lemma spends_store: "spends 0 0 D w (store p d w)"
  unfolding spends_def by (intro conjI exI [of _ "[]"]) auto

lemma spends_write_file: "spends 0 0 D w (snd (write_file p d w))"
  using write_file_world [of p d w] by (auto simp: spends_store)

lemma spends_get: "spends 1 0 D w (snd (requests_get url headers timeout w))"
  unfolding requests_get_def by (rule spends_send)

lemma spends_post: "spends 1 0 D w (snd (requests_post url headers payload timeout w))"
  unfolding requests_post_def by (rule spends_send)

lemma spends_step:
  "spends r s D (snd (requests_send rq w)) w' \<Longrightarrow> Suc r \<le> r' \<Longrightarrow> s \<le> s' \<Longrightarrow> spends r' s' D w w'"
  using spends_trans [OF spends_send [where D = D and w = w and rq = rq], of r s w']
  by (auto elim: spends_mono)

lemma spends_send_le: "1 \<le> r \<Longrightarrow> spends r s D w (snd (requests_send rq w))"
  using spends_send [where D = D] by (rule spends_mono) simp_all

lemma spends_log:
  "spends r s D w w' \<Longrightarrow>
     prefix (requests_log w) (requests_log w') \<and> length (requests_log w') \<le> length (requests_log w) + r"
  unfolding spends_def by auto

lemma spends_sleeps:
  "spends r s D w w' \<Longrightarrow>
     prefix (sleeps w) (sleeps w') \<and> length (sleeps w') \<le> length (sleeps w) + s \<and>
     set (sleeps w') \<subseteq> set (sleeps w) \<union> D"
  unfolding spends_def by auto

lemma spends_wf: "spends r s D w w' \<Longrightarrow> wf_world w \<Longrightarrow> \<forall>d\<in>D. 0 \<le> d \<Longrightarrow> wf_world w'"
  unfolding spends_def wf_world_def
  by (auto intro!: add_nonneg_nonneg sum_list_nonneg; blast)

lemma spends_sleep_time:
  assumes "spends r s {d} w w'" "0 \<le> d"
  shows "sum_list (sleeps w') \<le> sum_list (sleeps w) + real s * d"
proof -
  from assms(1) obtain ss where ss: "sleeps w' = sleeps w @ ss" "length ss \<le> s" "set ss \<subseteq> {d}"
    unfolding spends_def by blast
  then have "ss = replicate (length ss) d"
    by (metis replicate_eqI singletonD subsetD)
  then have "sum_list ss = real (length ss) * d"
    by (metis sum_list_replicate)
  also have "\<dots> \<le> real s * d"
    using ss(2) assms(2) by (simp add: mult_right_mono)
  finally show ?thesis by (simp add: ss(1))
qed

lemma spends_clock_mono:
  assumes "spends r s D w w'" "wf_world w" "\<forall>d\<in>D. 0 \<le> d"
  shows "clock w \<le> clock w'"
proof -
  from assms(1) obtain ss where ss: "set ss \<subseteq> D"
    "clock w' = clock w + sum_list ss
       + sum_list (map (latency w) [length (requests_log w)..<length (requests_log w')])"
    unfolding spends_def by blast
  have "0 \<le> sum_list ss"
    using ss(1) assms(3) by (intro sum_list_nonneg) blast
  moreover have "0 \<le> sum_list (map (latency w) [length (requests_log w)..<length (requests_log w')])"
    using assms(2) by (intro sum_list_nonneg) (auto simp: wf_world_def)
  ultimately show ?thesis
    by (simp add: ss(2))
qed

section \<open>The exact cost of a run\<close>

lemma took_refl: "took d 0 0 w w"
  by (simp add: took_def clock_after_def)

lemma took_send: "took d r s w w' \<Longrightarrow> took d (Suc r) s w (snd (requests_send rq w'))"
  by (simp add: took_def clock_after_def)

lemma took_sleep: "took d r s w w' \<Longrightarrow> took d r (Suc s) w (time_sleep d w')"
  by (simp add: took_def clock_after_def algebra_simps)

lemma took_store: "took d r s w w' \<Longrightarrow> took d r s w (store p b w')"
  by (simp add: took_def)

lemma took_eq: "took d r s w w' \<Longrightarrow> r = r' \<Longrightarrow> s = s' \<Longrightarrow> took d r' s' w w'"
  by simp

lemma took_time_now: "took d r s w w' \<Longrightarrow> time_now w' = py_int (clock_after d w r s)"
  by (simp add: took_def time_now_def)

end
