(* ===== verification/Image_Analyzer.thy ===== *)
theory Image_Analyzer
  imports World
begin

text \<open>
  The class \<^verbatim>\<open>ImageAnalyzer\<close> of \<^verbatim>\<open>src/src/content_generation/image_analyzer.py\<close>:
  the four measurements, the quality score \<^verbatim>\<open>analyze_image\<close>, the grid splitter
  \<^verbatim>\<open>split_grid_image\<close>, the grid selector \<^verbatim>\<open>analyze_grid_image\<close>, and the two
  methods that fetch images, \<^verbatim>\<open>download_image\<close> and \<^verbatim>\<open>select_best_image\<close>.

  An image is its size and its pixel rows; the rows are \<open>None\<close> for a file whose header
  was read but whose data cannot be decoded (Pillow decodes lazily, so \<^verbatim>\<open>crop\<close> and
  \<^verbatim>\<open>np.array\<close> are where such a file raises). The OpenCV routines are not part of the
  sources: they are fields of the record \<open>py_lib\<close> of library routines, each
  returning \<open>None\<close> when the routine raises; \<^verbatim>\<open>Image.open\<close> is a field too. What NumPy computes on their results (\<^verbatim>\<open>mean\<close>, \<^verbatim>\<open>var\<close>,
  \<^verbatim>\<open>std\<close>, and the subtraction of two \<^verbatim>\<open>uint8\<close> arrays, which wraps modulo 256) is
  defined here. Floating point numbers are modelled as reals: rounding and NaN (the mean
  of an empty array) are outside the model.
\<close>

section \<open>Images and arrays\<close>

type_synonym 'a ndarray = "'a list list"

datatype rgb = RGB (red: byte) (green: byte) (blue: byte)

instantiation rgb :: zero
begin
definition zero_rgb :: rgb where "zero_rgb = RGB 0 0 0"
instance ..
end

record 'p image =
  width :: nat
  height :: nat
  pixels :: "'p ndarray option"

definition wf_image :: "'p image \<Rightarrow> bool" where
  "wf_image im \<longleftrightarrow>
     (case pixels im of None \<Rightarrow> True
      | Some px \<Rightarrow> length px = height im \<and> list_all (\<lambda>row. length row = width im) px)"

text \<open>\<^verbatim>\<open>np.array(image)\<close>: the pixel rows; raises for data that cannot be decoded.\<close>

definition np_array :: "'p image \<Rightarrow> 'p ndarray option" where
  "np_array im = pixels im"

text \<open>
  \<^verbatim>\<open>Image.crop((left, top, right, bottom))\<close>: the pixels of the box, black where the box
  leaves the image.
\<close>

definition pixel_at :: "'p::zero ndarray \<Rightarrow> nat \<Rightarrow> nat \<Rightarrow> 'p" where
  "pixel_at px y x = (if y < length px \<and> x < length (px ! y) then px ! y ! x else 0)"

definition crop :: "'p::zero image \<Rightarrow> nat \<times> nat \<times> nat \<times> nat \<Rightarrow> 'p image option" where
  "crop im box =
     (case box of (left, top', right, bottom') \<Rightarrow>
        map_option
          (\<lambda>px. \<lparr>width = right - left, height = bottom' - top',
                 pixels = Some (map (\<lambda>y. map (\<lambda>x. pixel_at px y x) [left..<right]) [top'..<bottom'])\<rparr>)
          (pixels im))"

section \<open>NumPy reductions\<close>

definition np_mean :: "real ndarray \<Rightarrow> real" where
  "np_mean a = (let xs = concat a in sum_list xs / real (length xs))"

definition np_var :: "real ndarray \<Rightarrow> real" where
  "np_var a = (let xs = concat a; m = np_mean a
               in sum_list (map (\<lambda>x. (x - m)\<^sup>2) xs) / real (length xs))"

definition np_std :: "real ndarray \<Rightarrow> real" where
  "np_std a = sqrt (np_var a)"

definition as_float :: "byte ndarray \<Rightarrow> real ndarray" where
  "as_float a = map (map (\<lambda>b. real (unat b))) a"

text \<open>
  \<^verbatim>\<open>np.abs(gray - noise)\<close> on two \<^verbatim>\<open>uint8\<close> arrays: the difference wraps modulo 256
  and the absolute value of an unsigned number is the number itself.
\<close>

definition np_sub_u8 :: "byte ndarray \<Rightarrow> byte ndarray \<Rightarrow> byte ndarray" where
  "np_sub_u8 a b = map (\<lambda>(r, s). map (\<lambda>(x, y). x - y) (zip r s)) (zip a b)"

definition np_abs_u8 :: "byte ndarray \<Rightarrow> byte ndarray" where
  "np_abs_u8 a = a"

section \<open>The measurements\<close>

record py_lib =
  cvtColor :: "rgb ndarray \<Rightarrow> byte ndarray option"
  Laplacian :: "byte ndarray \<Rightarrow> real ndarray option"
  Canny :: "byte ndarray \<Rightarrow> nat \<Rightarrow> nat \<Rightarrow> byte ndarray option"
  fastNlMeansDenoising :: "byte ndarray \<Rightarrow> byte ndarray option"
  Image_open :: "bytes \<Rightarrow> rgb image raises"
  py_repr :: "json \<Rightarrow> string"

definition calculate_sharpness :: "py_lib \<Rightarrow> rgb ndarray \<Rightarrow> real option" where
  "calculate_sharpness lib img_array =
     do { gray \<leftarrow> cvtColor lib img_array;
          lap \<leftarrow> Laplacian lib gray;
          Some (np_var lap) }"

definition calculate_contrast :: "py_lib \<Rightarrow> rgb ndarray \<Rightarrow> real option" where
  "calculate_contrast lib img_array =
     do { gray \<leftarrow> cvtColor lib img_array;
          Some (np_std (as_float gray)) }"

definition calculate_detail :: "py_lib \<Rightarrow> rgb ndarray \<Rightarrow> real option" where
  "calculate_detail lib img_array =
     do { gray \<leftarrow> cvtColor lib img_array;
          edges \<leftarrow> Canny lib gray 100 200;
          Some (np_mean (as_float edges)) }"

definition calculate_noise :: "py_lib \<Rightarrow> rgb ndarray \<Rightarrow> real option" where
  "calculate_noise lib img_array =
     do { gray \<leftarrow> cvtColor lib img_array;
          noise \<leftarrow> fastNlMeansDenoising lib gray;
          Some (np_mean (as_float (np_abs_u8 (np_sub_u8 gray noise)))) }"

section \<open>The score\<close>

record image_analyzer =
  metrics :: "(string \<times> real) list"

definition ImageAnalyzer :: image_analyzer where
  "ImageAnalyzer =
     \<lparr>metrics = [(''sharpness'', 0.3), (''contrast'', 0.2), (''detail'', 0.3), (''noise'', 0.2)]\<rparr>"

definition max_sharpness :: real where "max_sharpness = 1000"
definition max_contrast :: real where "max_contrast = 100"
definition max_detail :: real where "max_detail = 50"
definition max_noise :: real where "max_noise = 30"

text \<open>\<^verbatim>\<open>min(a, b)\<close> of two arguments: the first unless the second is smaller.\<close>

definition py_min2 :: "real \<Rightarrow> real \<Rightarrow> real" where
  "py_min2 a b = (if b < a then b else a)"

definition normalized_scores :: "real \<Rightarrow> real \<Rightarrow> real \<Rightarrow> real \<Rightarrow> (string \<times> real) list" where
  "normalized_scores sharpness contrast detail noise =
     [(''sharpness'', py_min2 (sharpness / max_sharpness) 1),
      (''contrast'', py_min2 (contrast / max_contrast) 1),
      (''detail'', py_min2 (detail / max_detail) 1),
      (''noise'', 1 - py_min2 (noise / max_noise) 1)]"

text \<open>
  The weighted sum over the items of \<^verbatim>\<open>normalized_scores\<close>; a metric without a weight
  raises \<^verbatim>\<open>KeyError\<close>.
\<close>

definition total_score :: "(string \<times> real) list \<Rightarrow> (string \<times> real) list \<Rightarrow> real option" where
  "total_score ws scores =
     map_option sum_list
       (those (map (\<lambda>(metric, score). map_option (\<lambda>w. score * w) (map_of ws metric)) scores))"

definition analyze_image :: "image_analyzer \<Rightarrow> py_lib \<Rightarrow> rgb image \<Rightarrow> real" where
  "analyze_image self lib img =
     (case do { img_array \<leftarrow> np_array img;
                sharpness \<leftarrow> calculate_sharpness lib img_array;
                contrast \<leftarrow> calculate_contrast lib img_array;
                detail \<leftarrow> calculate_detail lib img_array;
                noise \<leftarrow> calculate_noise lib img_array;
                total_score (metrics self) (normalized_scores sharpness contrast detail noise) }
      of Some score \<Rightarrow> score | None \<Rightarrow> 0)"

section \<open>Grid splitting and selection\<close>

definition split_grid_image :: "'p::zero image \<Rightarrow> 'p image list option" where
  "split_grid_image grid_image =
     (let cell_width = width grid_image div 2;
          cell_height = height grid_image div 2
      in those (concat (map (\<lambda>y. map (\<lambda>x.
           let left = x * cell_width;
               top' = y * cell_height;
               right = left + cell_width;
               bottom' = top' + cell_height
           in crop grid_image (left, top', right, bottom')) [0..<2]) [0..<2])))"

definition analyze_grid_image :: "image_analyzer \<Rightarrow> py_lib \<Rightarrow> rgb image \<Rightarrow> nat" where
  "analyze_grid_image self lib grid_image =
     (case do { images \<leftarrow> split_grid_image grid_image;
                py_argmax (map (analyze_image self lib) images) }
      of Some best \<Rightarrow> best | None \<Rightarrow> 0)"

text \<open>The analysis does not depend on the decoder.\<close>

lemma analyze_image_decoder:
  "analyze_image self (lib\<lparr>Image_open := f\<rparr>) = analyze_image self lib"
  by (simp add: fun_eq_iff analyze_image_def calculate_sharpness_def calculate_contrast_def
      calculate_detail_def calculate_noise_def)

lemma analyze_grid_image_decoder:
  "analyze_grid_image self (lib\<lparr>Image_open := f\<rparr>) = analyze_grid_image self lib"
  by (simp add: fun_eq_iff analyze_grid_image_def analyze_image_decoder)

section \<open>Fetching candidates\<close>

text \<open>
  \<^verbatim>\<open>download_image\<close>: the decoded body of a 200 response; \<open>None\<close> for any other
  status and for every exception (transport or decoding).
\<close>

definition download_image :: "py_lib \<Rightarrow> string \<Rightarrow> rgb image option effect" where
  "download_image lib url w =
     (case requests_get url [] 30 w of
        (Inl e, w1) \<Rightarrow> (None, w1)
      | (Inr response, w1) \<Rightarrow>
          (if status_code response = 200
           then (case Image_open lib (content response) of Inl e \<Rightarrow> None | Inr img \<Rightarrow> Some img)
           else None, w1))"

text \<open>The loop of \<^verbatim>\<open>select_best_image\<close> that fills \<^verbatim>\<open>scores\<close>, one download per URL.\<close>

fun score_urls :: "image_analyzer \<Rightarrow> py_lib \<Rightarrow> string list \<Rightarrow> real list effect" where
  "score_urls self lib [] w = ([], w)"
| "score_urls self lib (url # urls) w =
     (case download_image lib url w of
        (img, w1) \<Rightarrow>
          (case score_urls self lib urls w1 of
             (scores, w2) \<Rightarrow>
               ((case img of Some i \<Rightarrow> analyze_image self lib i | None \<Rightarrow> 0) # scores, w2)))"

definition select_best_image ::
  "image_analyzer \<Rightarrow> py_lib \<Rightarrow> string list \<Rightarrow> (nat \<times> real) effect" where
  "select_best_image self lib image_urls w =
     (case score_urls self lib image_urls w of
        (scores, w1) \<Rightarrow>
          (if scores = [] then (0, 0)
           else (case py_argmax scores of
                   Some best_index \<Rightarrow> (best_index, scores ! best_index)
                 | None \<Rightarrow> (0, 0)), w1))"

lemmas measure_defs =
  calculate_sharpness_def calculate_contrast_def calculate_detail_def calculate_noise_def

lemmas [py_defs] = np_array_def py_min2_def max_sharpness_def max_contrast_def max_detail_def
  max_noise_def

section \<open>Auxiliary definitions\<close>

text \<open>The box of the \<open>k\<close>-th cell, in the order the two loops append the cells.\<close>

definition cell_box :: "'p image \<Rightarrow> nat \<Rightarrow> nat \<times> nat \<times> nat \<times> nat" where
  "cell_box g k = ((k mod 2) * (width g div 2), (k div 2) * (height g div 2),
                   (k mod 2) * (width g div 2) + width g div 2,
                   (k div 2) * (height g div 2) + height g div 2)"

text \<open>The request that \<^verbatim>\<open>download_image\<close> sends.\<close>

definition get_request :: "string \<Rightarrow> http_request" where
  "get_request url = \<lparr>req_method = GET, req_url = url, req_headers = [], req_json = None,
     req_timeout = 30\<rparr>"

section \<open>Example inputs\<close>

text \<open>
  A library whose gray value is the red channel, whose Laplacian response is the pair of
  0 and the first gray value, which finds no edges and denoises nothing; and a 2 by 2
  grid whose four cells it scores 0.2, 0.32, 0.23 and 0.32.
\<close>

definition red_lib :: py_lib where
  "red_lib = \<lparr>cvtColor = (\<lambda>a. Some (map (map red) a)),
     Laplacian = (\<lambda>g. Some [[0, real (unat (hd (hd g)))]]),
     Canny = (\<lambda>g lo hi. Some [[0]]),
     fastNlMeansDenoising = (\<lambda>g. Some g),
     Image_open = (\<lambda>b. Inl ''cannot identify image file''),
     py_repr = (\<lambda>v. [])\<rparr>"

definition red_grid :: "rgb image" where
  "red_grid = \<lparr>width = 2, height = 2,
     pixels = Some [[RGB 0 0 0, RGB 40 0 0], [RGB 20 0 0, RGB 40 0 0]]\<rparr>"

definition red_cell :: "nat \<Rightarrow> rgb image" where
  "red_cell v = \<lparr>width = 1, height = 1, pixels = Some [[RGB (of_nat v) 0 0]]\<rparr>"

text \<open>A library whose denoised image is brighter by one than the gray image.\<close>

definition brighter_lib :: py_lib where
  "brighter_lib = red_lib\<lparr>cvtColor := (\<lambda>a. Some [[5]]), fastNlMeansDenoising := (\<lambda>g. Some [[6]])\<rparr>"

definition blank :: "nat \<Rightarrow> nat \<Rightarrow> rgb ndarray" where
  "blank h w = replicate h (replicate w 0)"

definition square_800 :: "rgb image" where
  "square_800 = \<lparr>width = 800, height = 800, pixels = Some (blank 800 800)\<rparr>"

text \<open>
  A library that decodes a body to one pixel whose red channel is the first byte, and a
  world whose \<open>n\<close>-th response is the one byte \<open>20 n\<close>.
\<close>

definition byte_lib :: py_lib where
  "byte_lib = red_lib\<lparr>Image_open :=
     (\<lambda>b. Inr \<lparr>width = 1, height = 1, pixels = Some [[RGB (hd b) 0 0]]\<rparr>)\<rparr>"

definition cdn_world :: world where
  "cdn_world = \<lparr>remote = (\<lambda>n rq. Inr \<lparr>status_code = 200, body_text = [],
       body_json = Inl ''Expecting value'', content = [of_nat (20 * n)]\<rparr>),
     latency = (\<lambda>n. 1), requests_log = [], clock = 0, sleeps = [], files = Map.empty,
     dirs = {''static'', ''static/generated_images'', ''static/fallback_images''}\<rparr>"

section \<open>Measurements are non-negative\<close>

lemma np_var_nonneg: "0 \<le> np_var a"
  unfolding np_var_def Let_def
  by (intro divide_nonneg_nonneg sum_list_nonneg) auto

lemma np_std_nonneg: "0 \<le> np_std a"
  by (simp add: np_std_def np_var_nonneg)

lemma np_mean_as_float_nonneg: "0 \<le> np_mean (as_float a)"
  unfolding np_mean_def Let_def as_float_def
  by (intro divide_nonneg_nonneg sum_list_nonneg) (auto simp del: of_nat_unat)

lemma calculate_sharpness_nonneg: "calculate_sharpness lib a = Some s \<Longrightarrow> 0 \<le> s"
  by (auto simp: calculate_sharpness_def np_var_nonneg split: Option.bind_splits)

lemma calculate_contrast_nonneg: "calculate_contrast lib a = Some s \<Longrightarrow> 0 \<le> s"
  by (auto simp: calculate_contrast_def np_std_nonneg split: Option.bind_splits)

lemma calculate_detail_nonneg: "calculate_detail lib a = Some s \<Longrightarrow> 0 \<le> s"
  by (auto simp: calculate_detail_def np_mean_as_float_nonneg split: Option.bind_splits)

lemma calculate_noise_nonneg: "calculate_noise lib a = Some s \<Longrightarrow> 0 \<le> s"
  by (auto simp: calculate_noise_def np_mean_as_float_nonneg split: Option.bind_splits)

lemmas measure_nonneg = calculate_sharpness_nonneg calculate_contrast_nonneg
  calculate_detail_nonneg calculate_noise_nonneg

section \<open>The score\<close>

lemma py_min2_eq_min: "py_min2 a b = min a b"
  by (simp add: py_min2_def min_def)

lemma py_min2_unit: "0 \<le> x \<Longrightarrow> 0 < d \<Longrightarrow> 0 \<le> py_min2 (x / d) 1 \<and> py_min2 (x / d) 1 \<le> 1"
  by (simp add: py_min2_def)

lemma total_score_ImageAnalyzer:
  "total_score (metrics ImageAnalyzer)
     [(''sharpness'', a), (''contrast'', b), (''detail'', c), (''noise'', d)]
     = Some (a * 0.3 + b * 0.2 + c * 0.3 + d * 0.2)"
  by (simp add: total_score_def ImageAnalyzer_def)

lemma analyze_image_loaded:
  assumes "pixels img = Some a"
    and "calculate_sharpness lib a = Some s" and "calculate_contrast lib a = Some c"
    and "calculate_detail lib a = Some d" and "calculate_noise lib a = Some n"
  shows "analyze_image ImageAnalyzer lib img =
           py_min2 (s / 1000) 1 * 0.3 + py_min2 (c / 100) 1 * 0.2
           + py_min2 (d / 50) 1 * 0.3 + (1 - py_min2 (n / 30) 1) * 0.2"
  using assms
  by (simp add: analyze_image_def normalized_scores_def total_score_ImageAnalyzer py_defs)

lemma analyze_image_raises:
  assumes "pixels img = None \<or> (\<exists>a. pixels img = Some a \<and>
     (calculate_sharpness lib a = None \<or> calculate_contrast lib a = None
      \<or> calculate_detail lib a = None \<or> calculate_noise lib a = None))"
  shows "analyze_image self lib img = 0"
  using assms by (auto simp: analyze_image_def np_array_def split: Option.bind_splits)

lemma analyze_image_cases:
  obtains (raised) "analyze_image ImageAnalyzer lib img = 0"
  | (scored) a s c d n where "pixels img = Some a"
      "calculate_sharpness lib a = Some s" "calculate_contrast lib a = Some c"
      "calculate_detail lib a = Some d" "calculate_noise lib a = Some n"
proof (cases "pixels img")
  case None
  then show ?thesis using raised analyze_image_raises by blast
next
  case (Some a)
  show ?thesis
  proof (cases "calculate_sharpness lib a = None \<or> calculate_contrast lib a = None
      \<or> calculate_detail lib a = None \<or> calculate_noise lib a = None")
    case True
    with Some show ?thesis using raised analyze_image_raises by blast
  next
    case False
    with Some show ?thesis using scored by auto
  qed
qed

lemma analyze_image_bounds:
  "0 \<le> analyze_image ImageAnalyzer lib img" "analyze_image ImageAnalyzer lib img \<le> 1"
proof -
  have "0 \<le> analyze_image ImageAnalyzer lib img \<and> analyze_image ImageAnalyzer lib img \<le> 1"
  proof (cases rule: analyze_image_cases [of lib img])
    case raised
    then show ?thesis by simp
  next
    case (scored a s c d n)
    define s' c' d' n' where "s' = py_min2 (s / 1000) 1" and "c' = py_min2 (c / 100) 1"
      and "d' = py_min2 (d / 50) 1" and "n' = py_min2 (n / 30) 1"
    have b: "0 \<le> s'" "s' \<le> 1" "0 \<le> c'" "c' \<le> 1" "0 \<le> d'" "d' \<le> 1" "0 \<le> n'" "n' \<le> 1"
      using calculate_sharpness_nonneg [OF scored(2)] calculate_contrast_nonneg [OF scored(3)]
        calculate_detail_nonneg [OF scored(4)] calculate_noise_nonneg [OF scored(5)]
      by (simp_all add: s'_def c'_def d'_def n'_def py_min2_unit)
    have eq: "analyze_image ImageAnalyzer lib img
        = s' * 0.3 + c' * 0.2 + d' * 0.3 + (1 - n') * 0.2"
      by (simp add: analyze_image_loaded [OF scored] s'_def c'_def d'_def n'_def)
    have "0 \<le> s' * 0.3 + c' * 0.2 + d' * 0.3 + (1 - n') * 0.2"
      and "s' * 0.3 + c' * 0.2 + d' * 0.3 + (1 - n') * 0.2 \<le> 1"
      using b by argo+
    then show ?thesis by (simp add: eq)
  qed
  then show "0 \<le> analyze_image ImageAnalyzer lib img" "analyze_image ImageAnalyzer lib img \<le> 1"
    by simp_all
qed

section \<open>The splitter\<close>

lemma crop_loaded:
  "pixels im = Some px \<Longrightarrow> crop im (l, t, r, b) =
     Some \<lparr>width = r - l, height = b - t,
           pixels = Some (map (\<lambda>y. map (\<lambda>x. pixel_at px y x) [l..<r]) [t..<b])\<rparr>"
  by (simp add: crop_def)

lemma crop_unloaded: "pixels im = None \<Longrightarrow> crop im box = None"
  by (simp add: crop_def split: prod.splits)

lemma crop_wf: "crop im box = Some c \<Longrightarrow> wf_image c \<and> pixels c \<noteq> None"
  by (cases box) (auto simp: crop_def wf_image_def list_all_iff)

lemma crop_size: "crop im (l, t, r, b) = Some c \<Longrightarrow> width c = r - l \<and> height c = b - t"
  by (auto simp: crop_def)

lemma upt_2: "[0..<2] = [0, 1]"
  by (simp add: numeral_2_eq_2)

lemma split_unloaded: "pixels g = None \<Longrightarrow> split_grid_image g = None"
  by (simp add: split_grid_image_def Let_def upt_2 crop_unloaded)

lemma split_loaded:
  assumes "pixels g = Some px"
  shows "split_grid_image g = Some (map (\<lambda>k. the (crop g (cell_box g k))) [0, 1, 2, 3])"
  using assms by (simp add: split_grid_image_def Let_def upt_2 crop_loaded cell_box_def)

lemma split_length:
  assumes "split_grid_image g = Some cells"
  shows "length cells = 4"
proof (cases "pixels g")
  case None
  with assms show ?thesis by (simp add: split_unloaded)
next
  case (Some px)
  from split_loaded [OF Some] assms show ?thesis by auto
qed

lemma split_nth:
  assumes "split_grid_image g = Some cells" and "k < 4"
  shows "crop g (cell_box g k) = Some (cells ! k)"
proof -
  from assms(1) obtain px where px: "pixels g = Some px"
    by (cases "pixels g") (auto simp: split_unloaded)
  have "\<exists>c. crop g (cell_box g k) = Some c"
    by (cases "cell_box g k") (simp add: crop_def px)
  moreover from \<open>k < 4\<close> have "k \<in> {0, 1, 2, 3}" by auto
  ultimately show ?thesis
    using assms(1) split_loaded [OF px] by auto
qed

section \<open>The grid selector\<close>

lemma analyze_grid_image_eq:
  assumes "split_grid_image g = Some cells"
  shows "py_argmax (map (analyze_image self lib) cells) = Some (analyze_grid_image self lib g)"
proof -
  from assms have "map (analyze_image self lib) cells \<noteq> []"
    by (auto dest: split_length)
  then obtain i where "py_argmax (map (analyze_image self lib) cells) = Some i"
    using py_argmax_total by blast
  with assms show ?thesis by (simp add: analyze_grid_image_def)
qed

lemma analyze_grid_image_less_4: "analyze_grid_image self lib g < 4"
proof (cases "split_grid_image g")
  case None
  then show ?thesis by (simp add: analyze_grid_image_def)
next
  case (Some cells)
  from analyze_grid_image_eq [OF Some, of self lib] split_length [OF Some]
  show ?thesis by (auto simp: py_argmax_Some_iff)
qed

section \<open>Fetching candidates\<close>

lemma download_image_world:
  "snd (download_image lib url w) = snd (requests_send (get_request url) w)"
  by (simp add: download_image_def requests_get_def get_request_def split: prod.splits sum.splits)

lemma score_urls_Cons:
  "score_urls self lib (url # urls) w =
     (let d = download_image lib url w; r = score_urls self lib urls (snd d)
      in ((case fst d of Some i \<Rightarrow> analyze_image self lib i | None \<Rightarrow> 0) # fst r, snd r))"
  by (simp add: split_beta Let_def)

lemma score_urls_length: "length (fst (score_urls self lib urls w)) = length urls"
  by (induction urls arbitrary: w) (simp_all add: score_urls_Cons Let_def del: score_urls.simps(2))

lemma score_urls_log:
  "requests_log (snd (score_urls self lib urls w)) = requests_log w @ map get_request urls"
  by (induction urls arbitrary: w)
    (simp_all add: score_urls_Cons Let_def download_image_world del: score_urls.simps(2))

lemma score_urls_bounds:
  "x \<in> set (fst (score_urls ImageAnalyzer lib urls w)) \<Longrightarrow> 0 \<le> x \<and> x \<le> 1"
proof (induction urls arbitrary: w)
  case Nil
  then show ?case by simp
next
  case (Cons url urls)
  let ?d = "download_image lib url w"
  from Cons.prems
  consider "x = (case fst ?d of Some i \<Rightarrow> analyze_image ImageAnalyzer lib i | None \<Rightarrow> 0)"
    | "x \<in> set (fst (score_urls ImageAnalyzer lib urls (snd ?d)))"
    by (auto simp: score_urls_Cons Let_def simp del: score_urls.simps(2))
  then show ?case
  proof cases
    case 1
    then show ?thesis by (cases "fst ?d") (simp_all add: analyze_image_bounds)
  next
    case 2
    then show ?thesis by (rule Cons.IH)
  qed
qed

section \<open>The example inputs evaluated\<close>

lemma np_var_pair: "np_var [[0, v]] = (v / 2)\<^sup>2"
proof -
  have m: "np_mean [[0, v]] = v / 2" by (simp add: np_mean_def)
  have "(0 - v / 2)\<^sup>2 + (v - v / 2)\<^sup>2 = 2 * (v / 2)\<^sup>2"
    by (simp add: power2_eq_square)
  then show ?thesis unfolding np_var_def Let_def m by simp
qed

lemma red_lib_measures:
  "calculate_sharpness red_lib [[RGB x 0 0]] = Some ((real (unat x) / 2)\<^sup>2)"
  "calculate_contrast red_lib [[RGB x 0 0]] = Some 0"
  "calculate_detail red_lib [[RGB x 0 0]] = Some 0"
  "calculate_noise red_lib [[RGB x 0 0]] = Some 0"
  by (simp_all add: measure_defs red_lib_def np_var_pair np_var_def np_std_def np_mean_def
      as_float_def np_sub_u8_def np_abs_u8_def del: of_nat_unat)

lemma red_cell_score:
  assumes "pixels img = Some [[RGB x 0 0]]"
  shows "analyze_image ImageAnalyzer red_lib img
           = py_min2 ((real (unat x) / 2)\<^sup>2 / 1000) 1 * 0.3 + 0.2"
  using analyze_image_loaded [OF assms red_lib_measures] by (simp add: py_min2_def)

lemma red_grid_split:
  "split_grid_image red_grid =
     Some [\<lparr>width = 1, height = 1, pixels = Some [[RGB 0 0 0]]\<rparr>,
           \<lparr>width = 1, height = 1, pixels = Some [[RGB 40 0 0]]\<rparr>,
           \<lparr>width = 1, height = 1, pixels = Some [[RGB 20 0 0]]\<rparr>,
           \<lparr>width = 1, height = 1, pixels = Some [[RGB 40 0 0]]\<rparr>]"
  by (simp add: split_grid_image_def red_grid_def Let_def upt_2 crop_def pixel_at_def)

lemma red_grid_scores:
  "map (analyze_image ImageAnalyzer red_lib) (the (split_grid_image red_grid))
     = [0.2, 0.32, 0.23, 0.32]"
  by (simp add: red_grid_split red_cell_score py_min2_def power2_eq_square)

lemma red_grid_best: "analyze_grid_image ImageAnalyzer red_lib red_grid = 1"
  using red_grid_scores
  by (simp add: analyze_grid_image_def red_grid_split py_argmax_def py_max_def)

lemma byte_lib_score:
  assumes "pixels img = Some [[RGB x 0 0]]"
  shows "analyze_image ImageAnalyzer byte_lib img
           = py_min2 ((real (unat x) / 2)\<^sup>2 / 1000) 1 * 0.3 + 0.2"
proof -
  have "calculate_sharpness byte_lib = calculate_sharpness red_lib"
    "calculate_contrast byte_lib = calculate_contrast red_lib"
    "calculate_detail byte_lib = calculate_detail red_lib"
    "calculate_noise byte_lib = calculate_noise red_lib"
    by (simp_all add: fun_eq_iff measure_defs byte_lib_def)
  with analyze_image_loaded [OF assms, of byte_lib] red_lib_measures [of x] show ?thesis
    by (simp add: py_min2_def)
qed

lemma cdn_download:
  "remote w = remote cdn_world \<Longrightarrow>
   fst (download_image byte_lib url w)
     = Some \<lparr>width = 1, height = 1,
         pixels = Some [[RGB (of_nat (20 * length (requests_log w))) 0 0]]\<rparr>"
  by (simp add: download_image_def requests_get_def requests_send_def Let_def cdn_world_def
      byte_lib_def)

lemma cdn_scores:
  "fst (score_urls ImageAnalyzer byte_lib [''u0'', ''u1'', ''u2''] cdn_world) = [0.2, 0.23, 0.32]"
proof -
  have w0: "requests_log cdn_world = []" by (simp add: cdn_world_def)
  show ?thesis
    by (simp add: score_urls_Cons Let_def download_image_world cdn_download w0
        byte_lib_score py_min2_def power2_eq_square del: score_urls.simps(2))
qed

section \<open>Properties of the scorer\<close>

text \<open>
  C4. With the weights that the constructor sets, the score that \<^verbatim>\<open>analyze_image\<close>
  returns lies between 0 and 1, for every image and whatever the library routines return.
\<close>

theorem analyze_image_unit_interval:
  "0 \<le> analyze_image ImageAnalyzer lib img \<and> analyze_image ImageAnalyzer lib img \<le> 1"
  by (simp add: analyze_image_bounds)

text \<open>
  C31. When the four measurements succeed with the values \<open>s\<close>, \<open>c\<close>, \<open>d\<close> and \<open>n\<close>, the
  score is the weighted sum of the clamped measurements, the noise inverted:
  \<open>0.3 min(s/1000, 1) + 0.2 min(c/100, 1) + 0.3 min(d/50, 1) + 0.2 (1 - min(n/30, 1))\<close>.
\<close>

theorem analyze_image_formula:
  assumes "pixels img = Some a"
    and "calculate_sharpness lib a = Some s" and "calculate_contrast lib a = Some c"
    and "calculate_detail lib a = Some d" and "calculate_noise lib a = Some n"
  shows "analyze_image ImageAnalyzer lib img =
           0.3 * min (s / 1000) 1 + 0.2 * min (c / 100) 1
           + 0.3 * min (d / 50) 1 + 0.2 * (1 - min (n / 30) 1)"
  by (simp add: analyze_image_loaded [OF assms] py_min2_eq_min)

theorem analyze_image_formula_witness:
  "pixels red_grid \<noteq> None \<and>
   analyze_image ImageAnalyzer red_lib \<lparr>width = 1, height = 1, pixels = Some [[RGB 40 0 0]]\<rparr>
     = 0.32"
  using analyze_image_formula [OF _ red_lib_measures,
      of "\<lparr>width = 1, height = 1, pixels = Some [[RGB 40 0 0]]\<rparr>" 40]
  by (simp add: red_grid_def power2_eq_square)

text \<open>
  C32. A failure during measurement gives the score 0: when the pixel data cannot be
  decoded, or when one of the four measurements raises, \<^verbatim>\<open>analyze_image\<close> returns 0,
  whatever the weights.
\<close>

theorem analyze_image_failure_zero:
  assumes "pixels img = None \<or> (\<exists>a. pixels img = Some a \<and>
     (calculate_sharpness lib a = None \<or> calculate_contrast lib a = None
      \<or> calculate_detail lib a = None \<or> calculate_noise lib a = None))"
  shows "analyze_image self lib img = 0"
  using assms by (rule analyze_image_raises)

theorem analyze_image_failure_zero_witness:
  "analyze_image ImageAnalyzer red_lib \<lparr>width = 1, height = 1, pixels = None\<rparr> = 0"
  using analyze_image_failure_zero [of "\<lparr>width = 1, height = 1, pixels = None\<rparr>" red_lib ImageAnalyzer]
  by simp

text \<open>
  C33. The noise measurement is not the mean absolute difference: the two arrays are
  unsigned bytes, so where the denoised pixel is brighter than the gray pixel by \<open>k\<close> the
  difference wraps to \<open>256 - k\<close>. For one pixel: gray \<open>x\<close> and denoised \<open>y > x\<close> measure
  \<open>256 - (y - x)\<close>.
\<close>

theorem calculate_noise_wraps:
  assumes "cvtColor lib a = Some [[x]]" and "fastNlMeansDenoising lib [[x]] = Some [[y]]"
    and "unat x < unat y"
  shows "calculate_noise lib a = Some (256 - real (unat y - unat x))"
proof -
  have "unat y < 256" using unsigned_less [of y, where ?'a = nat] by simp
  with assms(3) have "unat (x - y) = 256 - (unat y - unat x)"
    by (simp add: unat_sub_byte)
  moreover from \<open>unat y < 256\<close> have "unat y - unat x \<le> 256" by simp
  ultimately have "real (unat (x - y)) = 256 - real (unat y - unat x)" by simp
  with assms(1,2) show ?thesis
    by (simp add: calculate_noise_def np_sub_u8_def np_abs_u8_def as_float_def np_mean_def
        del: of_nat_unat)
qed

theorem calculate_noise_wraps_witness:
  "unat (5 :: byte) < unat (6 :: byte) \<and> calculate_noise brighter_lib [[RGB 0 0 0]] = Some 255"
  using calculate_noise_wraps [of brighter_lib "[[RGB 0 0 0]]" 5 6]
  by (simp add: brighter_lib_def red_lib_def)

section \<open>Properties of the splitter\<close>

text \<open>
  C34. \<^verbatim>\<open>split_grid_image\<close> of an image whose data can be decoded returns exactly four
  images, each of half the width and half the height of the grid (integer division), each
  with as many rows and columns as its size says.
\<close>

theorem split_grid_image_cells:
  assumes "pixels g = Some px"
  shows "\<exists>cells. split_grid_image g = Some cells \<and> length cells = 4 \<and>
           list_all (\<lambda>c. width c = width g div 2 \<and> height c = height g div 2 \<and> wf_image c
                          \<and> pixels c \<noteq> None) cells"
proof -
  obtain cells where cells: "split_grid_image g = Some cells"
    using split_loaded [OF assms] by simp
  have "width c = width g div 2 \<and> height c = height g div 2 \<and> wf_image c \<and> pixels c \<noteq> None"
    if "c \<in> set cells" for c
  proof -
    from that obtain k where k: "k < 4" "c = cells ! k"
      by (auto simp: in_set_conv_nth split_length [OF cells])
    from split_nth [OF cells k(1)] k(2) have c: "crop g (cell_box g k) = Some c" by simp
    with crop_wf [OF c] show ?thesis by (auto simp: cell_box_def dest: crop_size)
  qed
  with cells split_length [OF cells] show ?thesis by (auto simp: list_all_iff)
qed

theorem split_grid_image_cells_witness:
  "\<exists>cells. split_grid_image square_800 = Some cells \<and> length cells = 4 \<and>
           list_all (\<lambda>c. width c = 400 \<and> height c = 400) cells"
proof -
  from split_grid_image_cells [of square_800 "blank 800 800"]
  obtain cells where "split_grid_image square_800 = Some cells" "length cells = 4"
    "list_all (\<lambda>c. width c = width square_800 div 2 \<and> height c = height square_800 div 2
        \<and> wf_image c \<and> pixels c \<noteq> None) cells"
    by (auto simp: square_800_def)
  then show ?thesis by (auto simp: square_800_def list_all_iff)
qed

text \<open>
  C35. The cells are in row-major order and hold the pixels of their quarter: in a grid
  whose rows and columns agree with its size, pixel \<open>(i, j)\<close> of cell \<open>k\<close> is the pixel of
  the grid in row \<open>(k div 2) * (height div 2) + i\<close> and column
  \<open>(k mod 2) * (width div 2) + j\<close>.
\<close>

theorem split_grid_image_pixel:
  assumes "wf_image g" and "pixels g = Some px" and "split_grid_image g = Some cells"
    and "k < 4" and "pixels (cells ! k) = Some c"
    and "i < height g div 2" and "j < width g div 2"
  shows "c ! i ! j = px ! ((k div 2) * (height g div 2) + i) ! ((k mod 2) * (width g div 2) + j)"
proof -
  let ?y = "(k div 2) * (height g div 2) + i" and ?x = "(k mod 2) * (width g div 2) + j"
  from \<open>k < 4\<close> have "k div 2 < 2" by simp
  then have "?y < 2 * (height g div 2)"
    using assms(6) by (cases "k div 2") (auto simp: less_Suc_eq)
  then have y: "?y < length px" using assms(1,2) by (simp add: wf_image_def)
  have "?x < 2 * (width g div 2)"
    using assms(7) by (cases "k mod 2 = 0") auto
  then have x: "?x < length (px ! ?y)"
    using assms(1,2) y by (auto simp: wf_image_def list_all_length)
  from split_nth [OF assms(3,4)] assms(2)
  have "cells ! k = \<lparr>width = width g div 2, height = height g div 2, pixels = Some
         (map (\<lambda>y. map (\<lambda>x. pixel_at px y x)
            [(k mod 2) * (width g div 2)..<(k mod 2) * (width g div 2) + width g div 2])
          [(k div 2) * (height g div 2)..<(k div 2) * (height g div 2) + height g div 2])\<rparr>"
    by (auto simp: cell_box_def crop_def)
  with assms(5)
  have "c = map (\<lambda>y. map (\<lambda>x. pixel_at px y x)
            [(k mod 2) * (width g div 2)..<(k mod 2) * (width g div 2) + width g div 2])
          [(k div 2) * (height g div 2)..<(k div 2) * (height g div 2) + height g div 2]"
    by simp
  with assms(6,7) have "c ! i ! j = pixel_at px ?y ?x" by simp
  with x y show ?thesis by (simp add: pixel_at_def)
qed

theorem split_grid_image_pixel_witness:
  "wf_image red_grid \<and> the (pixels (the (split_grid_image red_grid) ! 2)) ! 0 ! 0 = RGB 20 0 0"
  using split_grid_image_pixel [of red_grid _ _ 2 "[[RGB 20 0 0]]" 0 0, OF _ _ red_grid_split]
  by (simp add: red_grid_split) (simp add: red_grid_def wf_image_def)

section \<open>Properties of the selectors\<close>

text \<open>
  C36. \<^verbatim>\<open>analyze_grid_image\<close> returns the index of the first cell with the greatest
  score: an index below 4 whose score no cell exceeds and that every earlier cell misses.
\<close>

theorem analyze_grid_image_first_best:
  assumes "split_grid_image g = Some cells"
  shows "analyze_grid_image self lib g < 4
    \<and> (\<forall>j<4. analyze_image self lib (cells ! j)
            \<le> analyze_image self lib (cells ! analyze_grid_image self lib g))
    \<and> (\<forall>j<analyze_grid_image self lib g. analyze_image self lib (cells ! j)
            < analyze_image self lib (cells ! analyze_grid_image self lib g))"
proof -
  let ?best = "analyze_grid_image self lib g"
  note am = analyze_grid_image_eq [OF assms, of self lib]
  note len = split_length [OF assms]
  have best: "?best < 4" by (rule analyze_grid_image_less_4)
  have "analyze_image self lib (cells ! j) \<le> analyze_image self lib (cells ! ?best)"
    if "j < 4" for j
    using py_argmax_greatest [OF am, of j] that best len by simp
  moreover have "analyze_image self lib (cells ! j) < analyze_image self lib (cells ! ?best)"
    if "j < ?best" for j
    using py_argmax_first [OF am that] that best len by simp
  ultimately show ?thesis using best by blast
qed

theorem analyze_grid_image_first_best_witness:
  "split_grid_image red_grid \<noteq> None \<and> analyze_grid_image ImageAnalyzer red_lib red_grid = 1
   \<and> analyze_grid_image ImageAnalyzer red_lib red_grid < 4"
  using analyze_grid_image_first_best [OF red_grid_split, of ImageAnalyzer red_lib]
  by (simp add: red_grid_split red_grid_best)

text \<open>
  C37. A grid whose data cannot be decoded makes \<^verbatim>\<open>analyze_grid_image\<close> return index 0.
\<close>

theorem analyze_grid_image_undecodable:
  "analyze_grid_image self lib (g\<lparr>pixels := None\<rparr>) = 0"
  by (simp add: analyze_grid_image_def split_unloaded)

text \<open>
  C38. \<^verbatim>\<open>select_best_image\<close> sends one GET per URL, in order, and nothing else; for a
  non-empty list it returns the position of the first greatest score together with that
  score, which lies between 0 and 1; for the empty list it returns \<open>(0, 0)\<close>.
\<close>

theorem select_best_image_result:
  assumes "select_best_image ImageAnalyzer lib urls w = ((best, score), w')"
  shows "requests_log w' = requests_log w @ map get_request urls
    \<and> (if urls = [] then best = 0 \<and> score = 0
        else best < length urls \<and> 0 \<le> score \<and> score \<le> 1
          \<and> py_argmax (fst (score_urls ImageAnalyzer lib urls w)) = Some best
          \<and> score = fst (score_urls ImageAnalyzer lib urls w) ! best)"
proof -
  obtain scores w1 where s: "score_urls ImageAnalyzer lib urls w = (scores, w1)" by force
  have len: "length scores = length urls" using score_urls_length [of ImageAnalyzer lib urls w] s by simp
  have log: "requests_log w' = requests_log w @ map get_request urls"
    using score_urls_log [of ImageAnalyzer lib urls w] s assms by (simp add: select_best_image_def)
  show ?thesis
  proof (cases "urls = []")
    case True
    with assms s log show ?thesis by (simp add: select_best_image_def)
  next
    case False
    with len have "scores \<noteq> []" by auto
    then obtain i where i: "py_argmax scores = Some i" using py_argmax_total by blast
    then have "i < length scores" by (simp add: py_argmax_Some_iff)
    then have "scores ! i \<in> set (fst (score_urls ImageAnalyzer lib urls w))" using s by simp
    from score_urls_bounds [OF this] i s assms \<open>scores \<noteq> []\<close> \<open>i < length scores\<close> len log False
    show ?thesis by (auto simp: select_best_image_def)
  qed
qed

theorem select_best_image_result_witness:
  "fst (select_best_image ImageAnalyzer byte_lib [''u0'', ''u1'', ''u2''] cdn_world) = (2, 0.32)
   \<and> requests_log (snd (select_best_image ImageAnalyzer byte_lib [''u0'', ''u1'', ''u2''] cdn_world))
       = [get_request ''u0'', get_request ''u1'', get_request ''u2'']"
proof -
  let ?r = "select_best_image ImageAnalyzer byte_lib [''u0'', ''u1'', ''u2''] cdn_world"
  have am: "py_argmax [1 / 5, 23 / 100, 8 / 25 :: real] = Some i \<longleftrightarrow> i = 2" for i
    by (auto simp: py_argmax_def py_max_def)
  have w0: "requests_log cdn_world = []" by (simp add: cdn_world_def)
  from select_best_image_result [of byte_lib "[''u0'', ''u1'', ''u2'']" cdn_world
      "fst (fst ?r)" "snd (fst ?r)" "snd ?r"]
  have "fst (fst ?r) = 2" and "snd (fst ?r) = [0.2, 0.23, 0.32] ! fst (fst ?r)"
    and "requests_log (snd ?r) = [get_request ''u0'', get_request ''u1'', get_request ''u2'']"
    by (simp_all add: cdn_scores am w0 del: score_urls.simps)
  then show ?thesis by (simp add: prod_eq_iff)
qed

end
