(* ===== verification/Generator.thy ===== *)
theory Generator
  imports Image_Analyzer
begin

text \<open>
  The method \<^verbatim>\<open>AIContentGenerator.generate_image\<close> of
  \<^verbatim>\<open>src/src/content_generation/ai_content_generator.py\<close>: the submission of the imagine
  task, the polling loop, the selection and upscaling of a grid, and the final download.

  The method is one \<^verbatim>\<open>try\<close> block; the model cuts it into the definitions below along
  its nesting, outermost last. Each piece is an effect on the world that returns \<open>Inr\<close>
  of its value or \<open>Inl\<close> of the message of the exception it raises; the wrapper
  \<open>generate_image\<close> is the \<^verbatim>\<open>except\<close> clause that re-raises with a prefix. The two
  \<^verbatim>\<open>for ... in range(max_polls)\<close> loops are recursive functions on the number of
  attempts left, started with \<open>max_polls\<close>: the loop variable itself is only logged.
\<close>

section \<open>The generator and its requests\<close>

record generator =
  openai_api_key :: "string option"
  midjourney_api_key :: "string option"
  midjourney_api_url :: string
  openai_available :: bool
  midjourney_available :: bool
  static_dir :: string
  generated_images_dir :: string
  fallback_images_dir :: string
  image_analyzer :: image_analyzer

definition max_polls :: nat where
  "max_polls = 30"

definition poll_interval :: nat where
  "poll_interval = 10"

definition api_headers :: "generator \<Rightarrow> (string \<times> string option) list" where
  "api_headers self =
     [(''Content-Type'', Some ''application/json''), (''x-api-key'', midjourney_api_key self)]"

definition task_endpoint :: "generator \<Rightarrow> string" where
  "task_endpoint self = midjourney_api_url self @ ''/api/v1/task''"

definition task_url :: "py_lib \<Rightarrow> generator \<Rightarrow> json \<Rightarrow> string" where
  "task_url lib self task_id =
     midjourney_api_url self @ ''/api/v1/task/'' @ py_str (py_repr lib) task_id"

definition imagine_payload :: "string \<Rightarrow> json" where
  "imagine_payload prompt =
     JObj [(''model'', JStr ''midjourney''),
           (''task_type'', JStr ''imagine''),
           (''input'', JObj [(''prompt'', JStr prompt),
                             (''aspect_ratio'', JStr ''1:1''),
                             (''process_mode'', JStr ''fast''),
                             (''skip_prompt_check'', JBool False)])]"

definition upscale_payload :: "json \<Rightarrow> nat \<Rightarrow> json" where
  "upscale_payload task_id best_index =
     JObj [(''model'', JStr ''midjourney''),
           (''task_type'', JStr ''upscale''),
           (''input'', JObj [(''origin_task_id'', task_id),
                             (''index'', JStr (str_nat (best_index + 1)))])]"

section \<open>Polling the upscale task\<close>

datatype 'a loop_ctl = Break 'a | Continue

text \<open>
  What one iteration of the inner loop decides from a response: \<open>Break url\<close> leaves the
  loop with the image URL to use, \<open>Continue\<close> sleeps and polls again.
\<close>

definition upscale_poll_step :: "json \<Rightarrow> http_response \<Rightarrow> json loop_ctl raises" where
  "upscale_poll_step image_url upscale_status_response =
     (if status_code upscale_status_response = 200
      then bind_raises (body_json upscale_status_response) (\<lambda>upscale_status.
           bind_raises (bind_raises (data_get upscale_status ''status'' (JStr [])) str_lower)
             (\<lambda>upscale_status_str.
                if upscale_status_str = ''completed''
                then bind_raises (output_get upscale_status ''image_url'' JNull) (\<lambda>upscale_url.
                       Inr (if truthy upscale_url then Break upscale_url else Continue))
                else if upscale_status_str = ''failed'' then Inr (Break image_url)
                else Inr Continue))
      else Inr Continue)"

fun poll_upscale :: "py_lib \<Rightarrow> generator \<Rightarrow> json \<Rightarrow> json \<Rightarrow> nat \<Rightarrow> json raises effect" where
  "poll_upscale lib self upscale_task_id image_url 0 w = (Inr image_url, w)"
| "poll_upscale lib self upscale_task_id image_url (Suc n) w =
     (case requests_get (task_url lib self upscale_task_id) (api_headers self) 15 w of
        (Inl e, w1) \<Rightarrow> (Inl e, w1)
      | (Inr upscale_status_response, w1) \<Rightarrow>
          (case upscale_poll_step image_url upscale_status_response of
             Inl e \<Rightarrow> (Inl e, w1)
           | Inr (Break url) \<Rightarrow> (Inr url, w1)
           | Inr Continue \<Rightarrow>
               poll_upscale lib self upscale_task_id image_url n
                 (time_sleep (real poll_interval) w1)))"

section \<open>Requesting the upscale\<close>

definition request_upscale ::
  "py_lib \<Rightarrow> generator \<Rightarrow> json \<Rightarrow> json \<Rightarrow> nat \<Rightarrow> json raises effect" where
  "request_upscale lib self task_id image_url best_index w =
     (case requests_post (task_endpoint self) (api_headers self)
             (upscale_payload task_id best_index) 15 w of
        (Inl e, w1) \<Rightarrow> (Inl e, w1)
      | (Inr upscale_response, w1) \<Rightarrow>
          if status_code upscale_response \<noteq> 200 then (Inr image_url, w1)
          else (case bind_raises (body_json upscale_response)
                       (\<lambda>upscale_data. data_get upscale_data ''task_id'' JNull) of
                  Inl e \<Rightarrow> (Inl e, w1)
                | Inr upscale_task_id \<Rightarrow>
                    if \<not> truthy upscale_task_id then (Inr image_url, w1)
                    else poll_upscale lib self upscale_task_id image_url max_polls w1))"

section \<open>Selecting the best cell of a grid\<close>

text \<open>\<^verbatim>\<open>Image.open(path)\<close>: decodes the file stored under the path.\<close>

definition open_image :: "py_lib \<Rightarrow> string \<Rightarrow> world \<Rightarrow> rgb image raises" where
  "open_image lib path w =
     (case files w path of
        None \<Rightarrow> Inl (''[Errno 2] No such file or directory: '' @ path)
      | Some data \<Rightarrow> Image_open lib data)"

definition grid_filename :: "world \<Rightarrow> string" where
  "grid_filename w = ''midjourney_grid_'' @ str_int (time_now w) @ ''.jpg''"

text \<open>
  The branch \<^verbatim>\<open>if "upscale1" in actions\<close>: returns the URL of the image to download
  in the end, the one of the grid unless the upscale delivers another.
\<close>

definition select_and_upscale ::
  "py_lib \<Rightarrow> generator \<Rightarrow> json \<Rightarrow> json \<Rightarrow> json raises effect" where
  "select_and_upscale lib self task_id image_url w =
     (let grid_path = path_join (generated_images_dir self) (grid_filename w)
      in case requests_get (py_str (py_repr lib) image_url) [] 30 w of
           (Inl e, w1) \<Rightarrow> (Inl e, w1)
         | (Inr grid_response, w1) \<Rightarrow>
             if status_code grid_response = 200
             then (case write_file grid_path (content grid_response) w1 of
                     (Inl e, w2) \<Rightarrow> (Inl e, w2)
                   | (Inr written, w2) \<Rightarrow>
                       (case open_image lib grid_path w2 of
                          Inl e \<Rightarrow> (Inl e, w2)
                        | Inr grid_image \<Rightarrow>
                            request_upscale lib self task_id image_url
                              (analyze_grid_image (image_analyzer self) lib grid_image) w2))
             else (Inr image_url, w1))"

section \<open>The final download\<close>

definition image_filename :: "world \<Rightarrow> string" where
  "image_filename w = ''midjourney_'' @ str_int (time_now w) @ ''.jpg''"

definition download_final :: "py_lib \<Rightarrow> generator \<Rightarrow> json \<Rightarrow> string raises effect" where
  "download_final lib self image_url w =
     (let image_path = path_join (generated_images_dir self) (image_filename w)
      in case requests_get (py_str (py_repr lib) image_url) [] 30 w of
           (Inl e, w1) \<Rightarrow> (Inl e, w1)
         | (Inr img_response, w1) \<Rightarrow>
             if status_code img_response \<noteq> 200
             then (Inl (''Error downloading image: '' @ str_nat (status_code img_response)), w1)
             else (case write_file image_path (content img_response) w1 of
                     (Inl e, w2) \<Rightarrow> (Inl e, w2)
                   | (Inr written, w2) \<Rightarrow>
                       (Inr (''/static/generated_images/'' @ image_filename w), w2)))"

section \<open>A completed imagine task\<close>

definition on_completed ::
  "py_lib \<Rightarrow> generator \<Rightarrow> json \<Rightarrow> json \<Rightarrow> json \<Rightarrow> string raises effect" where
  "on_completed lib self task_id image_url actions w =
     (case str_in ''upscale1'' actions of
        Inl e \<Rightarrow> (Inl e, w)
      | Inr multiple \<Rightarrow>
          if multiple
          then (case select_and_upscale lib self task_id image_url w of
                  (Inl e, w1) \<Rightarrow> (Inl e, w1)
                | (Inr final_url, w1) \<Rightarrow> download_final lib self final_url w1)
          else download_final lib self image_url w)"

section \<open>Polling the imagine task\<close>

datatype poll_verdict = Completed json json | Waiting

text \<open>
  What one iteration of the outer loop decides from a response: \<open>Completed image_url
  actions\<close> enters the branch of a completed task, \<open>Waiting\<close> sleeps and polls again, and
  \<open>Inl\<close> is an exception: the one the code raises for a failed task or for a completed
  task without an image URL, or one raised by reading the response.
\<close>

definition imagine_poll_step :: "py_lib \<Rightarrow> http_response \<Rightarrow> poll_verdict raises" where
  "imagine_poll_step lib status_response =
     (if status_code status_response \<noteq> 200 then Inr Waiting
      else bind_raises (body_json status_response) (\<lambda>status_result.
           bind_raises (bind_raises (data_get status_result ''status'' (JStr [])) str_lower)
             (\<lambda>status.
                if status = ''completed''
                then bind_raises (output_get status_result ''image_url'' JNull) (\<lambda>image_url.
                     bind_raises (output_get status_result ''actions'' (JArr [])) (\<lambda>actions.
                       if \<not> truthy image_url then Inl ''No image_url in completed task''
                       else Inr (Completed image_url actions)))
                else if status = ''failed''
                then bind_raises
                       (bind_raises (data_get status_result ''error'' (JObj []))
                          (\<lambda>err. dict_get err ''message'' (JStr ''Unknown error'')))
                       (\<lambda>error. Inl (''Midjourney task failed: '' @ py_str (py_repr lib) error))
                else if status \<in> set [''processing'', ''pending'', ''staged'']
                then bind_raises (output_get status_result ''progress'' (JInt 0))
                       (\<lambda>progress. Inr Waiting)
                else Inr Waiting)))"

fun poll_imagine :: "py_lib \<Rightarrow> generator \<Rightarrow> json \<Rightarrow> nat \<Rightarrow> string raises effect" where
  "poll_imagine lib self task_id 0 w =
     (Inl ''Timed out waiting for Midjourney task to complete'', w)"
| "poll_imagine lib self task_id (Suc n) w =
     (case requests_get (task_url lib self task_id) (api_headers self) 15 w of
        (Inl e, w1) \<Rightarrow> (Inl e, w1)
      | (Inr status_response, w1) \<Rightarrow>
          (case imagine_poll_step lib status_response of
             Inl e \<Rightarrow> (Inl e, w1)
           | Inr (Completed image_url actions) \<Rightarrow>
               on_completed lib self task_id image_url actions w1
           | Inr Waiting \<Rightarrow>
               poll_imagine lib self task_id n (time_sleep (real poll_interval) w1)))"

section \<open>generate_image\<close>

text \<open>The body of the \<^verbatim>\<open>try\<close> block.\<close>

definition generate_image_try :: "py_lib \<Rightarrow> generator \<Rightarrow> string \<Rightarrow> string raises effect" where
  "generate_image_try lib self prompt w =
     (case requests_post (task_endpoint self) (api_headers self) (imagine_payload prompt) 15 w of
        (Inl e, w1) \<Rightarrow> (Inl e, w1)
      | (Inr response, w1) \<Rightarrow>
          (case body_json response of
             Inl e \<Rightarrow> (Inl e, w1)
           | Inr response_data \<Rightarrow>
               if status_code response \<noteq> 200
               then (Inl (''Midjourney API error: '' @ str_nat (status_code response) @ '' - ''
                          @ body_text response), w1)
               else (case data_get response_data ''task_id'' JNull of
                       Inl e \<Rightarrow> (Inl e, w1)
                     | Inr task_id \<Rightarrow>
                         if \<not> truthy task_id
                         then (Inl ''No task_id in Midjourney API response'', w1)
                         else poll_imagine lib self task_id max_polls w1)))"

definition failure_prefix :: string where
  "failure_prefix = ''Failed to generate image with Midjourney: ''"

definition generate_image :: "py_lib \<Rightarrow> generator \<Rightarrow> string \<Rightarrow> string raises effect" where
  "generate_image lib self prompt w =
     (case generate_image_try lib self prompt w of
        (Inl e, w1) \<Rightarrow> (Inl (failure_prefix @ e), w1)
      | (Inr image_path, w1) \<Rightarrow> (Inr image_path, w1))"

lemmas generator_defs [py_defs] = api_headers_def task_endpoint_def task_url_def
  imagine_payload_def upscale_payload_def max_polls_def poll_interval_def grid_filename_def
  image_filename_def failure_prefix_def

section \<open>Requests and answers\<close>

text \<open>
  The two requests of the task API, and what the lemmas assume of the remote side: that
  a response accepts a submitted task under an identifier, and that the answer to the
  \<open>n\<close>-th request of the run makes the outer loop wait (\<open>waits_at\<close>) or the inner loop
  continue (\<open>continues_at\<close>).
\<close>

definition poll_request :: "py_lib \<Rightarrow> generator \<Rightarrow> json \<Rightarrow> http_request" where
  "poll_request lib self task_id = \<lparr>req_method = GET, req_url = task_url lib self task_id,
     req_headers = api_headers self, req_json = None, req_timeout = 15\<rparr>"

definition task_request :: "generator \<Rightarrow> json \<Rightarrow> http_request" where
  "task_request self payload = \<lparr>req_method = POST, req_url = task_endpoint self,
     req_headers = api_headers self, req_json = Some payload, req_timeout = 15\<rparr>"

definition accepts :: "http_response \<Rightarrow> json \<Rightarrow> bool" where
  "accepts response task_id \<longleftrightarrow>
     status_code response = 200 \<and> truthy task_id \<and>
     bind_raises (body_json response) (\<lambda>d. data_get d ''task_id'' JNull) = Inr task_id"

text \<open>
  \<open>storable self w\<close>: the directory of generated images exists in \<open>w\<close> and is named as
  \<^verbatim>\<open>os.path.join\<close> names it, so that a file can be written into it.
\<close>

definition storable :: "generator \<Rightarrow> world \<Rightarrow> bool" where
  "storable self w \<longleftrightarrow>
     generated_images_dir self \<in> dirs w \<and> generated_images_dir self \<noteq> [] \<and>
     last (generated_images_dir self) \<noteq> CHR ''/''"

definition waits_at :: "py_lib \<Rightarrow> generator \<Rightarrow> json \<Rightarrow> world \<Rightarrow> nat \<Rightarrow> bool" where
  "waits_at lib self task_id w n \<longleftrightarrow>
     (case remote w n (poll_request lib self task_id) of
        Inl e \<Rightarrow> False
      | Inr r \<Rightarrow> imagine_poll_step lib r = Inr Waiting)"

definition continues_at :: "py_lib \<Rightarrow> generator \<Rightarrow> json \<Rightarrow> json \<Rightarrow> world \<Rightarrow> nat \<Rightarrow> bool" where
  "continues_at lib self upscale_task_id image_url w n \<longleftrightarrow>
     (case remote w n (poll_request lib self upscale_task_id) of
        Inl e \<Rightarrow> False
      | Inr r \<Rightarrow> upscale_poll_step image_url r = Inr Continue)"

section \<open>File names\<close>

lemma str_int_no_slash: "CHR ''/'' \<notin> set (str_int i)"
proof -
  have "CHR ''/'' \<notin> set (str_nat n)" for n
    using str_nat_digits [of n] by (auto simp: list_all_iff is_digit_def)
  then show ?thesis
    by (simp add: str_int_def)
qed

lemma filename_no_slash:
  "CHR ''/'' \<notin> set (grid_filename w)" "CHR ''/'' \<notin> set (image_filename w)"
  by (simp_all add: grid_filename_def image_filename_def str_int_no_slash)

lemma storable_frame: "dirs w' = dirs w \<Longrightarrow> storable self w' = storable self w"
  by (simp add: storable_def)

lemma storable_writable:
  assumes "storable self w" "CHR ''/'' \<notin> set name" "name \<noteq> []"
  shows "writable (path_join (generated_images_dir self) name) w"
  using assms dirname_path_join [of "generated_images_dir self" name]
  by (simp add: storable_def writable_def)

lemma storable_filenames [simp]:
  "storable self w \<Longrightarrow> writable (path_join (generated_images_dir self) (grid_filename w0)) w"
  "storable self w \<Longrightarrow> writable (path_join (generated_images_dir self) (image_filename w0)) w"
  by (auto intro!: storable_writable simp: filename_no_slash)
    (simp_all add: grid_filename_def image_filename_def)

section \<open>The requests sent\<close>

lemma requests_get_poll:
  "requests_get (task_url lib self task_id) (api_headers self) 15 = requests_send (poll_request lib self task_id)"
  by (simp add: requests_get_def poll_request_def)

lemma requests_post_task:
  "requests_post (task_endpoint self) (api_headers self) payload 15 = requests_send (task_request self payload)"
  by (simp add: requests_post_def task_request_def)

lemma requests_get_plain: "requests_get url [] 30 = requests_send (get_request url)"
  by (simp add: requests_get_def get_request_def)

lemmas requests_eq = requests_get_poll requests_post_task requests_get_plain

section \<open>One iteration of the outer loop\<close>

lemma waits_at_remote: "remote w' = remote w \<Longrightarrow> waits_at lib self tid w' = waits_at lib self tid w"
  by (simp add: waits_at_def fun_eq_iff)

lemma poll_imagine_waits:
  assumes "waits_at lib self tid w (length (requests_log w))"
  shows "poll_imagine lib self tid (Suc n) w =
     poll_imagine lib self tid n
       (time_sleep (real poll_interval) (snd (requests_send (poll_request lib self tid) w)))"
  using assms
  by (auto simp: waits_at_def requests_eq case_prod_beta split: sum.splits)

lemma poll_imagine_completed:
  assumes "remote w (length (requests_log w)) (poll_request lib self tid) = Inr r"
    and "imagine_poll_step lib r = Inr (Completed url actions)"
  shows "poll_imagine lib self tid (Suc n) w =
     on_completed lib self tid url actions (snd (requests_send (poll_request lib self tid) w))"
  using assms by (simp add: requests_eq case_prod_beta)

lemma poll_imagine_raises:
  assumes "remote w (length (requests_log w)) (poll_request lib self tid) = Inr r"
    and "imagine_poll_step lib r = Inl e"
  shows "poll_imagine lib self tid (Suc n) w =
     (Inl e, snd (requests_send (poll_request lib self tid) w))"
  using assms by (simp add: requests_eq case_prod_beta)

lemma poll_imagine_transport:
  assumes "remote w (length (requests_log w)) (poll_request lib self tid) = Inl e"
  shows "poll_imagine lib self tid (Suc n) w =
     (Inl e, snd (requests_send (poll_request lib self tid) w))"
  using assms by (simp add: requests_eq case_prod_beta)

section \<open>One iteration of the inner loop\<close>

lemma continues_at_remote:
  "remote w' = remote w \<Longrightarrow> continues_at lib self tid url w' = continues_at lib self tid url w"
  by (simp add: continues_at_def fun_eq_iff)

lemma poll_upscale_continues:
  assumes "continues_at lib self tid url w (length (requests_log w))"
  shows "poll_upscale lib self tid url (Suc n) w =
     poll_upscale lib self tid url n
       (time_sleep (real poll_interval) (snd (requests_send (poll_request lib self tid) w)))"
  using assms
  by (auto simp: continues_at_def requests_eq case_prod_beta split: sum.splits)

lemma poll_upscale_breaks:
  assumes "remote w (length (requests_log w)) (poll_request lib self tid) = Inr r"
    and "upscale_poll_step url r = Inr (Break u)"
  shows "poll_upscale lib self tid url (Suc n) w =
     (Inr u, snd (requests_send (poll_request lib self tid) w))"
  using assms by (simp add: requests_eq case_prod_beta)

lemma upscale_poll_step_Break:
  "upscale_poll_step url r = Inr (Break u) \<Longrightarrow> u = url \<or> truthy u"
  unfolding upscale_poll_step_def
  by (auto simp: bind_raises_Inr_iff split: if_splits)

section \<open>The steps of generate_image\<close>

lemma generate_image_try_accepted:
  assumes "remote w (length (requests_log w)) (task_request self (imagine_payload prompt)) = Inr response"
    and "accepts response task_id"
  shows "generate_image_try lib self prompt w =
     poll_imagine lib self task_id max_polls
       (snd (requests_send (task_request self (imagine_payload prompt)) w))"
  using assms
  by (auto simp: generate_image_try_def accepts_def requests_eq case_prod_beta bind_raises_def
      split: sum.splits)

lemma request_upscale_accepted:
  assumes "remote w (length (requests_log w)) (task_request self (upscale_payload tid best)) = Inr response"
    and "accepts response upscale_task_id"
  shows "request_upscale lib self tid url best w =
     poll_upscale lib self upscale_task_id url max_polls
       (snd (requests_send (task_request self (upscale_payload tid best)) w))"
  using assms
  by (auto simp: request_upscale_def accepts_def requests_eq case_prod_beta split: sum.splits)

lemma request_upscale_rejected:
  assumes "remote w (length (requests_log w)) (task_request self (upscale_payload tid best)) = Inr response"
    and "status_code response \<noteq> 200"
  shows "request_upscale lib self tid url best w =
     (Inr url, snd (requests_send (task_request self (upscale_payload tid best)) w))"
  using assms by (simp add: request_upscale_def requests_eq case_prod_beta)

lemma select_and_upscale_decoded:
  assumes "remote w (length (requests_log w)) (get_request (py_str (py_repr lib) url)) = Inr grid"
    and "status_code grid = 200" and "Image_open lib (content grid) = Inr img"
    and "storable self w"
  shows "select_and_upscale lib self tid url w =
     request_upscale lib self tid url (analyze_grid_image (image_analyzer self) lib img)
       (store (path_join (generated_images_dir self) (grid_filename w)) (content grid)
          (snd (requests_send (get_request (py_str (py_repr lib) url)) w)))"
  using assms
  by (simp add: select_and_upscale_def open_image_def requests_eq case_prod_beta Let_def
      storable_frame [of "snd (requests_send (get_request (py_str (py_repr lib) url)) w)" w])

lemma select_and_upscale_unavailable:
  assumes "remote w (length (requests_log w)) (get_request (py_str (py_repr lib) url)) = Inr grid"
    and "status_code grid \<noteq> 200"
  shows "select_and_upscale lib self tid url w =
     (Inr url, snd (requests_send (get_request (py_str (py_repr lib) url)) w))"
  using assms by (simp add: select_and_upscale_def requests_eq case_prod_beta Let_def)

lemma download_final_ok:
  assumes "remote w (length (requests_log w)) (get_request (py_str (py_repr lib) url)) = Inr response"
    and "status_code response = 200" and "storable self w"
  shows "download_final lib self url w =
     (Inr (''/static/generated_images/'' @ image_filename w),
      store (path_join (generated_images_dir self) (image_filename w)) (content response)
        (snd (requests_send (get_request (py_str (py_repr lib) url)) w)))"
  using assms
  by (simp add: download_final_def requests_eq case_prod_beta Let_def
      storable_frame [of "snd (requests_send (get_request (py_str (py_repr lib) url)) w)" w])

lemma on_completed_single:
  "str_in ''upscale1'' actions = Inr False \<Longrightarrow>
     on_completed lib self tid url actions w = download_final lib self url w"
  by (simp add: on_completed_def)

lemma on_completed_grid:
  assumes "str_in ''upscale1'' actions = Inr True"
    and "select_and_upscale lib self tid url w = (Inr final_url, w1)"
  shows "on_completed lib self tid url actions w = download_final lib self final_url w1"
  using assms by (simp add: on_completed_def)

lemma generate_image_Inr:
  "generate_image_try lib self prompt w = (Inr p, w') \<Longrightarrow> generate_image lib self prompt w = (Inr p, w')"
  by (simp add: generate_image_def)

lemma generate_image_Inl:
  "generate_image_try lib self prompt w = (Inl e, w') \<Longrightarrow>
     generate_image lib self prompt w = (Inl (failure_prefix @ e), w')"
  by (simp add: generate_image_def)

lemma generate_image_fst:
  "fst (generate_image lib self prompt w) =
     (case fst (generate_image_try lib self prompt w) of
        Inl e \<Rightarrow> Inl (failure_prefix @ e) | Inr p \<Rightarrow> Inr p)"
  by (simp add: generate_image_def split: prod.splits sum.splits)

lemma generate_image_world:
  "snd (generate_image lib self prompt w) = snd (generate_image_try lib self prompt w)"
  by (simp add: generate_image_def split: prod.splits sum.splits)

end
