(* ===== verification/Generator_Examples.thy ===== *)
theory Generator_Examples
  imports Generator
begin

text \<open>
  Example inputs for the generator: a generator, responses of the task API and worlds
  that script a whole exchange, with what the two loops decide from their responses.
\<close>

section \<open>A generator and responses\<close>

text \<open>
  A generator, and responses of the task API: an accepted submission, a status report, an
  image.
\<close>

definition studio :: generator where
  "studio = \<lparr>openai_api_key = None, midjourney_api_key = Some ''key'',
     midjourney_api_url = ''https://api.goapi.ai'', openai_available = False,
     midjourney_available = False, static_dir = ''static'',
     generated_images_dir = ''static/generated_images'',
     fallback_images_dir = ''static/fallback_images'', image_analyzer = ImageAnalyzer\<rparr>"

definition json_response :: "json \<Rightarrow> http_response" where
  "json_response v = \<lparr>status_code = 200, body_text = [], body_json = Inr v, content = []\<rparr>"

definition accepted_json :: "string \<Rightarrow> json" where
  "accepted_json task_id = JObj [(''data'', JObj [(''task_id'', JStr task_id)])]"

definition status_json :: "string \<Rightarrow> (string \<times> json) list \<Rightarrow> json" where
  "status_json status output =
     JObj [(''data'', JObj [(''status'', JStr status), (''output'', JObj output)])]"

definition image_response :: "bytes \<Rightarrow> http_response" where
  "image_response data = \<lparr>status_code = 200, body_text = [], body_json = Inl ''Expecting value'',
     content = data\<rparr>"

definition null_output :: http_response where
  "null_output = json_response
     (JObj [(''data'', JObj [(''status'', JStr ''pending''), (''output'', JNull)])])"

definition four_actions :: json where
  "four_actions = JArr [JStr ''upscale1'', JStr ''upscale2'', JStr ''upscale3'', JStr ''upscale4'']"

definition grid_lib :: py_lib where
  "grid_lib = red_lib\<lparr>Image_open := (\<lambda>b. Inr red_grid)\<rparr>"

section \<open>Scripted worlds\<close>

text \<open>
  Worlds, each answering the \<open>n\<close>-th request of a run: \<open>scripted answers\<close> starts at
  time 0 with no request sent, no file and the directories of \<open>studio\<close>, and takes one
  second for every request. \<open>stalled\<close>: the task never leaves
  \<^verbatim>\<open>Processing\<close>. \<open>ready_at_30\<close>: it completes with a single image at the 30th poll.
  \<open>upscaling\<close>: it completes at once with a grid that \<open>grid_lib\<close> decodes to \<open>red_grid\<close>;
  the upscale of cell 1 only (index \<^verbatim>\<open>"2"\<close>) is accepted and delivered at the second
  poll. \<open>rejecting\<close>: the upscale request is answered 500. \<open>upscale_stalled\<close>: the
  upscale task never leaves \<^verbatim>\<open>processing\<close>. \<open>grid_gone\<close>: the download of the grid is
  answered 404. \<open>dropping\<close>: the third poll raises in the transport. \<open>bad_gateway\<close>: the
  submission is answered 502 with a body that is not JSON.
\<close>

definition scripted :: "(nat \<Rightarrow> http_request \<Rightarrow> http_response raises) \<Rightarrow> world" where
  "scripted answers = \<lparr>remote = answers, latency = (\<lambda>n. 1), requests_log = [], clock = 0,
     sleeps = [], files = Map.empty,
     dirs = {''static'', ''static/generated_images'', ''static/fallback_images''}\<rparr>"

definition stalled :: world where
  "stalled = scripted (\<lambda>n rq. Inr (json_response
        (if n = 0 then accepted_json ''t1'' else status_json ''Processing'' [(''progress'', JInt 40)])))"

definition ready_at_30 :: world where
  "ready_at_30 = scripted (\<lambda>n rq.
        if n = 0 then Inr (json_response (accepted_json ''t1''))
        else if n < 30 then Inr (json_response (status_json ''Processing'' [(''progress'', JInt 40)]))
        else if n = 30 then Inr (json_response (status_json ''completed''
               [(''image_url'', JStr ''https://cdn/a.png''), (''actions'', JArr [JStr ''reroll''])]))
        else Inr (image_response [7]))"

definition upscaling :: world where
  "upscaling = scripted (\<lambda>n rq.
        if n = 0 then Inr (json_response (accepted_json ''t1''))
        else if n = 1 then Inr (json_response (status_json ''completed''
               [(''image_url'', JStr ''https://cdn/grid.png''), (''actions'', four_actions)]))
        else if n = 2 then Inr (image_response [1])
        else if n = 3 then
          (if req_json rq = Some (upscale_payload (JStr ''t1'') 1)
           then Inr (json_response (accepted_json ''t2'')) else Inl ''unexpected request'')
        else if n = 4 then Inr (json_response (status_json ''processing'' []))
        else if n = 5 then Inr (json_response (status_json ''completed''
               [(''image_url'', JStr ''https://cdn/up.png'')]))
        else Inr (image_response (if req_url rq = ''https://cdn/up.png'' then [9] else [1])))"

definition rejecting :: world where
  "rejecting = scripted (\<lambda>n rq.
     if n < 3 then remote upscaling n rq
     else if n = 3 then Inr \<lparr>status_code = 500, body_text = ''busy'',
                               body_json = Inl ''Expecting value'', content = []\<rparr>
     else Inr (image_response (if req_url rq = ''https://cdn/grid.png'' then [1] else [9])))"

definition upscale_stalled :: world where
  "upscale_stalled = scripted (\<lambda>n rq.
     if n < 4 then remote upscaling n rq
     else Inr (json_response (status_json ''processing'' [])))"

definition grid_gone :: world where
  "grid_gone = scripted (\<lambda>n rq.
     if n < 2 then remote upscaling n rq
     else if n = 2 then Inr \<lparr>status_code = 404, body_text = ''not found'',
                               body_json = Inl ''Expecting value'', content = []\<rparr>
     else Inr (image_response [5]))"

definition dropping :: world where
  "dropping = scripted (\<lambda>n rq.
     if n = 3 then Inl ''Connection reset by peer'' else remote ready_at_30 n rq)"

definition bad_gateway :: world where
  "bad_gateway = scripted (\<lambda>n rq. Inr \<lparr>status_code = 502, body_text = ''Bad Gateway'',
     body_json = Inl ''Expecting value: line 1 column 1 (char 0)'', content = []\<rparr>)"

section \<open>The start of a scripted world\<close>

lemma scripted_fields [simp]:
  "remote (scripted answers) = answers" "latency (scripted answers) = (\<lambda>n. 1)"
  "requests_log (scripted answers) = []" "clock (scripted answers) = 0"
  "sleeps (scripted answers) = []" "files (scripted answers) = Map.empty"
  "dirs (scripted answers) = {''static'', ''static/generated_images'', ''static/fallback_images''}"
  by (simp_all add: scripted_def)

lemma clock_after_scripted [simp]: "clock_after d (scripted answers) r s = real s * d + real r"
  by (simp add: clock_after_def sum_list_triv)

lemma storable_studio [simp]: "storable studio (scripted answers)"
  by (simp add: storable_def studio_def)

lemma wf_world_scripted [simp]: "wf_world (scripted answers)"
  by (simp add: wf_world_def)

lemma studio_path [simp]:
  "CHR ''/'' \<notin> set name \<Longrightarrow> name \<noteq> [] \<Longrightarrow>
     path_join (generated_images_dir studio) name = ''static/generated_images/'' @ name"
  by (cases name) (auto simp: path_join_def studio_def)

lemma scripted_start:
  assumes "w = scripted answers"
  shows "requests_log w = []" "sleeps w = []" "files w = Map.empty" "storable studio w"
    "wf_world w" "clock_after d w r s = real s * d + real r"
  by (simp_all add: assms)

lemmas worlds_start [simp] =
  scripted_start [OF stalled_def]
  scripted_start [OF ready_at_30_def]
  scripted_start [OF upscaling_def]
  scripted_start [OF rejecting_def]
  scripted_start [OF upscale_stalled_def]
  scripted_start [OF grid_gone_def]
  scripted_start [OF dropping_def]
  scripted_start [OF bad_gateway_def]

section \<open>What the loops decide from the responses\<close>

lemma accepts_accepted_json: "t \<noteq> [] \<Longrightarrow> accepts (json_response (accepted_json t)) (JStr t)"
  by (simp add: accepts_def json_response_def accepted_json_def data_get_def)

lemma status_of_status_json:
  "bind_raises (data_get (status_json s out) ''status'' (JStr [])) str_lower = Inr (py_lower s)"
  by (simp add: status_json_def data_get_def)

lemma imagine_poll_step_processing:
  "imagine_poll_step lib (json_response (status_json ''Processing'' out)) = Inr Waiting"
  by (simp add: imagine_poll_step_def json_response_def status_of_status_json lower_char_def
      status_json_def output_get_def data_get_def)

lemma imagine_poll_step_completed:
  "u \<noteq> [] \<Longrightarrow>
   imagine_poll_step lib (json_response (status_json ''completed''
       [(''image_url'', JStr u), (''actions'', acts)])) = Inr (Completed (JStr u) acts)"
  by (simp add: imagine_poll_step_def json_response_def status_of_status_json lower_char_def
      status_json_def output_get_def data_get_def)

lemma upscale_poll_step_processing:
  "upscale_poll_step url (json_response (status_json ''processing'' out)) = Inr Continue"
  by (simp add: upscale_poll_step_def json_response_def status_of_status_json lower_char_def)

lemma upscale_poll_step_completed:
  "u \<noteq> [] \<Longrightarrow>
   upscale_poll_step url (json_response (status_json ''completed'' [(''image_url'', JStr u)]))
     = Inr (Break (JStr u))"
  by (simp add: upscale_poll_step_def json_response_def status_of_status_json lower_char_def
      status_json_def output_get_def data_get_def)

end
