(* ===== verification/Generator_Budget.thy ===== *)
theory Generator_Budget
  imports Generator_Examples
begin

text \<open>
  What holds of every run of \<^verbatim>\<open>generate_image\<close>, whatever the remote side answers: how
  many requests and sleeps each part may spend, that the world stays well-formed, and
  the shape of what is returned or raised.
\<close>

abbreviation pause :: "real set" where
  "pause \<equiv> {real poll_interval}"

text \<open>
  \<open>delivered self p w\<close>: \<open>p\<close> is the static path of a file \<^verbatim>\<open>midjourney_....jpg\<close> that
  exists in the directory of generated images of \<open>w\<close>.
\<close>

definition delivered :: "generator \<Rightarrow> string \<Rightarrow> world \<Rightarrow> bool" where
  "delivered self p w \<longleftrightarrow>
     (\<exists>name. p = ''/static/generated_images/'' @ name \<and>
        prefix ''midjourney_'' name \<and> suffix ''.jpg'' name \<and>
        path_join (generated_images_dir self) name \<in> dom (files w))"

section \<open>Budgets\<close>

lemma poll_upscale_spends:
  "spends n n pause w (snd (poll_upscale lib self tid url n w))"
proof (induction n arbitrary: w)
  case 0
  show ?case by simp
next
  case (Suc n)
  let ?w1 = "snd (requests_send (poll_request lib self tid) w)"
  have "spends n (Suc n) pause ?w1
      (snd (poll_upscale lib self tid url n (time_sleep (real poll_interval) ?w1)))"
    using spends_trans [OF spends_sleep [where D = pause and w = ?w1] Suc.IH] by simp
  then have "spends (Suc n) (Suc n) pause w
      (snd (poll_upscale lib self tid url n (time_sleep (real poll_interval) ?w1)))"
    by (rule spends_step) simp_all
  then show ?case
    by (auto simp: requests_eq case_prod_beta spends_send_le split: sum.splits loop_ctl.splits)
qed

lemma request_upscale_spends:
  "spends (Suc max_polls) max_polls pause w (snd (request_upscale lib self tid url best w))"
  unfolding request_upscale_def
  by (auto simp: requests_eq case_prod_beta spends_send_le
      intro: spends_step [OF poll_upscale_spends] split: sum.splits)

lemma download_final_spends: "spends 1 0 pause w (snd (download_final lib self url w))"
  unfolding download_final_def
  by (auto simp: requests_eq case_prod_beta Let_def spends_send_le
      intro: spends_trans [OF spends_send spends_write_file, simplified] split: sum.splits)

lemma select_and_upscale_spends:
  "spends (Suc (Suc max_polls)) max_polls pause w (snd (select_and_upscale lib self tid url w))"
  unfolding select_and_upscale_def
  by (auto simp: requests_eq case_prod_beta Let_def spends_send_le
      intro!: spends_step [OF spends_trans [OF spends_write_file request_upscale_spends]]
              spends_step [OF spends_write_file]
      split: sum.splits)

lemma on_completed_spends:
  "spends (max_polls + 3) max_polls pause w (snd (on_completed lib self tid url actions w))"
  unfolding on_completed_def
  by (auto simp: case_prod_beta
      intro: spends_mono [OF download_final_spends]
             spends_mono [OF spends_trans [OF select_and_upscale_spends download_final_spends]]
             spends_mono [OF select_and_upscale_spends]
      split: sum.splits)

lemma poll_imagine_spends:
  "spends (n + max_polls + 3) (n + max_polls - 1) pause w (snd (poll_imagine lib self tid n w))"
proof (induction n arbitrary: w)
  case 0
  show ?case by simp
next
  case (Suc n)
  let ?w1 = "snd (requests_send (poll_request lib self tid) w)"
  have "spends (n + max_polls + 3) (Suc n + max_polls - 1) pause ?w1
      (snd (poll_imagine lib self tid n (time_sleep (real poll_interval) ?w1)))"
    using spends_trans [OF spends_sleep [where D = pause and w = ?w1] Suc.IH]
    by (auto elim!: spends_mono simp: max_polls_def)
  then have "spends (Suc n + max_polls + 3) (Suc n + max_polls - 1) pause w
      (snd (poll_imagine lib self tid n (time_sleep (real poll_interval) ?w1)))"
    by (rule spends_step) simp_all
  moreover have "spends (Suc n + max_polls + 3) (Suc n + max_polls - 1) pause w
      (snd (on_completed lib self tid url actions ?w1))" for url actions
    by (rule spends_step [OF on_completed_spends]) simp_all
  ultimately show ?case
    by (auto simp: requests_eq case_prod_beta spends_send_le split: sum.splits poll_verdict.splits)
qed

lemma generate_image_try_spends:
  "spends (2 * max_polls + 4) (2 * max_polls - 1) pause w (snd (generate_image_try lib self prompt w))"
  unfolding generate_image_try_def
  by (auto simp: requests_eq case_prod_beta spends_send_le
      intro: spends_step [OF poll_imagine_spends] split: sum.splits)

lemma generate_image_spends:
  "spends 64 59 pause w (snd (generate_image lib self prompt w))"
  using generate_image_try_spends [where w = w and lib = lib and self = self and prompt = prompt]
  by (simp add: generate_image_world max_polls_def)

section \<open>What is returned\<close>

lemma image_filename_shape:
  "prefix ''midjourney_'' (image_filename w) \<and> suffix ''.jpg'' (image_filename w)"
  unfolding image_filename_def
  by (intro conjI suffixI [of _ "''midjourney_'' @ str_int (time_now w)"]) simp_all

lemma download_final_delivered:
  assumes "fst (download_final lib self url w) = Inr p"
  shows "delivered self p (snd (download_final lib self url w))"
proof -
  from assms have "p = ''/static/generated_images/'' @ image_filename w"
    "path_join (generated_images_dir self) (image_filename w)
       \<in> dom (files (snd (download_final lib self url w)))"
    unfolding download_final_def
    by (auto simp: case_prod_beta Let_def dest!: write_file_Inr split: sum.splits if_splits)
  then show ?thesis
    unfolding delivered_def using image_filename_shape [of w] by blast
qed

lemma on_completed_delivered:
  "fst (on_completed lib self tid url actions w) = Inr p \<Longrightarrow>
     delivered self p (snd (on_completed lib self tid url actions w))"
  unfolding on_completed_def
  by (auto simp: case_prod_beta intro: download_final_delivered split: sum.splits if_splits)

lemma poll_imagine_delivered:
  "fst (poll_imagine lib self tid n w) = Inr p \<Longrightarrow> delivered self p (snd (poll_imagine lib self tid n w))"
  by (induction n arbitrary: w)
    (auto simp: case_prod_beta intro: on_completed_delivered split: sum.splits poll_verdict.splits)

lemma generate_image_try_delivered:
  "fst (generate_image_try lib self prompt w) = Inr p \<Longrightarrow>
     delivered self p (snd (generate_image_try lib self prompt w))"
  unfolding generate_image_try_def
  by (auto simp: case_prod_beta intro: poll_imagine_delivered split: sum.splits if_splits)

section \<open>The URL that is downloaded\<close>

lemma poll_upscale_Inr:
  "fst (poll_upscale lib self utid url n w) = Inr u \<Longrightarrow> u = url \<or> truthy u"
  by (induction n arbitrary: w)
    (auto simp: case_prod_beta dest: upscale_poll_step_Break split: sum.splits loop_ctl.splits)

lemma request_upscale_Inr:
  "fst (request_upscale lib self tid url best w) = Inr u \<Longrightarrow> u = url \<or> truthy u"
  unfolding request_upscale_def
  by (auto simp: case_prod_beta dest: poll_upscale_Inr split: sum.splits if_splits)

section \<open>Properties of every run\<close>

text \<open>
  C7. Whatever the remote side answers, generate_image sends at most 64 requests and
  sleeps at most 59 times, 10 seconds each time, so at most 590 seconds; it only appends
  to the log of requests and removes no file.
\<close>

theorem generate_image_budget:
  "spends 64 59 {10} w (snd (generate_image lib self prompt w)) \<and>
   prefix (requests_log w) (requests_log (snd (generate_image lib self prompt w))) \<and>
   length (requests_log (snd (generate_image lib self prompt w))) \<le> length (requests_log w) + 64 \<and>
   sum_list (sleeps (snd (generate_image lib self prompt w))) \<le> sum_list (sleeps w) + 590"
proof -
  have s: "spends 64 59 pause w (snd (generate_image lib self prompt w))"
    by (rule generate_image_spends)
  from s spends_log [OF s] spends_sleep_time [OF s] show ?thesis
    by (simp add: poll_interval_def)
qed



text \<open>
  C10. generate_image either raises an exception whose message begins with
  \<^verbatim>\<open>Failed to generate image with Midjourney: \<close> or returns a path
  \<^verbatim>\<open>/static/generated_images/midjourney_....jpg\<close> whose file exists in the directory
  of generated images when it returns.
\<close>

theorem generate_image_result:
  "case fst (generate_image lib self prompt w) of
     Inl e \<Rightarrow> prefix failure_prefix e
   | Inr p \<Rightarrow> delivered self p (snd (generate_image lib self prompt w))"
  using generate_image_try_delivered [of lib self prompt w]
  by (simp add: generate_image_fst generate_image_world split: sum.splits)

text \<open>
  C20. The branch for a grid never raises because an upscale failed, and the URL it hands
  to the final download is the URL of the grid or a non-empty value delivered by the
  upscale task.
\<close>

theorem select_and_upscale_url:
  assumes "fst (select_and_upscale lib self task_id url w) = Inr u"
  shows "u = url \<or> truthy u"
  using assms unfolding select_and_upscale_def
  by (auto simp: case_prod_beta Let_def dest: request_upscale_Inr split: sum.splits if_splits)

theorem select_and_upscale_url_witness:
  "fst (select_and_upscale grid_lib studio (JStr ''t1'') (JStr ''https://cdn/grid.png'')
          (grid_gone\<lparr>requests_log := replicate 2 (get_request [])\<rparr>)) =
     Inr (JStr ''https://cdn/grid.png'')"
  using select_and_upscale_url [of grid_lib studio "JStr ''t1''" "JStr ''https://cdn/grid.png''"
      "grid_gone\<lparr>requests_log := replicate 2 (get_request [])\<rparr>" "JStr ''https://cdn/grid.png''"]
  by (simp add: select_and_upscale_def requests_get_def requests_send_def grid_gone_def upscaling_def
      Let_def red_lib_def grid_lib_def)

end
