(* ===== verification/Generator_Runs.thy ===== *)
theory Generator_Runs
  imports Generator_Budget
begin

text \<open>
  Whole runs of \<^verbatim>\<open>generate_image\<close> against a remote side that is known: what is
  returned, which requests are sent in which order, how often the run sleeps and which
  files it writes, for each way the exchange can go.
\<close>

text \<open>
  The worlds of a run: \<open>waited rq j w\<close> after \<open>j\<close> polls that each ended in the sleep,
  \<open>task_run submit poll j w\<close> after the submission of a task, \<open>j\<close> such polls and the
  poll that decided, \<open>stored_grid\<close> after the download and the storing of a grid.
\<close>

fun waited :: "http_request \<Rightarrow> nat \<Rightarrow> world \<Rightarrow> world" where
  "waited rq 0 w = w"
| "waited rq (Suc j) w = waited rq j (time_sleep (real poll_interval) (snd (requests_send rq w)))"

definition task_run :: "http_request \<Rightarrow> http_request \<Rightarrow> nat \<Rightarrow> world \<Rightarrow> world" where
  "task_run submit poll j w =
     snd (requests_send poll (waited poll j (snd (requests_send submit w))))"

definition stored_grid :: "py_lib \<Rightarrow> generator \<Rightarrow> json \<Rightarrow> bytes \<Rightarrow> world \<Rightarrow> world" where
  "stored_grid lib self image_url data w =
     store (path_join (generated_images_dir self) (grid_filename w)) data
       (snd (requests_send (get_request (py_str (py_repr lib) image_url)) w))"

text \<open>
  What a theorem assumes of the remote side, from the first request of the run on.
  \<open>completes_at\<close>: the submission is accepted under \<open>task_id\<close>, the first \<open>j\<close> polls wait and
  the next finds the task completed with \<open>image_url\<close> and \<open>actions\<close>. \<open>aborts_at\<close>: the
  same, but the poll after the \<open>j\<close> waiting ones raises \<open>e\<close>, in the transport or while
  its response is read. \<open>upscaled_at\<close>: from request \<open>n\<close> on, the upscale request is
  accepted under \<open>upscale_task_id\<close>, \<open>i\<close> polls continue and the next ends the inner loop
  with the URL \<open>upscaled\<close>.
\<close>

definition completes_at ::
  "py_lib \<Rightarrow> generator \<Rightarrow> string \<Rightarrow> world \<Rightarrow> json \<Rightarrow> nat \<Rightarrow> json \<Rightarrow> json \<Rightarrow> bool" where
  "completes_at lib self prompt w task_id j image_url actions \<longleftrightarrow>
     j < max_polls \<and>
     (\<exists>response. remote w (length (requests_log w)) (task_request self (imagine_payload prompt))
          = Inr response \<and> accepts response task_id) \<and>
     (\<forall>k<j. waits_at lib self task_id w (length (requests_log w) + 1 + k)) \<and>
     (\<exists>r. remote w (length (requests_log w) + 1 + j) (poll_request lib self task_id) = Inr r \<and>
          imagine_poll_step lib r = Inr (Completed image_url actions))"

definition aborts_at ::
  "py_lib \<Rightarrow> generator \<Rightarrow> string \<Rightarrow> world \<Rightarrow> json \<Rightarrow> nat \<Rightarrow> exn \<Rightarrow> bool" where
  "aborts_at lib self prompt w task_id j e \<longleftrightarrow>
     j < max_polls \<and>
     (\<exists>response. remote w (length (requests_log w)) (task_request self (imagine_payload prompt))
          = Inr response \<and> accepts response task_id) \<and>
     (\<forall>k<j. waits_at lib self task_id w (length (requests_log w) + 1 + k)) \<and>
     (case remote w (length (requests_log w) + 1 + j) (poll_request lib self task_id) of
        Inl e' \<Rightarrow> e' = e | Inr r \<Rightarrow> imagine_poll_step lib r = Inl e)"

definition upscaled_at ::
  "py_lib \<Rightarrow> generator \<Rightarrow> json \<Rightarrow> json \<Rightarrow> nat \<Rightarrow> world \<Rightarrow> nat \<Rightarrow> json \<Rightarrow> nat \<Rightarrow> json \<Rightarrow> bool" where
  "upscaled_at lib self task_id image_url best w n upscale_task_id i upscaled \<longleftrightarrow>
     i < max_polls \<and>
     (\<exists>response. remote w n (task_request self (upscale_payload task_id best)) = Inr response \<and>
          accepts response upscale_task_id) \<and>
     (\<forall>k<i. continues_at lib self upscale_task_id image_url w (n + 1 + k)) \<and>
     (\<exists>r. remote w (n + 1 + i) (poll_request lib self upscale_task_id) = Inr r \<and>
          upscale_poll_step image_url r = Inr (Break upscaled))"

text \<open>The timestamp of a file name: the clock \<open>r\<close> requests and \<open>s\<close> sleeps after \<open>w\<close>.\<close>

abbreviation stamp :: "world \<Rightarrow> nat \<Rightarrow> nat \<Rightarrow> string" where
  "stamp w r s \<equiv> str_int (py_int (clock_after (real poll_interval) w r s))"

section \<open>Waiting polls\<close>

lemma waited_fields [simp]:
  "requests_log (waited rq j w) = requests_log w @ replicate j rq"
  "sleeps (waited rq j w) = sleeps w @ replicate j (real poll_interval)"
  "files (waited rq j w) = files w"
  "dirs (waited rq j w) = dirs w"
  "remote (waited rq j w) = remote w"
  "latency (waited rq j w) = latency w"
  by (induction j arbitrary: w) (simp_all add: replicate_append_same)

lemma waited_clock:
  "clock (waited rq j w) = clock w + real (j * poll_interval)
     + sum_list (map (latency w) [length (requests_log w)..<length (requests_log w) + j])"
proof (induction j arbitrary: w)
  case 0
  show ?case by simp
next
  case (Suc j)
  have "[length (requests_log w)..<length (requests_log w) + Suc j] =
      length (requests_log w) # [Suc (length (requests_log w))..<Suc (length (requests_log w)) + j]"
    by (simp add: upt_rec)
  then show ?case by (simp add: Suc.IH algebra_simps)
qed

lemma took_waited:
  "took (real poll_interval) r s w w' \<Longrightarrow> took (real poll_interval) (r + j) (s + j) w (waited rq j w')"
proof (induction j arbitrary: r s w')
  case 0
  then show ?case by simp
next
  case (Suc j)
  from Suc.IH [OF took_sleep [OF took_send [OF Suc.prems]]] show ?case by simp
qed

lemma poll_imagine_waited:
  assumes "\<forall>k<j. waits_at lib self tid w (length (requests_log w) + k)" "j \<le> n"
  shows "poll_imagine lib self tid n w =
     poll_imagine lib self tid (n - j) (waited (poll_request lib self tid) j w)"
  using assms
proof (induction j arbitrary: n w)
  case 0
  show ?case by simp
next
  case (Suc j)
  let ?w1 = "time_sleep (real poll_interval) (snd (requests_send (poll_request lib self tid) w))"
  obtain m where n: "n = Suc m" "j \<le> m"
    using Suc.prems(2) by (cases n) auto
  have "waits_at lib self tid w (length (requests_log w))"
    using Suc.prems(1) [rule_format, of 0] by simp
  then have "poll_imagine lib self tid n w = poll_imagine lib self tid m ?w1"
    unfolding n by (rule poll_imagine_waits)
  moreover have "\<forall>k<j. waits_at lib self tid ?w1 (length (requests_log ?w1) + k)"
    using Suc.prems(1) by (auto simp: waits_at_remote [of ?w1 w])
  ultimately show ?case
    using Suc.IH [of ?w1 m] n by simp
qed

lemma poll_upscale_waited:
  assumes "\<forall>k<j. continues_at lib self tid url w (length (requests_log w) + k)" "j \<le> n"
  shows "poll_upscale lib self tid url n w =
     poll_upscale lib self tid url (n - j) (waited (poll_request lib self tid) j w)"
  using assms
proof (induction j arbitrary: n w)
  case 0
  show ?case by simp
next
  case (Suc j)
  let ?w1 = "time_sleep (real poll_interval) (snd (requests_send (poll_request lib self tid) w))"
  obtain m where n: "n = Suc m" "j \<le> m"
    using Suc.prems(2) by (cases n) auto
  have "continues_at lib self tid url w (length (requests_log w))"
    using Suc.prems(1) [rule_format, of 0] by simp
  then have "poll_upscale lib self tid url n w = poll_upscale lib self tid url m ?w1"
    unfolding n by (rule poll_upscale_continues)
  moreover have "\<forall>k<j. continues_at lib self tid url ?w1 (length (requests_log ?w1) + k)"
    using Suc.prems(1) by (auto simp: continues_at_remote [of ?w1 w])
  ultimately show ?case
    using Suc.IH [of ?w1 m] n by simp
qed

section \<open>Runs of a task\<close>

lemma task_run_fields [simp]:
  "requests_log (task_run submit poll j w) = requests_log w @ submit # replicate (Suc j) poll"
  "sleeps (task_run submit poll j w) = sleeps w @ replicate j (real poll_interval)"
  "files (task_run submit poll j w) = files w"
  "dirs (task_run submit poll j w) = dirs w"
  "remote (task_run submit poll j w) = remote w"
  "latency (task_run submit poll j w) = latency w"
  by (simp_all add: task_run_def replicate_append_same)

lemma task_run_took:
  assumes "took (real poll_interval) r s w w'"
  shows "took (real poll_interval) (r + j + 2) (s + j) w (task_run submit poll j w')"
proof -
  have "took (real poll_interval) (Suc (Suc r + j)) (s + j) w (task_run submit poll j w')"
    unfolding task_run_def by (intro took_send took_waited assms)
  then show ?thesis by simp
qed

lemma stored_grid_fields [simp]:
  "requests_log (stored_grid lib self url data w) =
     requests_log w @ [get_request (py_str (py_repr lib) url)]"
  "sleeps (stored_grid lib self url data w) = sleeps w"
  "files (stored_grid lib self url data w) =
     (files w)(path_join (generated_images_dir self) (grid_filename w) \<mapsto> data)"
  "dirs (stored_grid lib self url data w) = dirs w"
  "remote (stored_grid lib self url data w) = remote w"
  "latency (stored_grid lib self url data w) = latency w"
  by (simp_all add: stored_grid_def)

lemma stored_grid_took:
  "took d r s w w' \<Longrightarrow> took d (r + 1) s w (stored_grid lib self url data w')"
  using took_store [OF took_send] by (simp add: stored_grid_def)

lemma grid_filename_task_run:
  "grid_filename (task_run submit poll j w) = ''midjourney_grid_'' @ stamp w (j + 2) j @ ''.jpg''"
  using took_time_now [OF task_run_took [OF took_refl]] by (simp add: grid_filename_def)

lemma poll_imagine_completes_at:
  assumes "\<forall>k<j. waits_at lib self tid w (length (requests_log w) + k)" "j < n"
    and "remote w (length (requests_log w) + j) (poll_request lib self tid) = Inr r"
    and "imagine_poll_step lib r = Inr (Completed url actions)"
  shows "poll_imagine lib self tid n w =
     on_completed lib self tid url actions
       (snd (requests_send (poll_request lib self tid) (waited (poll_request lib self tid) j w)))"
proof -
  obtain m where m: "n - j = Suc m"
    using assms(2) by (cases "n - j") auto
  have "poll_imagine lib self tid n w =
      poll_imagine lib self tid (Suc m) (waited (poll_request lib self tid) j w)"
    using poll_imagine_waited [OF assms(1), of n] assms(2) m by simp
  also have "\<dots> = on_completed lib self tid url actions
       (snd (requests_send (poll_request lib self tid) (waited (poll_request lib self tid) j w)))"
    using assms(3,4) by (intro poll_imagine_completed [of _ _ _ _ r]) simp_all
  finally show ?thesis .
qed

lemma poll_imagine_raises_at:
  assumes "\<forall>k<j. waits_at lib self tid w (length (requests_log w) + k)" "j < n"
    and "case remote w (length (requests_log w) + j) (poll_request lib self tid) of
           Inl e' \<Rightarrow> e' = e | Inr r \<Rightarrow> imagine_poll_step lib r = Inl e"
  shows "poll_imagine lib self tid n w =
     (Inl e, snd (requests_send (poll_request lib self tid) (waited (poll_request lib self tid) j w)))"
proof -
  obtain m where m: "n - j = Suc m"
    using assms(2) by (cases "n - j") auto
  have "poll_imagine lib self tid n w =
      poll_imagine lib self tid (Suc m) (waited (poll_request lib self tid) j w)"
    using poll_imagine_waited [OF assms(1), of n] assms(2) m by simp
  also have "\<dots> = (Inl e, snd (requests_send (poll_request lib self tid)
      (waited (poll_request lib self tid) j w)))"
    using assms(3) by (auto simp: requests_eq case_prod_beta split: sum.splits)
  finally show ?thesis .
qed

lemma generate_image_try_completed:
  assumes "completes_at lib self prompt w tid j url actions"
  shows "generate_image_try lib self prompt w =
     on_completed lib self tid url actions
       (task_run (task_request self (imagine_payload prompt)) (poll_request lib self tid) j w)"
proof -
  let ?w1 = "snd (requests_send (task_request self (imagine_payload prompt)) w)"
  from assms obtain response r where
    a: "remote w (length (requests_log w)) (task_request self (imagine_payload prompt)) = Inr response"
      "accepts response tid" "j < max_polls"
      "\<forall>k<j. waits_at lib self tid w (length (requests_log w) + 1 + k)"
      "remote w (length (requests_log w) + 1 + j) (poll_request lib self tid) = Inr r"
      "imagine_poll_step lib r = Inr (Completed url actions)"
    unfolding completes_at_def by blast
  have "poll_imagine lib self tid max_polls ?w1 =
      on_completed lib self tid url actions
        (snd (requests_send (poll_request lib self tid) (waited (poll_request lib self tid) j ?w1)))"
    using a(3-6)
    by (intro poll_imagine_completes_at [of _ _ _ _ _ _ r]) (simp_all add: waits_at_remote [of ?w1 w])
  then show ?thesis
    using generate_image_try_accepted [OF a(1,2)] by (simp add: task_run_def)
qed

lemma generate_image_aborts:
  assumes "aborts_at lib self prompt w tid j e"
  shows "generate_image lib self prompt w =
     (Inl (failure_prefix @ e),
      task_run (task_request self (imagine_payload prompt)) (poll_request lib self tid) j w)"
proof -
  let ?w1 = "snd (requests_send (task_request self (imagine_payload prompt)) w)"
  from assms obtain response where
    a: "remote w (length (requests_log w)) (task_request self (imagine_payload prompt)) = Inr response"
      "accepts response tid" "j < max_polls"
      "\<forall>k<j. waits_at lib self tid w (length (requests_log w) + 1 + k)"
      "case remote w (length (requests_log w) + 1 + j) (poll_request lib self tid) of
         Inl e' \<Rightarrow> e' = e | Inr r \<Rightarrow> imagine_poll_step lib r = Inl e"
    unfolding aborts_at_def by blast
  have "poll_imagine lib self tid max_polls ?w1 =
      (Inl e, snd (requests_send (poll_request lib self tid) (waited (poll_request lib self tid) j ?w1)))"
    using a(3-5) by (intro poll_imagine_raises_at) (simp_all add: waits_at_remote [of ?w1 w])
  then show ?thesis
    using generate_image_try_accepted [OF a(1,2)] by (simp add: task_run_def generate_image_Inl)
qed

lemma upscaled_at_remote:
  "remote w' = remote w \<Longrightarrow>
     upscaled_at lib self tid url best w' = upscaled_at lib self tid url best w"
  by (simp add: upscaled_at_def fun_eq_iff continues_at_remote [of w' w])

lemma poll_upscale_breaks_at:
  assumes "\<forall>k<i. continues_at lib self utid url w (length (requests_log w) + k)" "i < n"
    and "remote w (length (requests_log w) + i) (poll_request lib self utid) = Inr r"
    and "upscale_poll_step url r = Inr (Break u)"
  shows "poll_upscale lib self utid url n w =
     (Inr u, snd (requests_send (poll_request lib self utid)
                    (waited (poll_request lib self utid) i w)))"
proof -
  obtain m where m: "n - i = Suc m"
    using assms(2) by (cases "n - i") auto
  have "poll_upscale lib self utid url n w =
      poll_upscale lib self utid url (Suc m) (waited (poll_request lib self utid) i w)"
    using poll_upscale_waited [OF assms(1), of n] assms(2) m by simp
  also have "\<dots> = (Inr u, snd (requests_send (poll_request lib self utid)
      (waited (poll_request lib self utid) i w)))"
    using assms(3,4) by (intro poll_upscale_breaks [of _ _ _ _ r]) simp_all
  finally show ?thesis .
qed

lemma request_upscale_upscaled:
  assumes "upscaled_at lib self tid url best w (length (requests_log w)) utid i u"
  shows "request_upscale lib self tid url best w =
     (Inr u, task_run (task_request self (upscale_payload tid best)) (poll_request lib self utid) i w)"
proof -
  let ?w1 = "snd (requests_send (task_request self (upscale_payload tid best)) w)"
  from assms obtain response r where
    a: "remote w (length (requests_log w)) (task_request self (upscale_payload tid best)) = Inr response"
      "accepts response utid" "i < max_polls"
      "\<forall>k<i. continues_at lib self utid url w (length (requests_log w) + 1 + k)"
      "remote w (length (requests_log w) + 1 + i) (poll_request lib self utid) = Inr r"
      "upscale_poll_step url r = Inr (Break u)"
    unfolding upscaled_at_def by blast
  have "poll_upscale lib self utid url max_polls ?w1 =
      (Inr u, snd (requests_send (poll_request lib self utid)
         (waited (poll_request lib self utid) i ?w1)))"
    using a(3-6)
    by (intro poll_upscale_breaks_at [of _ _ _ _ _ _ _ r]) (simp_all add: continues_at_remote [of ?w1 w])
  then show ?thesis
    using request_upscale_accepted [OF a(1,2)] by (simp add: task_run_def)
qed

lemma select_and_upscale_stored:
  assumes "remote w (length (requests_log w)) (get_request (py_str (py_repr lib) url)) = Inr grid"
    and "status_code grid = 200" and "Image_open lib (content grid) = Inr img"
    and "storable self w"
  shows "select_and_upscale lib self tid url w =
     request_upscale lib self tid url (analyze_grid_image (image_analyzer self) lib img)
       (stored_grid lib self url (content grid) w)"
  using select_and_upscale_decoded [OF assms] by (simp add: stored_grid_def)

lemma completed_grid:
  assumes "completes_at lib self prompt w tid j url actions"
    and "str_in ''upscale1'' actions = Inr True"
    and "remote w (length (requests_log w) + (j + 2)) (get_request (py_str (py_repr lib) url)) = Inr grid"
    and "status_code grid = 200" and "Image_open lib (content grid) = Inr img"
    and "storable self w"
    and "request_upscale lib self tid url (analyze_grid_image (image_analyzer self) lib img)
           (stored_grid lib self url (content grid)
              (task_run (task_request self (imagine_payload prompt)) (poll_request lib self tid) j w))
         = (Inr final_url, w4)"
  shows "generate_image_try lib self prompt w = download_final lib self final_url w4"
proof -
  let ?w2 = "task_run (task_request self (imagine_payload prompt)) (poll_request lib self tid) j w"
  have "remote ?w2 (length (requests_log ?w2)) (get_request (py_str (py_repr lib) url)) = Inr grid"
    using assms(3) by simp
  moreover have "storable self ?w2"
    using assms(6) by (simp add: storable_frame [of ?w2 w])
  ultimately have "select_and_upscale lib self tid url ?w2 = (Inr final_url, w4)"
    using select_and_upscale_stored [of ?w2 lib url grid img self tid] assms(4,5,7) by simp
  then show ?thesis
    using generate_image_try_completed [OF assms(1)] on_completed_grid [OF assms(2)] by simp
qed

text \<open>
  The end of every successful run: the final download, in a world \<open>wk\<close> that is \<open>r\<close>
  requests and \<open>s\<close> sleeps after the start.
\<close>

lemma generate_image_finishes:
  assumes "generate_image_try lib self prompt w = download_final lib self u wk"
    and "took (real poll_interval) r s w wk" and "remote wk = remote w" and "dirs wk = dirs w"
    and "storable self w"
    and "remote w (length (requests_log w) + r) (get_request (py_str (py_repr lib) u)) = Inr final"
    and "status_code final = 200"
  shows "generate_image lib self prompt w =
     (Inr (''/static/generated_images/'' @ ''midjourney_'' @ stamp w r s @ ''.jpg''),
      store (path_join (generated_images_dir self) (''midjourney_'' @ stamp w r s @ ''.jpg''))
        (content final) (snd (requests_send (get_request (py_str (py_repr lib) u)) wk)))"
proof -
  have "length (requests_log wk) = length (requests_log w) + r"
    using assms(2) by (simp add: took_def)
  then have "remote wk (length (requests_log wk)) (get_request (py_str (py_repr lib) u)) = Inr final"
    using assms(3,6) by simp
  moreover have "storable self wk"
    using assms(4,5) by (simp add: storable_frame [of wk w])
  ultimately have "download_final lib self u wk =
      (Inr (''/static/generated_images/'' @ image_filename wk),
       store (path_join (generated_images_dir self) (image_filename wk)) (content final)
         (snd (requests_send (get_request (py_str (py_repr lib) u)) wk)))"
    using assms(7) by (intro download_final_ok)
  then show ?thesis
    using assms(1) took_time_now [OF assms(2)]
    by (simp add: generate_image_Inr image_filename_def)
qed

text \<open>The run for a single image: the submission, the polls and the download.\<close>

lemma generate_image_single_run:
  assumes "completes_at lib self prompt w task_id j url actions"
    and "str_in ''upscale1'' actions = Inr False"
    and "storable self w"
    and "remote w (length (requests_log w) + (j + 2)) (get_request (py_str (py_repr lib) url)) = Inr img"
    and "status_code img = 200"
  shows "generate_image lib self prompt w =
     (Inr (''/static/generated_images/'' @ ''midjourney_'' @ stamp w (j + 2) j @ ''.jpg''),
      store (path_join (generated_images_dir self) (''midjourney_'' @ stamp w (j + 2) j @ ''.jpg''))
        (content img)
        (snd (requests_send (get_request (py_str (py_repr lib) url))
           (task_run (task_request self (imagine_payload prompt)) (poll_request lib self task_id) j w))))"
proof -
  let ?w2 = "task_run (task_request self (imagine_payload prompt)) (poll_request lib self task_id) j w"
  have "generate_image_try lib self prompt w = download_final lib self url ?w2"
    using generate_image_try_completed [OF assms(1)] on_completed_single [OF assms(2)] by simp
  moreover have "took (real poll_interval) (j + 2) j w ?w2"
    by (rule took_eq [OF task_run_took [OF took_refl]]) simp_all
  ultimately show ?thesis
    using assms(3-5) by (simp add: generate_image_finishes [where wk = ?w2 and final = img])
qed

section \<open>The scripted worlds\<close>

lemma grid_lib_best: "analyze_grid_image (image_analyzer studio) grid_lib red_grid = 1"
  by (simp add: studio_def grid_lib_def analyze_grid_image_decoder red_grid_best)

lemma ready_at_30_completes:
  "completes_at lib studio prompt ready_at_30 (JStr ''t1'') 29 (JStr ''https://cdn/a.png'')
     (JArr [JStr ''reroll''])"
  by (simp add: completes_at_def ready_at_30_def max_polls_def accepts_accepted_json waits_at_def
      imagine_poll_step_processing imagine_poll_step_completed)

lemma upscaling_completes:
  "completes_at lib studio prompt upscaling (JStr ''t1'') 0 (JStr ''https://cdn/grid.png'') four_actions"
  by (simp add: completes_at_def upscaling_def max_polls_def accepts_accepted_json
      imagine_poll_step_completed)

lemma upscaling_upscaled:
  "upscaled_at lib studio (JStr ''t1'') (JStr ''https://cdn/grid.png'') 1 upscaling 3 (JStr ''t2'') 1
     (JStr ''https://cdn/up.png'')"
  by (simp add: upscaled_at_def upscaling_def max_polls_def accepts_accepted_json continues_at_def
      upscale_poll_step_processing upscale_poll_step_completed task_request_def)

lemma rejecting_completes:
  "completes_at lib studio prompt rejecting (JStr ''t1'') 0 (JStr ''https://cdn/grid.png'') four_actions"
  by (simp add: completes_at_def rejecting_def upscaling_def max_polls_def accepts_accepted_json
      imagine_poll_step_completed)

lemma grid_gone_completes:
  "completes_at lib studio prompt grid_gone (JStr ''t1'') 0 (JStr ''https://cdn/grid.png'') four_actions"
  by (simp add: completes_at_def grid_gone_def upscaling_def max_polls_def accepts_accepted_json
      imagine_poll_step_completed)

lemma dropping_aborts:
  "aborts_at lib studio prompt dropping (JStr ''t1'') 2 ''Connection reset by peer''"
  by (simp add: aborts_at_def dropping_def ready_at_30_def max_polls_def accepts_accepted_json
      waits_at_def imagine_poll_step_processing)

section \<open>Properties of the runs\<close>

text \<open>
  C1. The whole sequence for a grid. When the completed task offers \<^verbatim>\<open>upscale1\<close>, its
  grid is downloaded and decoded, the upscale request for the cell that
  \<open>analyze_grid_image\<close> selects is accepted and its task delivers a URL at poll \<open>i + 1\<close>,
  generate_image stores the grid and the image of that URL, the latter under the path it
  returns, and has sent exactly: the submission, \<open>j + 1\<close> polls, the download of the
  grid, the upscale request carrying the identifier of the first task and the selected
  index, \<open>i + 1\<close> polls of the upscale task, and the final download.
\<close>

theorem generate_image_upscaled:
  assumes "completes_at lib self prompt w task_id j url actions"
    and "str_in ''upscale1'' actions = Inr True"
    and "storable self w"
    and "remote w (length (requests_log w) + (j + 2)) (get_request (py_str (py_repr lib) url)) = Inr grid"
    and "status_code grid = 200" and "Image_open lib (content grid) = Inr img"
    and "upscaled_at lib self task_id url (analyze_grid_image (image_analyzer self) lib img) w
           (length (requests_log w) + (j + 3)) utid i upscaled"
    and "remote w (length (requests_log w) + (j + i + 5)) (get_request (py_str (py_repr lib) upscaled))
           = Inr final"
    and "status_code final = 200"
  shows "let grid_name = ''midjourney_grid_'' @ stamp w (j + 2) j @ ''.jpg'';
             name = ''midjourney_'' @ stamp w (j + i + 5) (j + i) @ ''.jpg'';
             w' = snd (generate_image lib self prompt w)
         in fst (generate_image lib self prompt w) = Inr (''/static/generated_images/'' @ name) \<and>
            files w' = (files w)(path_join (generated_images_dir self) grid_name \<mapsto> content grid,
                                 path_join (generated_images_dir self) name \<mapsto> content final) \<and>
            requests_log w' = requests_log w @ task_request self (imagine_payload prompt)
              # replicate (Suc j) (poll_request lib self task_id)
              @ get_request (py_str (py_repr lib) url)
              # task_request self
                  (upscale_payload task_id (analyze_grid_image (image_analyzer self) lib img))
              # replicate (Suc i) (poll_request lib self utid)
              @ [get_request (py_str (py_repr lib) upscaled)] \<and>
            sleeps w' = sleeps w @ replicate (j + i) (real poll_interval)"
proof -
  let ?best = "analyze_grid_image (image_analyzer self) lib img"
  define w3 where "w3 = stored_grid lib self url (content grid)
    (task_run (task_request self (imagine_payload prompt)) (poll_request lib self task_id) j w)"
  define w4 where "w4 = task_run (task_request self (upscale_payload task_id ?best))
    (poll_request lib self utid) i w3"
  have w3: "remote w3 = remote w" "length (requests_log w3) = length (requests_log w) + (j + 3)"
    by (simp_all add: w3_def)
  have "upscaled_at lib self task_id url ?best w3 (length (requests_log w3)) utid i upscaled"
    using assms(7) by (simp only: upscaled_at_remote [OF w3(1)] w3(2))
  then have "request_upscale lib self task_id url ?best w3 = (Inr upscaled, w4)"
    unfolding w4_def by (rule request_upscale_upscaled)
  then have run: "generate_image_try lib self prompt w = download_final lib self upscaled w4"
    unfolding w3_def by (rule completed_grid [OF assms(1,2,4-6,3)])
  have took: "took (real poll_interval) (j + i + 5) (j + i) w w4"
    unfolding w4_def w3_def
    by (rule took_eq [OF task_run_took [OF stored_grid_took [OF task_run_took [OF took_refl]]]])
      simp_all
  have "remote w4 = remote w" "dirs w4 = dirs w"
    by (simp_all add: w4_def w3_def)
  from generate_image_finishes [OF run took this assms(3,8,9)] show ?thesis
    by (simp add: Let_def w4_def w3_def grid_filename_task_run replicate_add)
qed

theorem generate_image_upscaled_witness:
  "fst (generate_image grid_lib studio ''a castle'' upscaling) =
     Inr ''/static/generated_images/midjourney_16.jpg'' \<and>
   files (snd (generate_image grid_lib studio ''a castle'' upscaling)) =
     [''static/generated_images/midjourney_grid_2.jpg'' \<mapsto> [1],
      ''static/generated_images/midjourney_16.jpg'' \<mapsto> [9]] \<and>
   req_json (requests_log (snd (generate_image grid_lib studio ''a castle'' upscaling)) ! 3) =
     Some (JObj [(''model'', JStr ''midjourney''), (''task_type'', JStr ''upscale''),
       (''input'', JObj [(''origin_task_id'', JStr ''t1''), (''index'', JStr ''2'')])])"
proof -
  have ans: "remote upscaling (length (requests_log upscaling) + (0 + 2)) rq = Inr (image_response [1])"
    "remote upscaling (length (requests_log upscaling) + (0 + 1 + 5)) (get_request ''https://cdn/up.png'')
       = Inr (image_response [9])" for rq
    by (simp_all add: upscaling_def get_request_def)
  have "Image_open grid_lib (content (image_response [1])) = Inr red_grid"
    by (simp add: grid_lib_def)
  from generate_image_upscaled [OF upscaling_completes _ _ ans(1) _ this, where i = 1
      and utid = "JStr ''t2''" and upscaled = "JStr ''https://cdn/up.png''"
      and final = "image_response [9]" and prompt = "''a castle''"]
  show ?thesis
    using upscaling_upscaled [of grid_lib] ans(2)
    by (simp add: Let_def grid_lib_best image_response_def four_actions_def
        upscale_payload_def task_request_def poll_interval_def stamp_eval)
qed

text \<open>
  C3. When the submission is accepted and each of the 30 polls finds the task neither
  completed nor failed, generate_image fails with the timeout message after exactly one
  POST and 30 GETs of the task, having slept 10 seconds after each of them.
\<close>

theorem generate_image_times_out:
  assumes "remote w (length (requests_log w)) (task_request self (imagine_payload prompt)) = Inr response"
    and "accepts response task_id"
    and "\<forall>k<max_polls. waits_at lib self task_id w (Suc (length (requests_log w)) + k)"
  shows "fst (generate_image lib self prompt w) =
      Inl (failure_prefix @ ''Timed out waiting for Midjourney task to complete'') \<and>
    requests_log (snd (generate_image lib self prompt w)) =
      requests_log w @ task_request self (imagine_payload prompt)
        # replicate max_polls (poll_request lib self task_id) \<and>
    sleeps (snd (generate_image lib self prompt w)) =
      sleeps w @ replicate max_polls (real poll_interval)"
proof -
  let ?w1 = "snd (requests_send (task_request self (imagine_payload prompt)) w)"
  have "\<forall>k<max_polls. waits_at lib self task_id ?w1 (length (requests_log ?w1) + k)"
    using assms(3) by (simp add: waits_at_remote [of ?w1 w])
  then have "poll_imagine lib self task_id max_polls ?w1 =
      poll_imagine lib self task_id 0 (waited (poll_request lib self task_id) max_polls ?w1)"
    using poll_imagine_waited [of max_polls lib self task_id ?w1 max_polls] by simp
  then have "generate_image_try lib self prompt w =
      (Inl ''Timed out waiting for Midjourney task to complete'',
       waited (poll_request lib self task_id) max_polls ?w1)"
    using generate_image_try_accepted [OF assms(1,2)] by simp
  then show ?thesis
    by (simp add: generate_image_Inl)
qed

theorem generate_image_times_out_witness:
  "fst (generate_image red_lib studio ''a castle'' stalled) =
     Inl ''Failed to generate image with Midjourney: Timed out waiting for Midjourney task to complete'' \<and>
   length (requests_log (snd (generate_image red_lib studio ''a castle'' stalled))) = 31 \<and>
   sum_list (sleeps (snd (generate_image red_lib studio ''a castle'' stalled))) = 300"
  using generate_image_times_out [of stalled studio "''a castle''" "json_response (accepted_json ''t1'')"
      "JStr ''t1''" red_lib]
  by (simp add: stalled_def accepts_accepted_json waits_at_def imagine_poll_step_processing
      failure_prefix_def max_polls_def poll_interval_def sum_list_replicate)

text \<open>
  C5. When the task is found completed at poll \<open>j + 1\<close> of at most 30 with a single image
  (no \<^verbatim>\<open>upscale1\<close> among its actions) and the download of its URL answers 200,
  generate_image returns the path \<^verbatim>\<open>/static/generated_images/midjourney_<t>.jpg\<close>,
  \<open>t\<close> the clock after \<open>j + 2\<close> requests and \<open>j\<close> sleeps, stores the body under that name
  in the directory of generated images, and has sent the submission, \<open>j + 1\<close> polls and
  the download, in this order.
\<close>

theorem generate_image_single:
  assumes "completes_at lib self prompt w task_id j url actions"
    and "str_in ''upscale1'' actions = Inr False"
    and "storable self w"
    and "remote w (length (requests_log w) + (j + 2)) (get_request (py_str (py_repr lib) url)) = Inr img"
    and "status_code img = 200"
  shows "let name = ''midjourney_'' @ stamp w (j + 2) j @ ''.jpg'';
             w' = snd (generate_image lib self prompt w)
         in fst (generate_image lib self prompt w) = Inr (''/static/generated_images/'' @ name) \<and>
            files w' = (files w)(path_join (generated_images_dir self) name \<mapsto> content img) \<and>
            requests_log w' = requests_log w @ task_request self (imagine_payload prompt)
              # replicate (Suc j) (poll_request lib self task_id)
              @ [get_request (py_str (py_repr lib) url)] \<and>
            sleeps w' = sleeps w @ replicate j (real poll_interval)"
  using generate_image_single_run [OF assms] by (simp add: Let_def)

theorem generate_image_single_witness:
  "fst (generate_image red_lib studio ''a castle'' ready_at_30) =
     Inr ''/static/generated_images/midjourney_321.jpg'' \<and>
   files (snd (generate_image red_lib studio ''a castle'' ready_at_30))
     ''static/generated_images/midjourney_321.jpg'' = Some [7] \<and>
   length (requests_log (snd (generate_image red_lib studio ''a castle'' ready_at_30))) = 32 \<and>
   length (sleeps (snd (generate_image red_lib studio ''a castle'' ready_at_30))) = 29"
proof -
  have "remote ready_at_30 (length (requests_log ready_at_30) + (29 + 2)) rq
      = Inr (image_response [7])" for rq
    by (simp add: ready_at_30_def)
  from generate_image_single [OF ready_at_30_completes _ _ this, where lib = red_lib
      and prompt = "''a castle''"]
  show ?thesis
    by (simp add: Let_def image_response_def poll_interval_def stamp_eval)
qed

text \<open>
  C6. When the upscale request is answered with a status other than 200, no exception
  propagates: generate_image downloads the URL of the grid instead and returns the path
  of that file.
\<close>

theorem generate_image_upscale_rejected:
  assumes "completes_at lib self prompt w task_id j url actions"
    and "str_in ''upscale1'' actions = Inr True"
    and "storable self w"
    and "remote w (length (requests_log w) + (j + 2)) (get_request (py_str (py_repr lib) url)) = Inr grid"
    and "status_code grid = 200" and "Image_open lib (content grid) = Inr img"
    and "remote w (length (requests_log w) + (j + 3))
           (task_request self (upscale_payload task_id (analyze_grid_image (image_analyzer self) lib img)))
           = Inr rejected"
    and "status_code rejected \<noteq> 200"
    and "remote w (length (requests_log w) + (j + 4)) (get_request (py_str (py_repr lib) url)) = Inr final"
    and "status_code final = 200"
  shows "let name = ''midjourney_'' @ stamp w (j + 4) j @ ''.jpg'';
             w' = snd (generate_image lib self prompt w)
         in fst (generate_image lib self prompt w) = Inr (''/static/generated_images/'' @ name) \<and>
            files w' (path_join (generated_images_dir self) name) = Some (content final) \<and>
            requests_log w' = requests_log w @ task_request self (imagine_payload prompt)
              # replicate (Suc j) (poll_request lib self task_id)
              @ [get_request (py_str (py_repr lib) url),
                 task_request self
                   (upscale_payload task_id (analyze_grid_image (image_analyzer self) lib img)),
                 get_request (py_str (py_repr lib) url)] \<and>
            sleeps w' = sleeps w @ replicate j (real poll_interval)"
proof -
  let ?post = "task_request self
    (upscale_payload task_id (analyze_grid_image (image_analyzer self) lib img))"
  define w3 where "w3 = stored_grid lib self url (content grid)
    (task_run (task_request self (imagine_payload prompt)) (poll_request lib self task_id) j w)"
  define w4 where "w4 = snd (requests_send ?post w3)"
  have w3: "remote w3 = remote w" "length (requests_log w3) = length (requests_log w) + (j + 3)"
    by (simp_all add: w3_def)
  have "remote w3 (length (requests_log w3)) ?post = Inr rejected"
    using assms(7) by (simp only: w3)
  then have "request_upscale lib self task_id url
      (analyze_grid_image (image_analyzer self) lib img) w3 = (Inr url, w4)"
    unfolding w4_def using assms(8) by (rule request_upscale_rejected)
  then have run: "generate_image_try lib self prompt w = download_final lib self url w4"
    unfolding w3_def by (rule completed_grid [OF assms(1,2,4-6,3)])
  have took: "took (real poll_interval) (j + 4) j w w4"
    unfolding w4_def w3_def
    by (rule took_eq [OF took_send [OF stored_grid_took [OF task_run_took [OF took_refl]]]]) simp_all
  have "remote w4 = remote w" "dirs w4 = dirs w"
    by (simp_all add: w4_def w3_def)
  from generate_image_finishes [OF run took this assms(3,9,10)] show ?thesis
    by (simp add: Let_def w4_def w3_def)
qed

theorem generate_image_upscale_rejected_witness:
  "fst (generate_image grid_lib studio ''a castle'' rejecting) =
     Inr ''/static/generated_images/midjourney_4.jpg'' \<and>
   files (snd (generate_image grid_lib studio ''a castle'' rejecting))
     ''static/generated_images/midjourney_4.jpg'' = Some [1] \<and>
   length (requests_log (snd (generate_image grid_lib studio ''a castle'' rejecting))) = 5"
proof -
  let ?rejected = "\<lparr>status_code = 500, body_text = ''busy'', body_json = Inl ''Expecting value'',
    content = []\<rparr>"
  have ans: "remote rejecting (length (requests_log rejecting) + (0 + 2)) rq = Inr (image_response [1])"
    "remote rejecting (length (requests_log rejecting) + (0 + 3)) rq = Inr ?rejected"
    "remote rejecting (length (requests_log rejecting) + (0 + 4)) (get_request ''https://cdn/grid.png'')
       = Inr (image_response [1])" for rq
    by (simp_all add: rejecting_def upscaling_def get_request_def)
  have "Image_open grid_lib (content (image_response [1])) = Inr red_grid"
    by (simp add: grid_lib_def)
  from generate_image_upscale_rejected [OF rejecting_completes _ _ ans(1) _ this ans(2),
      where final = "image_response [1]" and prompt = "''a castle''"]
  show ?thesis
    using ans(3)
    by (simp add: Let_def image_response_def four_actions_def poll_interval_def
        stamp_eval)
qed

text \<open>
  C18. When the upscale task is accepted but none of its 30 polls ends the loop, the
  branch gives up after 30 polls and 30 sleeps and falls back to the URL of the grid.
\<close>

theorem request_upscale_times_out:
  assumes "remote w (length (requests_log w)) (task_request self (upscale_payload task_id best))
             = Inr response"
    and "accepts response utid"
    and "\<forall>k<max_polls. continues_at lib self utid url w (length (requests_log w) + 1 + k)"
  shows "request_upscale lib self task_id url best w =
     (Inr url, waited (poll_request lib self utid) max_polls
                 (snd (requests_send (task_request self (upscale_payload task_id best)) w)))"
proof -
  let ?w1 = "snd (requests_send (task_request self (upscale_payload task_id best)) w)"
  have "\<forall>k<max_polls. continues_at lib self utid url ?w1 (length (requests_log ?w1) + k)"
    using assms(3) by (simp add: continues_at_remote [of ?w1 w])
  then have "poll_upscale lib self utid url max_polls ?w1 =
      poll_upscale lib self utid url 0 (waited (poll_request lib self utid) max_polls ?w1)"
    using poll_upscale_waited [of max_polls lib self utid url ?w1 max_polls] by simp
  then show ?thesis
    using request_upscale_accepted [OF assms(1,2)] by simp
qed

theorem request_upscale_times_out_witness:
  "fst (request_upscale grid_lib studio (JStr ''t1'') (JStr ''https://cdn/grid.png'') 1
          (upscale_stalled\<lparr>requests_log := replicate 3 (get_request [])\<rparr>)) =
     Inr (JStr ''https://cdn/grid.png'') \<and>
   length (sleeps (snd (request_upscale grid_lib studio (JStr ''t1'') (JStr ''https://cdn/grid.png'') 1
          (upscale_stalled\<lparr>requests_log := replicate 3 (get_request [])\<rparr>)))) = 30"
  using request_upscale_times_out [of "upscale_stalled\<lparr>requests_log := replicate 3 (get_request [])\<rparr>"
      studio "JStr ''t1''" 1 "json_response (accepted_json ''t2'')" "JStr ''t2''" grid_lib
      "JStr ''https://cdn/grid.png''"]
  by (simp add: upscale_stalled_def upscaling_def accepts_accepted_json continues_at_def
      upscale_poll_step_processing task_request_def max_polls_def)

text \<open>
  C11. A poll that raises, in the transport or while its response is read, ends the
  generation at once with that exception: after \<open>j\<close> waiting polls and the raising one
  no further request is sent, although attempts remain.
\<close>

theorem generate_image_poll_raises:
  assumes "aborts_at lib self prompt w task_id j e"
  shows "fst (generate_image lib self prompt w) = Inl (failure_prefix @ e) \<and>
    requests_log (snd (generate_image lib self prompt w)) =
      requests_log w @ task_request self (imagine_payload prompt)
        # replicate (Suc j) (poll_request lib self task_id) \<and>
    sleeps (snd (generate_image lib self prompt w)) = sleeps w @ replicate j (real poll_interval)"
  by (simp add: generate_image_aborts [OF assms])

theorem generate_image_poll_raises_witness:
  "fst (generate_image red_lib studio ''a castle'' dropping) =
     Inl ''Failed to generate image with Midjourney: Connection reset by peer'' \<and>
   length (requests_log (snd (generate_image red_lib studio ''a castle'' dropping))) = 4"
  using generate_image_poll_raises [OF dropping_aborts, of red_lib "''a castle''"]
  by (simp add: failure_prefix_def dropping_def ready_at_30_def)

text \<open>
  C19. When the download of the grid is answered with a status other than 200, nothing
  is stored, no cell is selected and no upscale is requested: the same URL is downloaded
  once more as the final image.
\<close>

theorem generate_image_grid_unavailable:
  assumes "completes_at lib self prompt w task_id j url actions"
    and "str_in ''upscale1'' actions = Inr True"
    and "storable self w"
    and "remote w (length (requests_log w) + (j + 2)) (get_request (py_str (py_repr lib) url)) = Inr grid"
    and "status_code grid \<noteq> 200"
    and "remote w (length (requests_log w) + (j + 3)) (get_request (py_str (py_repr lib) url)) = Inr final"
    and "status_code final = 200"
  shows "let name = ''midjourney_'' @ stamp w (j + 3) j @ ''.jpg'';
             w' = snd (generate_image lib self prompt w)
         in fst (generate_image lib self prompt w) = Inr (''/static/generated_images/'' @ name) \<and>
            files w' = (files w)(path_join (generated_images_dir self) name \<mapsto> content final) \<and>
            requests_log w' = requests_log w @ task_request self (imagine_payload prompt)
              # replicate (Suc j) (poll_request lib self task_id)
              @ [get_request (py_str (py_repr lib) url), get_request (py_str (py_repr lib) url)]"
proof -
  let ?get = "get_request (py_str (py_repr lib) url)"
  let ?w2 = "task_run (task_request self (imagine_payload prompt)) (poll_request lib self task_id) j w"
  have "remote ?w2 (length (requests_log ?w2)) ?get = Inr grid"
    using assms(4) by simp
  then have "select_and_upscale lib self task_id url ?w2 = (Inr url, snd (requests_send ?get ?w2))"
    using assms(5) by (rule select_and_upscale_unavailable)
  then have "generate_image_try lib self prompt w =
      download_final lib self url (snd (requests_send ?get ?w2))"
    using generate_image_try_completed [OF assms(1)] on_completed_grid [OF assms(2)] by simp
  moreover have "took (real poll_interval) (j + 3) j w (snd (requests_send ?get ?w2))"
    by (rule took_eq [OF took_send [OF task_run_took [OF took_refl]]]) simp_all
  ultimately show ?thesis
    using assms(3,6,7)
    by (simp add: generate_image_finishes [where wk = "snd (requests_send ?get ?w2)" and final = final]
        Let_def)
qed

theorem generate_image_grid_unavailable_witness:
  "fst (generate_image grid_lib studio ''a castle'' grid_gone) =
     Inr ''/static/generated_images/midjourney_3.jpg'' \<and>
   files (snd (generate_image grid_lib studio ''a castle'' grid_gone)) =
     [''static/generated_images/midjourney_3.jpg'' \<mapsto> [5]] \<and>
   length (requests_log (snd (generate_image grid_lib studio ''a castle'' grid_gone))) = 4"
proof -
  let ?gone = "\<lparr>status_code = 404, body_text = ''not found'', body_json = Inl ''Expecting value'',
    content = []\<rparr>"
  have ans: "remote grid_gone (length (requests_log grid_gone) + (0 + 2)) rq = Inr ?gone"
    "remote grid_gone (length (requests_log grid_gone) + (0 + 3)) rq = Inr (image_response [5])" for rq
    by (simp_all add: grid_gone_def upscaling_def)
  from generate_image_grid_unavailable [OF grid_gone_completes _ _ ans(1) _ ans(2),
      where lib = grid_lib and prompt = "''a castle''"]
  show ?thesis
    by (simp add: Let_def image_response_def four_actions_def poll_interval_def
        stamp_eval)
qed

text \<open>
  C12. The submission is sent once and never retried. Its response is decoded before its
  status is looked at: a response that is not JSON fails with the decoder's message
  whatever its status, a decoded response with a status other than 200 fails with
  \<^verbatim>\<open>Midjourney API error: <status> - <body>\<close>, and a 200 response without a task
  identifier fails with \<^verbatim>\<open>No task_id in Midjourney API response\<close>.
\<close>

theorem generate_image_submission_fails:
  assumes "remote w (length (requests_log w)) (task_request self (imagine_payload prompt)) = Inr response"
    and "status_code response \<noteq> 200 \<or> body_json response = Inr (JObj [])"
  shows "generate_image lib self prompt w =
     (Inl (failure_prefix @
        (case body_json response of
           Inl e \<Rightarrow> e
         | Inr d \<Rightarrow> if status_code response \<noteq> 200
                    then ''Midjourney API error: '' @ str_nat (status_code response) @ '' - ''
                         @ body_text response
                    else ''No task_id in Midjourney API response'')),
      snd (requests_send (task_request self (imagine_payload prompt)) w))"
  using assms
  by (auto simp: generate_image_def generate_image_try_def requests_eq case_prod_beta data_get_def
      split: sum.splits)

theorem generate_image_submission_fails_witness:
  "fst (generate_image red_lib studio ''a castle'' bad_gateway) =
     Inl ''Failed to generate image with Midjourney: Expecting value: line 1 column 1 (char 0)'' \<and>
   length (requests_log (snd (generate_image red_lib studio ''a castle'' bad_gateway))) = 1"
  using generate_image_submission_fails [of bad_gateway studio "''a castle''"
      "\<lparr>status_code = 502, body_text = ''Bad Gateway'',
        body_json = Inl ''Expecting value: line 1 column 1 (char 0)'', content = []\<rparr>" red_lib]
  by (simp add: bad_gateway_def stalled_def failure_prefix_def)

text \<open>
  C30. A response that reports a task as processing, pending or staged must carry an
  object as \<^verbatim>\<open>output\<close>: for any other value, \<^verbatim>\<open>null\<close> included, reading the progress
  raises \<^verbatim>\<open>AttributeError\<close>.
\<close>

theorem waiting_status_needs_output_object:
  assumes "status_code r = 200"
    and "body_json r = Inr (JObj [(''data'', JObj [(''status'', JStr s), (''output'', out)])])"
    and "py_lower s \<in> {''processing'', ''pending'', ''staged''}"
    and "\<forall>items. out \<noteq> JObj items"
  shows "imagine_poll_step lib r = Inl (no_attribute out ''get'')"
  using assms
  by (cases out) (auto simp: imagine_poll_step_def data_get_def output_get_def dict_get_def)

theorem waiting_status_needs_output_object_witness:
  "imagine_poll_step red_lib null_output =
     Inl (CHR 0x27 # ''NoneType'' @ CHR 0x27 # '' object has no attribute '' @ CHR 0x27 # ''get'' @ [CHR 0x27])"
  using waiting_status_needs_output_object [of null_output "''pending''" JNull red_lib]
  by (simp add: null_output_def json_response_def lower_char_def no_attribute_def type_name_def)

end
