(* ===== verification/Generator_Content.thy ===== *)
theory Generator_Content
  imports Generator_Runs
begin

text \<open>
  The methods \<^verbatim>\<open>generate_historical_content\<close> and \<^verbatim>\<open>generate_batch_content\<close> of
  \<^verbatim>\<open>AIContentGenerator\<close>: one content package, a dict with the key \<^verbatim>\<open>success\<close>, and
  a list of them with a random pause between two.

  Both call \<^verbatim>\<open>self.generate_image_prompt\<close> and \<^verbatim>\<open>self.generate_caption\<close>, which the
  class does not define. The model makes the look-up explicit: \<open>attributes\<close> holds what
  an instance has under the two names, nothing for the class as declared, so that
  the call raises \<^verbatim>\<open>AttributeError\<close>. A method that is there is an effect on the world
  that returns a string or raises. The values of \<^verbatim>\<open>random.random()\<close> are a parameter,
  the sequence \<open>draws\<close>: the loop is the only place that draws, once per pause.
\<close>

section \<open>One content package\<close>

record attributes =
  generate_image_prompt :: "(string option \<Rightarrow> string raises effect) option"
  generate_caption :: "(string \<Rightarrow> string option \<Rightarrow> string raises effect) option"

definition declared :: attributes where
  "declared = \<lparr>generate_image_prompt = None, generate_caption = None\<rparr>"

definition missing_attribute :: "string \<Rightarrow> exn" where
  "missing_attribute name =
     quoted ''AIContentGenerator'' @ '' object has no attribute '' @ quoted name"

definition failure :: "string \<Rightarrow> json" where
  "failure e = JObj [(''success'', JBool False), (''error'', JStr e)]"

text \<open>\<^verbatim>\<open>theme or "Historical"\<close>.\<close>

definition theme_or :: "string option \<Rightarrow> string" where
  "theme_or theme = (case theme of None \<Rightarrow> ''Historical''
     | Some t \<Rightarrow> if t = [] then ''Historical'' else t)"

definition package :: "string option \<Rightarrow> string \<Rightarrow> string \<Rightarrow> string \<Rightarrow> json" where
  "package theme image_prompt image_path caption =
     JObj [(''success'', JBool True),
           (''theme'', JStr (theme_or theme)),
           (''image_prompt'', JStr image_prompt),
           (''image_path'', JStr image_path),
           (''caption'', JStr caption)]"

text \<open>The inner \<^verbatim>\<open>try\<close> block: the image, which must have a path.\<close>

definition checked_image :: "py_lib \<Rightarrow> generator \<Rightarrow> string \<Rightarrow> string raises effect" where
  "checked_image lib self image_prompt w =
     (case generate_image lib self image_prompt w of
        (Inl e, w1) \<Rightarrow> (Inl e, w1)
      | (Inr image_path, w1) \<Rightarrow>
          if image_path = [] then (Inl ''Failed to generate image'', w1)
          else (Inr image_path, w1))"

text \<open>
  The body of the outer \<^verbatim>\<open>try\<close> block: \<open>Inr\<close> of the dict it returns, also the one
  that its inner \<^verbatim>\<open>except\<close> clause returns, or \<open>Inl\<close> of what it raises.
\<close>

definition generate_historical_content_try ::
  "py_lib \<Rightarrow> attributes \<Rightarrow> generator \<Rightarrow> string option \<Rightarrow> json raises effect" where
  "generate_historical_content_try lib attrs self theme w =
     (case generate_image_prompt attrs of
        None \<Rightarrow> (Inl (missing_attribute ''generate_image_prompt''), w)
      | Some prompt_of \<Rightarrow>
          (case prompt_of theme w of
             (Inl e, w1) \<Rightarrow> (Inl e, w1)
           | (Inr image_prompt, w1) \<Rightarrow>
               (case checked_image lib self image_prompt w1 of
                  (Inl e, w2) \<Rightarrow> (Inr (failure (''Failed to generate image: '' @ e)), w2)
                | (Inr image_path, w2) \<Rightarrow>
                    (case generate_caption attrs of
                       None \<Rightarrow> (Inl (missing_attribute ''generate_caption''), w2)
                     | Some caption_of \<Rightarrow>
                         (case caption_of image_prompt theme w2 of
                            (Inl e, w3) \<Rightarrow> (Inl e, w3)
                          | (Inr caption, w3) \<Rightarrow>
                              (Inr (package theme image_prompt image_path caption), w3))))))"

definition generate_historical_content ::
  "py_lib \<Rightarrow> attributes \<Rightarrow> generator \<Rightarrow> string option \<Rightarrow> json effect" where
  "generate_historical_content lib attrs self theme w =
     (case generate_historical_content_try lib attrs self theme w of
        (Inl e, w1) \<Rightarrow> (failure e, w1)
      | (Inr dict, w1) \<Rightarrow> (dict, w1))"

section \<open>A batch of packages\<close>

text \<open>\<^verbatim>\<open>random.uniform(a, b)\<close> for the value \<open>u\<close> of \<^verbatim>\<open>random.random()\<close>.\<close>

definition uniform :: "real \<Rightarrow> real \<Rightarrow> real \<Rightarrow> real" where
  "uniform a b u = a + (b - a) * u"

text \<open>
  The loop \<^verbatim>\<open>for i in range(count)\<close> from \<open>i\<close> on, with the list \<open>results\<close> so far.
\<close>

function batch_loop ::
  "py_lib \<Rightarrow> attributes \<Rightarrow> generator \<Rightarrow> (nat \<Rightarrow> real) \<Rightarrow> int \<Rightarrow> string option \<Rightarrow> int \<Rightarrow>
     json list \<Rightarrow> json list effect" where
  "batch_loop lib attrs self draws count theme i results w =
     (if i < count
      then let (item, w1) = generate_historical_content lib attrs self theme w;
               w2 = (if i < count - 1 then time_sleep (uniform 5 15 (draws (nat i))) w1 else w1)
           in batch_loop lib attrs self draws count theme (i + 1) (results @ [item]) w2
      else (results, w))"
  by pat_completeness auto
termination
  by (relation "measure (\<lambda>(lib, attrs, self, draws, count, theme, i, results, w). nat (count - i))")
    auto

text \<open>
  The reference: \<open>n\<close> packages, the first with index \<open>k\<close>, with a pause after each one
  but the last.
\<close>

fun batch_items ::
  "py_lib \<Rightarrow> attributes \<Rightarrow> generator \<Rightarrow> (nat \<Rightarrow> real) \<Rightarrow> string option \<Rightarrow> nat \<Rightarrow> nat \<Rightarrow>
     json list effect" where
  "batch_items lib attrs self draws theme 0 k w = ([], w)"
| "batch_items lib attrs self draws theme (Suc n) k w =
     (let (item, w1) = generate_historical_content lib attrs self theme w;
          w2 = (if 0 < n then time_sleep (uniform 5 15 (draws k)) w1 else w1);
          (rest, w3) = batch_items lib attrs self draws theme n (Suc k) w2
      in (item # rest, w3))"

definition generate_batch_content ::
  "py_lib \<Rightarrow> attributes \<Rightarrow> generator \<Rightarrow> (nat \<Rightarrow> real) \<Rightarrow> int \<Rightarrow> string option \<Rightarrow>
     json list effect" where
  "generate_batch_content lib attrs self draws count theme w =
     batch_loop lib attrs self draws count theme 0 [] w"

section \<open>Well-formed packages and frugal methods\<close>

text \<open>
  \<open>wf_content c\<close>: \<open>c\<close> is a record of a failure with its message, or of a success with
  a theme and a path that are not empty. \<open>frugal r s D attrs\<close>: every call of a method of
  \<open>attrs\<close> spends at most \<open>r\<close> requests and \<open>s\<close> sleeps of durations in \<open>D\<close>.
\<close>

definition field :: "json \<Rightarrow> string \<Rightarrow> string" where
  "field c k = (case dict_get c k JNull of Inr (JStr s) \<Rightarrow> s | _ \<Rightarrow> [])"

definition wf_content :: "json \<Rightarrow> bool" where
  "wf_content c \<longleftrightarrow>
     c = failure (field c ''error'') \<or>
     c = package (Some (field c ''theme'')) (field c ''image_prompt'') (field c ''image_path'')
           (field c ''caption'') \<and> 0 < length (field c ''image_path'')"

definition frugal :: "nat \<Rightarrow> nat \<Rightarrow> real set \<Rightarrow> attributes \<Rightarrow> bool" where
  "frugal r s D attrs \<longleftrightarrow>
     (\<forall>f theme w. generate_image_prompt attrs = Some f \<longrightarrow> spends r s D w (snd (f theme w))) \<and>
     (\<forall>g p theme w. generate_caption attrs = Some g \<longrightarrow> spends r s D w (snd (g p theme w)))"

section \<open>Example methods\<close>

definition templates :: attributes where
  "templates = \<lparr>generate_image_prompt = Some (\<lambda>theme w. (Inr (''a scene, '' @ theme_or theme), w)),
     generate_caption = Some (\<lambda>image_prompt theme w. (Inr (''On this day: '' @ image_prompt), w))\<rparr>"

section \<open>One package\<close>

lemma generate_image_path:
  assumes "generate_image lib self prompt w = (Inr p, w')"
  shows "p \<noteq> []"
proof -
  from assms have "fst (generate_image_try lib self prompt w) = Inr p"
    by (auto simp: generate_image_def split: prod.splits sum.splits)
  then show ?thesis
    by (auto simp: delivered_def dest!: generate_image_try_delivered)
qed

lemma checked_image_eq: "checked_image lib self image_prompt w = generate_image lib self image_prompt w"
  by (auto simp: checked_image_def dest: generate_image_path split: prod.splits sum.splits)

lemma theme_or_simps [simp]:
  "theme_or None = ''Historical''" "theme_or (Some []) = ''Historical''"
  "t \<noteq> [] \<Longrightarrow> theme_or (Some t) = t"
  by (simp_all add: theme_or_def)

lemma theme_or_nonempty [simp]: "theme_or theme \<noteq> []"
  by (simp add: theme_or_def split: option.splits)

lemma field_failure [simp]: "field (failure e) ''error'' = e"
  by (simp add: field_def failure_def dict_get_def)

lemma field_package [simp]:
  "field (package theme image_prompt image_path caption) ''theme'' = theme_or theme"
  "field (package theme image_prompt image_path caption) ''image_prompt'' = image_prompt"
  "field (package theme image_prompt image_path caption) ''image_path'' = image_path"
  "field (package theme image_prompt image_path caption) ''caption'' = caption"
  by (simp_all add: field_def package_def dict_get_def)

lemma wf_content_failure [simp]: "wf_content (failure e)"
  by (simp add: wf_content_def)

lemma wf_content_package [simp]: "image_path \<noteq> [] \<Longrightarrow> wf_content (package theme p image_path c)"
  unfolding wf_content_def by (rule disjI2) (simp, simp add: package_def)

lemma generate_historical_content_wf:
  "wf_content (fst (generate_historical_content lib attrs self theme w))"
  by (auto simp: generate_historical_content_def generate_historical_content_try_def checked_image_eq
      dest: generate_image_path split: option.splits prod.splits sum.splits)

lemma frugal_declared [simp]: "frugal r s D declared"
  by (simp add: frugal_def declared_def)

lemma frugal_templates [simp]: "frugal r s D templates"
  by (auto simp: frugal_def templates_def)

lemma generate_historical_content_spends:
  assumes "frugal r s D attrs" "pause \<subseteq> D"
  shows "spends (64 + 2 * r) (59 + 2 * s) D w (snd (generate_historical_content lib attrs self theme w))"
proof -
  have image: "spends 64 59 D w1 (snd (generate_image lib self p w1))" for p w1
    using assms(2) by (intro spends_mono [OF generate_image_spends]) auto
  have prompt: "spends r s D w (snd (f theme w))" if "generate_image_prompt attrs = Some f" for f
    using assms(1) that by (simp add: frugal_def)
  have caption: "spends r s D w2 (snd (g p theme w2))" if "generate_caption attrs = Some g" for g p w2
    using assms(1) that by (simp add: frugal_def)
  have two: "spends (64 + 2 * r) (59 + 2 * s) D w (snd (generate_image lib self p (snd (f theme w))))"
    if "generate_image_prompt attrs = Some f" for f p
    using spends_trans [OF prompt [OF that] image] by (rule spends_mono) simp_all
  have three: "spends (64 + 2 * r) (59 + 2 * s) D w
      (snd (g p theme (snd (generate_image lib self p (snd (f theme w))))))"
    if "generate_image_prompt attrs = Some f" "generate_caption attrs = Some g" for f g p
    using spends_trans [OF spends_trans [OF prompt [OF that(1)] image] caption [OF that(2)]]
    by (rule spends_mono) simp_all
  have one: "spends (64 + 2 * r) (59 + 2 * s) D w (snd (f theme w))"
    if "generate_image_prompt attrs = Some f" for f
    using prompt [OF that] by (rule spends_mono) simp_all
  show ?thesis
    unfolding generate_historical_content_def generate_historical_content_try_def checked_image_eq
    using one two three
    by (auto simp: case_prod_beta split: option.splits sum.splits)
qed

section \<open>The loop and its reference\<close>

declare batch_loop.simps [simp del]

lemma batch_loop_items:
  "0 \<le> i \<Longrightarrow>
   batch_loop lib attrs self draws count theme i results w =
     (case batch_items lib attrs self draws theme (nat (count - i)) (nat i) w of
        (rest, w') \<Rightarrow> (results @ rest, w'))"
proof (induction lib attrs self draws count theme i results w rule: batch_loop.induct)
  case (1 lib attrs self draws count theme i results w)
  show ?case
  proof (cases "i < count")
    case False
    then show ?thesis
      by (simp add: batch_loop.simps [of _ _ _ _ count _ i])
  next
    case True
    then obtain n where n: "nat (count - i) = Suc n" "nat (count - (i + 1)) = n"
      by (cases "nat (count - i)") auto
    have less: "i < count - 1 \<longleftrightarrow> 0 < n"
      using n True by linarith
    have next_i: "nat (i + 1) = Suc (nat i)"
      using "1.prems" by simp
    show ?thesis
      using True "1.prems" "1.IH" [OF True refl prod.collapse refl]
      by (simp add: batch_loop.simps [of _ _ _ _ count _ i] n less next_i Let_def case_prod_beta)
  qed
qed

lemma batch_items_length:
  "length (fst (batch_items lib attrs self draws theme n k w)) = n"
  by (induction n arbitrary: k w) (simp_all add: case_prod_beta Let_def)

lemma batch_items_wf:
  "list_all wf_content (fst (batch_items lib attrs self draws theme n k w))"
  by (induction n arbitrary: k w) (simp_all add: case_prod_beta Let_def generate_historical_content_wf)

lemma uniform_between: "0 \<le> u \<Longrightarrow> u \<le> 1 \<Longrightarrow> a \<le> b \<Longrightarrow> uniform a b u \<in> {a..b}"
  unfolding uniform_def using mult_left_mono [of u 1 "b - a"] by (auto intro: mult_nonneg_nonneg)

lemma batch_items_spends:
  assumes "frugal r s D attrs" "pause \<subseteq> D" "{5..15} \<subseteq> D" "\<forall>i. 0 \<le> draws i \<and> draws i \<le> 1"
  shows "spends (n * (64 + 2 * r)) (n * (60 + 2 * s)) D w
           (snd (batch_items lib attrs self draws theme n k w))"
proof (induction n arbitrary: k w)
  case 0
  show ?case by simp
next
  case (Suc n)
  let ?w1 = "snd (generate_historical_content lib attrs self theme w)"
  let ?w2 = "if 0 < n then time_sleep (uniform 5 15 (draws k)) ?w1 else ?w1"
  have "uniform 5 15 (draws k) \<in> D"
    using uniform_between [of "draws k" 5 15] assms(3,4) by auto
  then have "spends 0 1 D ?w1 ?w2"
    by (simp add: spends_sleep [unfolded One_nat_def])
  from spends_trans [OF spends_trans [OF generate_historical_content_spends [OF assms(1,2)] this] Suc.IH]
  show ?case
    by (simp add: case_prod_beta Let_def add.commute add.left_commute)
qed

lemma batch_loop_length:
  "length (fst (batch_loop lib attrs self draws count theme i results w)) =
     length results + nat (count - i)"
proof (induction lib attrs self draws count theme i results w rule: batch_loop.induct)
  case (1 lib attrs self draws count theme i results w)
  show ?case
  proof (cases "i < count")
    case False
    then show ?thesis
      by (simp add: batch_loop.simps [of _ _ _ _ count _ i])
  next
    case True
    then have "Suc (nat (count - (i + 1))) = nat (count - i)"
      by simp
    then show ?thesis
      using True "1.IH" [OF True refl prod.collapse refl]
      by (simp add: batch_loop.simps [of _ _ _ _ count _ i] Let_def case_prod_beta)
  qed
qed

section \<open>An example run\<close>

lemma ready_at_30_image:
  "fst (generate_image red_lib studio prompt ready_at_30) =
     Inr ''/static/generated_images/midjourney_321.jpg''"
proof -
  have "remote ready_at_30 (length (requests_log ready_at_30) + (29 + 2)) rq
      = Inr (image_response [7])" for rq
    by (simp add: ready_at_30_def)
  from generate_image_single_run [OF ready_at_30_completes _ _ this, where lib = red_lib
      and prompt = prompt]
  show ?thesis
    by (simp add: image_response_def poll_interval_def stamp_eval str_in_def)
qed

section \<open>Properties of the packages\<close>

text \<open>
  C24. The class defines neither generate_image_prompt nor generate_caption: on an
  instance of the class as declared, generate_historical_content returns the record of
  a failure whose message is that of the AttributeError, and changes nothing; no image
  is requested.
\<close>

theorem generate_historical_content_undefined:
  "generate_historical_content lib declared self theme w =
     (JObj [(''success'', JBool False),
            (''error'', JStr (quoted ''AIContentGenerator'' @ '' object has no attribute ''
                              @ quoted ''generate_image_prompt''))], w)"
  by (simp add: generate_historical_content_def generate_historical_content_try_def declared_def
      failure_def missing_attribute_def)

text \<open>
  C25. On an instance that has the two methods, when the prompt is generated:
  generate_historical_content returns the record of a failure with the message of
  generate_image after \<^verbatim>\<open>Failed to generate image: \<close> when generate_image raises, the
  record of a failure with the message of generate_caption when that raises, and
  otherwise the record of a success with the theme (\<^verbatim>\<open>Historical\<close> when none is given),
  the prompt, the path of the image and the caption.
\<close>

theorem generate_historical_content_result:
  assumes "generate_image_prompt attrs = Some prompt_of" "prompt_of theme w = (Inr image_prompt, wp)"
    and "generate_caption attrs = Some caption_of"
  shows "generate_historical_content lib attrs self theme w =
     (case generate_image lib self image_prompt wp of
        (Inl e, wi) \<Rightarrow> (failure (''Failed to generate image: '' @ e), wi)
      | (Inr image_path, wi) \<Rightarrow>
          (case caption_of image_prompt theme wi of
             (Inl e, wc) \<Rightarrow> (failure e, wc)
           | (Inr caption, wc) \<Rightarrow> (package theme image_prompt image_path caption, wc)))"
  using assms
  by (simp add: generate_historical_content_def generate_historical_content_try_def checked_image_eq
      split: prod.splits sum.splits)

theorem generate_historical_content_result_witness:
  "fst (generate_historical_content red_lib templates studio None ready_at_30) =
     JObj [(''success'', JBool True), (''theme'', JStr ''Historical''),
           (''image_prompt'', JStr ''a scene, Historical''),
           (''image_path'', JStr ''/static/generated_images/midjourney_321.jpg''),
           (''caption'', JStr ''On this day: a scene, Historical'')]"
  using generate_historical_content_result [where attrs = templates and theme = None
      and w = ready_at_30 and wp = ready_at_30 and image_prompt = "''a scene, Historical''"
      and lib = red_lib and self = studio
      and prompt_of = "\<lambda>theme w. (Inr (''a scene, '' @ theme_or theme), w)"
      and caption_of = "\<lambda>image_prompt theme w. (Inr (''On this day: '' @ image_prompt), w)"]
    ready_at_30_image [of "''a scene, Historical''"]
  by (simp add: templates_def package_def split: prod.splits sum.splits)



text \<open>
  C27. generate_batch_content is the reference sequence: for a count \<open>n\<close> above 0 it is
  \<open>n\<close> times generate_historical_content, with a pause of \<^verbatim>\<open>random.uniform(5, 15)\<close>
  seconds after each package but the last; for a count of 0 or below it returns the
  empty list and changes nothing.
\<close>

theorem generate_batch_content_reference:
  "generate_batch_content lib attrs self draws count theme w =
     batch_items lib attrs self draws theme (nat count) 0 w"
  by (simp add: generate_batch_content_def batch_loop_items case_prod_beta)

text \<open>
  C28. The loop of generate_batch_content ends: from the index \<open>i\<close> it runs
  \<open>count - i\<close> more times, none when \<open>i\<close> has reached \<open>count\<close>, and appends one record
  each time, whether the package succeeded or not.
\<close>

theorem batch_loop_terminates:
  "length (fst (batch_loop lib attrs self draws count theme i results w)) =
     length results + nat (count - i) \<and>
   length (fst (generate_batch_content lib attrs self draws count theme w)) = nat count \<and>
   list_all wf_content (fst (generate_batch_content lib attrs self draws count theme w))"
  by (simp add: batch_loop_length generate_batch_content_def batch_loop_items case_prod_beta
      batch_items_wf batch_items_length)

text \<open>
  C29. When every call of a method of the instance sends at most \<open>r\<close> requests and sleeps
  at most \<open>s\<close> times, between 5 and 15 seconds each time, a batch of \<open>n\<close> packages sends
  at most \<open>n * (64 + 2 * r)\<close> requests and sleeps at most \<open>n * (60 + 2 * s)\<close> times,
  between 5 and 15 seconds each time: every pause between two packages is in this range.
\<close>

theorem generate_batch_content_budget:
  assumes "frugal r s {5..15} attrs" "\<forall>i. 0 \<le> draws i \<and> draws i \<le> 1"
  shows "spends (nat count * (64 + 2 * r)) (nat count * (60 + 2 * s)) {5..15} w
           (snd (generate_batch_content lib attrs self draws count theme w)) \<and>
         set (sleeps (snd (generate_batch_content lib attrs self draws count theme w)))
           \<subseteq> set (sleeps w) \<union> {5..15}"
proof -
  have "spends (nat count * (64 + 2 * r)) (nat count * (60 + 2 * s)) {5..15} w
      (snd (batch_items lib attrs self draws theme (nat count) 0 w))"
    using assms by (intro batch_items_spends) (simp_all add: poll_interval_def)
  then have "spends (nat count * (64 + 2 * r)) (nat count * (60 + 2 * s)) {5..15} w
      (snd (generate_batch_content lib attrs self draws count theme w))"
    by (simp add: generate_batch_content_def batch_loop_items case_prod_beta)
  then show ?thesis
    using spends_sleeps by blast
qed

theorem generate_batch_content_budget_witness:
  "spends 192 180 {5..15} stalled
     (snd (generate_batch_content red_lib templates studio (\<lambda>i. 1 / 2) 3 None stalled))"
  using generate_batch_content_budget [of 0 0 templates "\<lambda>i. 1 / 2" 3 stalled red_lib studio None]
  by simp

end
