(* ===== verification/Generator_Init.thy ===== *)
theory Generator_Init
  imports Generator_Budget
begin

text \<open>
  The construction of a generator: \<^verbatim>\<open>AIContentGenerator.__init__\<close> and
  \<^verbatim>\<open>_test_api_keys\<close>. The environment variables are a map, the path of the module
  file (\<^verbatim>\<open>os.path.abspath(__file__)\<close>) is a parameter.
\<close>

type_synonym environ = "string \<rightharpoonup> string"

section \<open>Testing the keys\<close>

definition openai_probe :: "string \<Rightarrow> http_request" where
  "openai_probe key = \<lparr>req_method = POST,
     req_url = ''https://api.openai.com/v1/chat/completions'',
     req_headers = [(''Content-Type'', Some ''application/json''),
                    (''Authorization'', Some (''Bearer '' @ key))],
     req_json = Some (JObj [(''model'', JStr ''gpt-3.5-turbo''),
                            (''messages'', JArr [JObj [(''role'', JStr ''user''),
                                                       (''content'', JStr ''test'')]]),
                            (''max_tokens'', JInt 5)]),
     req_timeout = 10\<rparr>"

definition test_payload :: json where
  "test_payload =
     JObj [(''model'', JStr ''midjourney''),
           (''task_type'', JStr ''imagine''),
           (''input'', JObj [(''prompt'', JStr ''test''),
                             (''aspect_ratio'', JStr ''1:1''),
                             (''process_mode'', JStr ''fast''),
                             (''skip_prompt_check'', JBool True)])]"

text \<open>Truthiness of an optional string: \<^verbatim>\<open>None\<close> and the empty string are false.\<close>

definition key_set :: "string option \<Rightarrow> bool" where
  "key_set key = (case key of None \<Rightarrow> False | Some k \<Rightarrow> k \<noteq> [])"

text \<open>The first half of \<^verbatim>\<open>_test_api_keys\<close>: the OpenAI key.\<close>

definition test_openai_key :: "generator \<Rightarrow> generator effect" where
  "test_openai_key self w =
     (case openai_api_key self of
        None \<Rightarrow> (self, w)
      | Some key \<Rightarrow>
          if key = [] then (self, w)
          else (case requests_send (openai_probe key) w of
                  (Inl e, w1) \<Rightarrow> (self\<lparr>openai_available := False\<rparr>, w1)
                | (Inr response, w1) \<Rightarrow>
                    (self\<lparr>openai_available := (status_code response = 200)\<rparr>, w1)))"

text \<open>The second half: the Midjourney key, tested by submitting a task.\<close>

definition test_midjourney_key :: "generator \<Rightarrow> generator effect" where
  "test_midjourney_key self w =
     (if \<not> key_set (midjourney_api_key self) then (self, w)
      else (case requests_post (task_endpoint self) (api_headers self) test_payload 10 w of
              (Inl e, w1) \<Rightarrow> (self\<lparr>midjourney_available := False\<rparr>, w1)
            | (Inr response, w1) \<Rightarrow>
                if status_code response = 200
                then (case bind_raises (body_json response)
                             (\<lambda>result. data_get result ''task_id'' JNull) of
                        Inl e \<Rightarrow> (self\<lparr>midjourney_available := False\<rparr>, w1)
                      | Inr task_id \<Rightarrow> (self\<lparr>midjourney_available := truthy task_id\<rparr>, w1))
                else (self\<lparr>midjourney_available := False\<rparr>, w1)))"

definition test_api_keys :: "generator \<Rightarrow> (bool \<times> generator) effect" where
  "test_api_keys self w =
     (case test_openai_key self w of
        (self1, w1) \<Rightarrow>
          (case test_midjourney_key self1 w1 of
             (self2, w2) \<Rightarrow> ((openai_available self2 \<or> midjourney_available self2, self2), w2)))"

section \<open>The constructor\<close>

definition getenv :: "environ \<Rightarrow> string \<Rightarrow> string \<Rightarrow> string" where
  "getenv env name dflt = (case env name of None \<Rightarrow> dflt | Some v \<Rightarrow> v)"

text \<open>
  The object after the first assignments of \<^verbatim>\<open>__init__\<close>: the keys, the URL and the two
  flags. The directories and the analyzer are assigned after the keys are tested; the
  test does not read them.
\<close>

definition configured :: "environ \<Rightarrow> generator" where
  "configured env =
     \<lparr>openai_api_key = env ''OPENAI_API_KEY'',
      midjourney_api_key = env ''MIDJOURNEY_API_KEY'',
      midjourney_api_url = getenv env ''MIDJOURNEY_API_URL'' ''https://api.goapi.ai'',
      openai_available = key_set (env ''OPENAI_API_KEY''),
      midjourney_available = False,
      static_dir = [], generated_images_dir = [], fallback_images_dir = [],
      image_analyzer = ImageAnalyzer\<rparr>"

definition AIContentGenerator :: "environ \<Rightarrow> string \<Rightarrow> generator raises effect" where
  "AIContentGenerator env module_file w =
     (case test_api_keys (configured env) w of
        ((any_available, self), w1) \<Rightarrow>
          (let static = path_join (path_join (dirname (dirname module_file)) ''web_interface'')
                          ''static'';
               generated = path_join static ''generated_images'';
               fallback = path_join static ''fallback_images''
           in case makedirs generated w1 of
                (Inl e, w2) \<Rightarrow> (Inl e, w2)
              | (Inr made, w2) \<Rightarrow>
                  (case makedirs fallback w2 of
                     (Inl e, w3) \<Rightarrow> (Inl e, w3)
                   | (Inr made', w3) \<Rightarrow>
                       (Inr (self\<lparr>static_dir := static, generated_images_dir := generated,
                                  fallback_images_dir := fallback,
                                  image_analyzer := ImageAnalyzer\<rparr>), w3))))"

text \<open>
  What the constructor establishes and every method keeps: the two directories exist and
  are named after the static directory, and a service is marked available only if its
  key is set.
\<close>

definition wf_generator :: "generator \<Rightarrow> world \<Rightarrow> bool" where
  "wf_generator self w \<longleftrightarrow>
     storable self w \<and> fallback_images_dir self \<in> dirs w \<and>
     generated_images_dir self = path_join (static_dir self) ''generated_images'' \<and>
     fallback_images_dir self = path_join (static_dir self) ''fallback_images'' \<and>
     (openai_available self \<longrightarrow> key_set (openai_api_key self)) \<and>
     (midjourney_available self \<longrightarrow> key_set (midjourney_api_key self)) \<and>
     image_analyzer self = ImageAnalyzer"

section \<open>Requests and example inputs\<close>

text \<open>
  The request that tests the Midjourney key, the static directory beside the package of
  a module file, and an application: its environment, the path of its module, a world
  that rejects the OpenAI key and accepts the Midjourney probe, and the same world with a
  file where the static directory should be.
\<close>

definition midjourney_probe :: "generator \<Rightarrow> http_request" where
  "midjourney_probe self = \<lparr>req_method = POST, req_url = task_endpoint self,
     req_headers = api_headers self, req_json = Some test_payload, req_timeout = 10\<rparr>"

definition static_of :: "string \<Rightarrow> string" where
  "static_of module_file =
     path_join (path_join (dirname (dirname module_file)) ''web_interface'') ''static''"

definition app_env :: environ where
  "app_env = [''OPENAI_API_KEY'' \<mapsto> ''sk-1'', ''MIDJOURNEY_API_KEY'' \<mapsto> ''mj-1'']"

definition app_file :: string where
  "app_file = ''/app/src/content_generation/ai_content_generator.py''"

definition probed :: world where
  "probed = scripted (\<lambda>n rq.
     if req_url rq = ''https://api.openai.com/v1/chat/completions''
     then Inr \<lparr>status_code = 401, body_text = ''invalid key'', body_json = Inl ''Expecting value'',
                content = []\<rparr>
     else Inr (json_response (accepted_json ''probe'')))"

definition cluttered :: world where
  "cluttered = probed\<lparr>files := [''/app/src/web_interface/static'' \<mapsto> []]\<rparr>"

section \<open>The tests of the keys\<close>

lemma test_openai_key_keeps [simp]:
  "openai_api_key (fst (test_openai_key self w)) = openai_api_key self"
  "midjourney_api_key (fst (test_openai_key self w)) = midjourney_api_key self"
  "midjourney_api_url (fst (test_openai_key self w)) = midjourney_api_url self"
  "midjourney_available (fst (test_openai_key self w)) = midjourney_available self"
  by (auto simp: test_openai_key_def case_prod_beta split: option.splits sum.splits)

lemma test_midjourney_key_keeps [simp]:
  "openai_api_key (fst (test_midjourney_key self w)) = openai_api_key self"
  "midjourney_api_key (fst (test_midjourney_key self w)) = midjourney_api_key self"
  "midjourney_api_url (fst (test_midjourney_key self w)) = midjourney_api_url self"
  "openai_available (fst (test_midjourney_key self w)) = openai_available self"
  by (auto simp: test_midjourney_key_def case_prod_beta split: sum.splits)

lemma test_openai_key_spends: "spends 1 0 D w (snd (test_openai_key self w))"
  by (auto simp: test_openai_key_def case_prod_beta spends_send_le
      split: option.splits if_splits sum.splits)

lemma test_midjourney_key_spends: "spends 1 0 D w (snd (test_midjourney_key self w))"
  by (auto simp: test_midjourney_key_def case_prod_beta requests_post_def spends_send_le
      split: if_splits sum.splits)

lemma test_api_keys_spends: "spends 2 0 D w (snd (test_api_keys self w))"
proof -
  have "spends (1 + 1) (0 + 0) D w
      (snd (test_midjourney_key (fst (test_openai_key self w)) (snd (test_openai_key self w))))"
    by (rule spends_trans [OF test_openai_key_spends test_midjourney_key_spends])
  then show ?thesis
    by (simp add: test_api_keys_def case_prod_beta numeral_2_eq_2)
qed

lemma test_openai_key_available:
  "openai_available (fst (test_openai_key self w)) \<longleftrightarrow>
     (if key_set (openai_api_key self)
      then (case remote w (length (requests_log w)) (openai_probe (the (openai_api_key self))) of
              Inl e \<Rightarrow> False | Inr response \<Rightarrow> status_code response = 200)
      else openai_available self)"
  by (auto simp: test_openai_key_def key_set_def case_prod_beta split: option.splits sum.splits)

lemma test_midjourney_key_available:
  "midjourney_available (fst (test_midjourney_key self w)) \<longleftrightarrow>
     (if key_set (midjourney_api_key self)
      then (\<exists>response task_id.
              remote w (length (requests_log w)) (midjourney_probe self) = Inr response \<and>
              accepts response task_id)
      else midjourney_available self)"
  by (auto simp: test_midjourney_key_def accepts_def requests_post_def midjourney_probe_def
      case_prod_beta bind_raises_def split: sum.splits)

lemma test_openai_key_log:
  "requests_log (snd (test_openai_key self w)) =
     requests_log w @ (if key_set (openai_api_key self) then [openai_probe (the (openai_api_key self))]
                       else [])"
  "remote (snd (test_openai_key self w)) = remote w"
  "files (snd (test_openai_key self w)) = files w"
  "dirs (snd (test_openai_key self w)) = dirs w"
  by (auto simp: test_openai_key_def key_set_def case_prod_beta split: option.splits sum.splits)

lemma test_midjourney_key_log:
  "requests_log (snd (test_midjourney_key self w)) =
     requests_log w @ (if key_set (midjourney_api_key self) then [midjourney_probe self] else [])"
  "remote (snd (test_midjourney_key self w)) = remote w"
  "files (snd (test_midjourney_key self w)) = files w"
  "dirs (snd (test_midjourney_key self w)) = dirs w"
  by (auto simp: test_midjourney_key_def requests_post_def midjourney_probe_def case_prod_beta
      split: sum.splits)

section \<open>The constructor\<close>

lemma test_api_keys_eq:
  "test_api_keys self w =
     (let s1 = fst (test_openai_key self w); w1 = snd (test_openai_key self w);
          s2 = fst (test_midjourney_key s1 w1)
      in ((openai_available s2 \<or> midjourney_available s2, s2), snd (test_midjourney_key s1 w1)))"
  by (simp add: test_api_keys_def case_prod_beta Let_def)

lemma test_api_keys_fields:
  assumes "test_api_keys self w = ((b, self'), w')"
  shows "openai_api_key self' = openai_api_key self" "midjourney_api_key self' = midjourney_api_key self"
    "midjourney_api_url self' = midjourney_api_url self"
    "openai_available self' \<longrightarrow> key_set (openai_api_key self) \<or> openai_available self"
    "midjourney_available self' \<longrightarrow> key_set (midjourney_api_key self) \<or> midjourney_available self"
  using assms
  by (auto simp: test_api_keys_eq Let_def test_openai_key_available test_midjourney_key_available
      split: if_splits)

lemma path_join_name:
  "b \<noteq> [] \<Longrightarrow> hd b \<noteq> CHR ''/'' \<Longrightarrow> path_join a b \<noteq> [] \<and> last (path_join a b) = last b"
  by (simp add: path_join_def)

lemma AIContentGenerator_Inr:
  assumes "fst (AIContentGenerator env module_file w) = Inr self"
  shows "wf_generator self (snd (AIContentGenerator env module_file w))"
proof -
  obtain b s1 w1 where t: "test_api_keys (configured env) w = ((b, s1), w1)"
    by (metis surj_pair)
  let ?static = "path_join (path_join (dirname (dirname module_file)) ''web_interface'') ''static''"
  let ?gen = "path_join ?static ''generated_images''"
  let ?fall = "path_join ?static ''fallback_images''"
  let ?w2 = "snd (makedirs ?gen w1)"
  from assms t have made: "fst (makedirs ?gen w1) = Inr ()" "fst (makedirs ?fall ?w2) = Inr ()"
    and self: "self = s1\<lparr>static_dir := ?static, generated_images_dir := ?gen,
        fallback_images_dir := ?fall, image_analyzer := ImageAnalyzer\<rparr>"
    and w': "snd (AIContentGenerator env module_file w) = snd (makedirs ?fall ?w2)"
    by (auto simp: AIContentGenerator_def Let_def case_prod_beta split: sum.splits)
  have "?gen \<in> dirs ?w2"
    using made(1) by (rule makedirs_exists)
  then have "?gen \<in> dirs (snd (makedirs ?fall ?w2))"
    using makedirs_dirs_mono [of ?w2 ?fall] by blast
  moreover have "?fall \<in> dirs (snd (makedirs ?fall ?w2))"
    using made(2) by (rule makedirs_exists)
  moreover have "?gen \<noteq> [] \<and> last ?gen \<noteq> CHR ''/''"
    using path_join_name [of "''generated_images''" ?static] by simp
  ultimately show ?thesis
    using test_api_keys_fields [OF t]
    by (simp add: wf_generator_def storable_def self w' configured_def)
qed

lemma configured_fields [simp]:
  "openai_api_key (configured env) = env ''OPENAI_API_KEY''"
  "midjourney_api_key (configured env) = env ''MIDJOURNEY_API_KEY''"
  "openai_available (configured env) = key_set (env ''OPENAI_API_KEY'')"
  "midjourney_available (configured env) = False"
  by (simp_all add: configured_def)

lemma AIContentGenerator_flags:
  assumes "fst (AIContentGenerator env module_file w) = Inr self"
  shows "openai_available self = openai_available (fst (test_openai_key (configured env) w))"
    and "midjourney_available self =
      midjourney_available (fst (test_midjourney_key (fst (test_openai_key (configured env) w))
        (snd (test_openai_key (configured env) w))))"
  using assms
  by (auto simp: AIContentGenerator_def test_api_keys_def Let_def case_prod_beta split: sum.splits)

lemma AIContentGenerator_world:
  "dirs (snd (test_api_keys self w)) = dirs w" "files (snd (test_api_keys self w)) = files w"
  "remote (snd (test_api_keys self w)) = remote w"
  "requests_log (snd (test_api_keys self w)) = requests_log w
     @ (if key_set (openai_api_key self) then [openai_probe (the (openai_api_key self))] else [])
     @ (if key_set (midjourney_api_key self) then [midjourney_probe self] else [])"
  by (simp_all add: test_api_keys_eq Let_def test_openai_key_log test_midjourney_key_log
      midjourney_probe_def task_endpoint_def api_headers_def)

lemma makedirs_Inl_iff:
  "(\<exists>e. fst (makedirs p w) = Inl e) \<longleftrightarrow> p = [] \<or> (\<exists>a\<in>set (ancestors p). files w a \<noteq> None)"
proof -
  have "(\<exists>e. fst (makedirs p w) = Inl e) \<longleftrightarrow>
      p = [] \<or> find (\<lambda>a. files w a \<noteq> None) (ancestors p) \<noteq> None"
    by (auto simp: makedirs_def split: option.splits)
  then show ?thesis
    by (auto simp: find_None_iff)
qed

lemma AIContentGenerator_spends:
  "spends 2 0 D w (snd (AIContentGenerator env module_file w))"
proof -
  have made: "spends 0 0 D w1 (snd (makedirs p w1))" for p w1
    by (auto simp: makedirs_def spends_def split: option.splits)
  have "spends 2 0 D w (snd (makedirs q (snd (makedirs p (snd (test_api_keys self w))))))"
    for p q self
    using spends_trans [OF spends_trans [OF test_api_keys_spends made] made] by simp
  with spends_trans [OF test_api_keys_spends made] test_api_keys_spends show ?thesis
    by (auto simp: AIContentGenerator_def Let_def case_prod_beta split: sum.splits)
qed

lemma AIContentGenerator_log:
  "remote (snd (AIContentGenerator env module_file w)) = remote w"
  "requests_log (snd (AIContentGenerator env module_file w)) =
     requests_log (snd (test_api_keys (configured env) w))"
  by (auto simp: AIContentGenerator_def Let_def case_prod_beta makedirs_def AIContentGenerator_world
      split: sum.splits option.splits)

lemma AIContentGenerator_static:
  "fst (AIContentGenerator env module_file w) = Inr self \<Longrightarrow> static_dir self = static_of module_file"
  by (auto simp: AIContentGenerator_def static_of_def Let_def case_prod_beta split: sum.splits)

lemma wf_generator_spends: "wf_generator self w \<Longrightarrow> spends r s D w w' \<Longrightarrow> wf_generator self w'"
  by (auto simp: wf_generator_def storable_def spends_def)

section \<open>Properties of the constructor\<close>

text \<open>
  C14. A generator that the constructor returns satisfies the invariant: its directories
  of generated and of fallback images exist and are the two subdirectories of
  \<^verbatim>\<open>web_interface/static\<close> beside the package of the module, and a service is marked
  available only if its key is set.
\<close>

theorem constructor_establishes_invariant:
  assumes "fst (AIContentGenerator env module_file w) = Inr self"
  shows "wf_generator self (snd (AIContentGenerator env module_file w)) \<and>
         static_dir self = static_of module_file"
  using AIContentGenerator_Inr [OF assms] AIContentGenerator_static [OF assms] by simp

lemma app_static: "static_of app_file = ''/app/src/web_interface/static''"
  by (simp add: static_of_def app_file_def dirname_def rstrip_slash_def path_join_def Let_def)

lemma makedirs_app:
  "files w = Map.empty \<Longrightarrow> fst (makedirs ''/app/src/web_interface/static/generated_images'' w) = Inr ()"
  "files w = Map.empty \<Longrightarrow> fst (makedirs ''/app/src/web_interface/static/fallback_images'' w) = Inr ()"
  by (simp_all add: makedirs_def find_None_iff [THEN iffD2])

lemma AIContentGenerator_app:
  "\<exists>self. fst (AIContentGenerator app_env app_file probed) = Inr self"
  using app_static
  by (simp add: AIContentGenerator_def Let_def case_prod_beta static_of_def path_join_def makedirs_app
      AIContentGenerator_world probed_def)

theorem constructor_establishes_invariant_witness:
  "\<exists>self. fst (AIContentGenerator app_env app_file probed) = Inr self \<and>
     generated_images_dir self = ''/app/src/web_interface/static/generated_images'' \<and>
     generated_images_dir self \<in> dirs (snd (AIContentGenerator app_env app_file probed))"
proof -
  from AIContentGenerator_app obtain self
    where self: "fst (AIContentGenerator app_env app_file probed) = Inr self" ..
  from constructor_establishes_invariant [OF self] show ?thesis
    using self by (auto simp: wf_generator_def storable_def app_static path_join_def)
qed



text \<open>
  C22. The constructor sends one probe for each key that is set, the one for OpenAI
  first, and nothing else. OpenAI is marked available exactly if its key is set and its
  probe is answered 200; Midjourney exactly if its key is set and its probe, a real
  imagine task with the prompt \<^verbatim>\<open>test\<close>, is accepted with a task identifier.
\<close>

theorem constructor_availability:
  assumes "fst (AIContentGenerator env module_file w) = Inr self"
  shows "requests_log (snd (AIContentGenerator env module_file w)) = requests_log w
      @ (if key_set (env ''OPENAI_API_KEY'') then [openai_probe (the (env ''OPENAI_API_KEY''))] else [])
      @ (if key_set (env ''MIDJOURNEY_API_KEY'') then [midjourney_probe (configured env)] else []) \<and>
    (openai_available self \<longleftrightarrow> key_set (env ''OPENAI_API_KEY'') \<and>
       (\<exists>response. remote w (length (requests_log w)) (openai_probe (the (env ''OPENAI_API_KEY'')))
          = Inr response \<and> status_code response = 200)) \<and>
    (midjourney_available self \<longleftrightarrow> key_set (env ''MIDJOURNEY_API_KEY'') \<and>
       (\<exists>response task_id.
          remote w (length (requests_log w) + (if key_set (env ''OPENAI_API_KEY'') then 1 else 0))
            (midjourney_probe (configured env)) = Inr response \<and> accepts response task_id))"
proof -
  have "requests_log (snd (AIContentGenerator env module_file w)) =
      requests_log (snd (test_api_keys (configured env) w))"
    by (auto simp: AIContentGenerator_def Let_def case_prod_beta split: sum.splits)
  moreover have "midjourney_probe (fst (test_openai_key (configured env) w)) =
      midjourney_probe (configured env)"
    by (simp add: midjourney_probe_def task_endpoint_def api_headers_def)
  ultimately show ?thesis
    using AIContentGenerator_flags [OF assms]
    by (auto simp: AIContentGenerator_world test_openai_key_available test_midjourney_key_available
        test_openai_key_log split: sum.splits)
qed

theorem constructor_availability_witness:
  "\<exists>self. fst (AIContentGenerator app_env app_file probed) = Inr self \<and>
     \<not> openai_available self \<and> midjourney_available self \<and>
     length (requests_log (snd (AIContentGenerator app_env app_file probed))) = 2"
proof -
  from AIContentGenerator_app obtain self
    where self: "fst (AIContentGenerator app_env app_file probed) = Inr self" ..
  have "accepts (json_response (accepted_json ''probe'')) (JStr ''probe'')"
    by (simp add: accepts_accepted_json)
  with constructor_availability [OF self] self show ?thesis
    by (auto simp: app_env_def key_set_def probed_def openai_probe_def midjourney_probe_def
        task_endpoint_def configured_def getenv_def)
qed

text \<open>
  C23. The constructor raises exactly when a file is in the way of one of its two
  directories; the keys have been tested by then.
\<close>

theorem constructor_raises:
  "(\<exists>e. fst (AIContentGenerator env module_file w) = Inl e) \<longleftrightarrow>
     (\<exists>a \<in> set (ancestors (path_join (static_of module_file) ''generated_images''))
            \<union> set (ancestors (path_join (static_of module_file) ''fallback_images'')).
        files w a \<noteq> None)"
proof -
  let ?gen = "path_join (static_of module_file) ''generated_images''"
  let ?fall = "path_join (static_of module_file) ''fallback_images''"
  let ?w1 = "snd (test_api_keys (configured env) w)"
  have ne: "?gen \<noteq> []" "?fall \<noteq> []"
    using path_join_name [of "''generated_images''"] path_join_name [of "''fallback_images''"]
    by simp_all
  have "(\<exists>e. fst (AIContentGenerator env module_file w) = Inl e) \<longleftrightarrow>
      (\<exists>e. fst (makedirs ?gen ?w1) = Inl e) \<or>
      (\<exists>e. fst (makedirs ?fall (snd (makedirs ?gen ?w1))) = Inl e)"
    by (auto simp: AIContentGenerator_def static_of_def Let_def case_prod_beta split: sum.splits)
  then show ?thesis
    using ne by (auto simp: makedirs_Inl_iff AIContentGenerator_world)
qed

theorem constructor_raises_witness:
  "\<exists>e. fst (AIContentGenerator app_env app_file cluttered) = Inl e"
proof -
  have "''/app/src/web_interface/static''
      \<in> set (ancestors (path_join (static_of app_file) ''generated_images''))"
    unfolding app_static by (rule parent_ancestor) simp_all
  moreover have "files cluttered ''/app/src/web_interface/static'' \<noteq> None"
    by (simp add: cluttered_def)
  ultimately show ?thesis
    using constructor_raises [of app_env app_file cluttered] by blast
qed

end
