(* ===== verification/Poller.thy ===== *)
theory Poller
  imports World
begin

text \<open>
  The task poller that the two loops of \<^verbatim>\<open>generate_image\<close> implement, as a state
  machine of its own: a bounded number of polls, each of which ends the sequence with a
  result, ends it with a failure, or asks for another poll after a pause; when no poll
  is left the sequence ends with the result fixed for a timeout. The machine knows
  nothing of HTTP or JSON: a poll is the verdict it gives. \<open>polled\<close> is what a
  sequence of polls does to the world, one request per poll and one sleep after each
  that asks for another.
\<close>

section \<open>The machine\<close>

datatype 'r verdict = Stop 'r | Fail exn | Again

datatype 'r phase = Polling nat | Finished "'r raises"

text \<open>
  A step is labelled with the verdict of the poll it makes; the step that gives up makes
  none.
\<close>

inductive poller_step :: "'r raises \<Rightarrow> 'r phase \<Rightarrow> 'r verdict option \<Rightarrow> 'r phase \<Rightarrow> bool"
  for exhausted :: "'r raises" where
  again: "poller_step exhausted (Polling (Suc n)) (Some Again) (Polling n)"
| stop: "poller_step exhausted (Polling (Suc n)) (Some (Stop r)) (Finished (Inr r))"
| fail: "poller_step exhausted (Polling (Suc n)) (Some (Fail e)) (Finished (Inl e))"
| give_up: "poller_step exhausted (Polling 0) None (Finished exhausted)"

text \<open>A run, with the verdicts of its polls in order.\<close>

inductive poller_run :: "'r raises \<Rightarrow> 'r phase \<Rightarrow> 'r verdict list \<Rightarrow> 'r phase \<Rightarrow> bool"
  for exhausted :: "'r raises" where
  rest: "poller_run exhausted p [] p"
| poll: "poller_step exhausted p (Some v) p' \<Longrightarrow> poller_run exhausted p' vs p'' \<Longrightarrow>
     poller_run exhausted p (v # vs) p''"
| silent: "poller_step exhausted p None p' \<Longrightarrow> poller_run exhausted p' vs p'' \<Longrightarrow>
     poller_run exhausted p vs p''"

text \<open>
  The machine as a function: from \<open>n\<close> polls left and the verdicts \<open>obs k\<close>, \<open>obs (k + 1)\<close>,
  ... of the polls to come, the result and the index after the last poll made.
\<close>

fun poller :: "'r raises \<Rightarrow> (nat \<Rightarrow> 'r verdict) \<Rightarrow> nat \<Rightarrow> nat \<Rightarrow> 'r raises \<times> nat" where
  "poller exhausted obs 0 k = (exhausted, k)"
| "poller exhausted obs (Suc n) k =
     (case obs k of
        Stop r \<Rightarrow> (Inr r, Suc k)
      | Fail e \<Rightarrow> (Inl e, Suc k)
      | Again \<Rightarrow> poller exhausted obs n (Suc k))"

definition attempts_left :: "'r phase \<Rightarrow> nat" where
  "attempts_left p = (case p of Polling n \<Rightarrow> n | Finished r \<Rightarrow> 0)"

definition is_again :: "'r verdict \<Rightarrow> bool" where
  "is_again v = (case v of Again \<Rightarrow> True | _ \<Rightarrow> False)"

section \<open>Polls in the world\<close>

text \<open>
  The world after the polls of a trace, each the request \<open>rq\<close>, with a sleep of \<open>d\<close>
  seconds after each \<open>Again\<close>; and the verdict of the \<open>k\<close>-th request of a world, were
  it \<open>rq\<close>.
\<close>

fun polled :: "real \<Rightarrow> http_request \<Rightarrow> 'r verdict list \<Rightarrow> world \<Rightarrow> world" where
  "polled d rq [] w = w"
| "polled d rq (v # vs) w =
     polled d rq vs
       (if is_again v then time_sleep d (snd (requests_send rq w)) else snd (requests_send rq w))"

definition observed ::
  "(http_response raises \<Rightarrow> 'r verdict) \<Rightarrow> http_request \<Rightarrow> world \<Rightarrow> nat \<Rightarrow> 'r verdict" where
  "observed verdict rq w k = verdict (remote w k rq)"

text \<open>The verdicts of the polls that \<open>poller\<close> makes from index \<open>k\<close> on.\<close>

definition trace :: "'r raises \<Rightarrow> (nat \<Rightarrow> 'r verdict) \<Rightarrow> nat \<Rightarrow> nat \<Rightarrow> 'r verdict list" where
  "trace exhausted obs n k = map obs [k..<snd (poller exhausted obs n k)]"

section \<open>Steps\<close>

inductive_cases poller_step_Finished: "poller_step exhausted (Finished r) l p"
inductive_cases poller_step_Polling_0: "poller_step exhausted (Polling 0) l p"
inductive_cases poller_step_Polling_Suc: "poller_step exhausted (Polling (Suc n)) l p"
inductive_cases poller_run_Nil: "poller_run exhausted p [] p'"
inductive_cases poller_run_Cons: "poller_run exhausted p (v # vs) p'"

inductive_simps poller_step_Some: "poller_step exhausted p (Some v) p'"

lemma attempts_left_simps [simp]:
  "attempts_left (Polling n) = n" "attempts_left (Finished r) = 0"
  by (simp_all add: attempts_left_def)

lemma is_again_simps [simp]:
  "is_again Again" "\<not> is_again (Stop r)" "\<not> is_again (Fail e)"
  by (simp_all add: is_again_def)

lemma poller_step_terminal: "\<not> poller_step exhausted (Finished r) l p"
  by (auto elim: poller_step_Finished)

lemma poller_step_deterministic:
  "poller_step exhausted p l p' \<Longrightarrow> poller_step exhausted p l p'' \<Longrightarrow> p' = p''"
  by (induction rule: poller_step.induct) (auto elim: poller_step.cases)

lemma poller_step_attempts:
  "poller_step exhausted p l p' \<Longrightarrow>
     attempts_left p' + (case l of None \<Rightarrow> 0 | Some v \<Rightarrow> 1) \<le> attempts_left p"
  by (induction rule: poller_step.induct) simp_all

lemma poller_run_attempts:
  "poller_run exhausted p vs p' \<Longrightarrow> attempts_left p' + length vs \<le> attempts_left p"
proof (induction rule: poller_run.induct)
  case (rest p)
  show ?case by simp
next
  case (poll p v p' vs p'')
  from poller_step_attempts [OF poll.hyps(1)] poll.IH show ?case by simp
next
  case (silent p p' vs p'')
  from poller_step_attempts [OF silent.hyps(1)] silent.IH show ?case by simp
qed

lemma poller_run_Finished: "poller_run exhausted (Finished r) vs p \<Longrightarrow> vs = [] \<and> p = Finished r"
  by (induction "Finished r :: 'a phase" vs p rule: poller_run.induct)
    (auto simp: poller_step_terminal)

section \<open>The function and the runs\<close>

lemma poller_index: "k \<le> snd (poller exhausted obs n k) \<and> snd (poller exhausted obs n k) \<le> k + n"
proof (induction n arbitrary: k)
  case 0
  show ?case by simp
next
  case (Suc n)
  from Suc [of "Suc k"] show ?case
    by (auto split: verdict.splits)
qed

lemma trace_0 [simp]: "trace exhausted obs 0 k = []"
  by (simp add: trace_def)

lemma trace_Suc:
  "trace exhausted obs (Suc n) k =
     obs k # (if is_again (obs k) then trace exhausted obs n (Suc k) else [])"
  using poller_index [of "Suc k" exhausted obs n]
  by (auto simp: trace_def upt_conv_Cons split: verdict.splits)

lemma poller_run_trace:
  "poller_run exhausted (Polling n) (trace exhausted obs n k)
     (Finished (fst (poller exhausted obs n k)))"
proof (induction n arbitrary: k)
  case 0
  show ?case
    by (auto intro: poller_run.silent [OF give_up] poller_run.rest)
next
  case (Suc n)
  show ?case
  proof (cases "obs k")
    case Again
    with Suc [of "Suc k"] show ?thesis
      by (auto simp: trace_Suc intro: poller_run.poll [OF again])
  qed (auto simp: trace_Suc intro: poller_run.poll [OF stop] poller_run.poll [OF fail] poller_run.rest)
qed

lemma poller_run_result:
  "poller_run exhausted p vs p' \<Longrightarrow> p = Polling n \<Longrightarrow> p' = Finished r \<Longrightarrow>
     \<forall>i<length vs. obs (k + i) = vs ! i \<Longrightarrow> r = fst (poller exhausted obs n k)"
proof (induction arbitrary: n k rule: poller_run.induct)
  case (rest p)
  then show ?case by simp
next
  case (poll p v p' vs p'')
  from poll.prems(3) [rule_format, of 0] have v: "obs k = v"
    by simp
  have vs: "\<forall>i<length vs. obs (Suc k + i) = vs ! i"
    using poll.prems(3) [rule_format, of "Suc i" for i] by simp
  from poll.hyps(1) poll.prems(1) obtain m where n: "n = Suc m"
    by (auto elim: poller_step.cases)
  show ?case
  proof (cases v)
    case Again
    with poll.hyps(1) poll.prems(1) n have "p' = Polling m"
      by (auto elim: poller_step.cases)
    from poll.IH [OF this poll.prems(2) vs] show ?thesis
      by (simp add: n v Again)
  next
    case (Stop x)
    with poll.hyps(1) poll.prems(1) n have "p' = Finished (Inr x)"
      by (auto elim: poller_step.cases)
    with poller_run_Finished [of exhausted "Inr x" vs p''] poll.hyps(2) poll.prems(2) show ?thesis
      by (simp add: n v Stop)
  next
    case (Fail e)
    with poll.hyps(1) poll.prems(1) n have "p' = Finished (Inl e)"
      by (auto elim: poller_step.cases)
    with poller_run_Finished [of exhausted "Inl e" vs p''] poll.hyps(2) poll.prems(2) show ?thesis
      by (simp add: n v Fail)
  qed
next
  case (silent p p' vs p'')
  from silent.hyps(1) silent.prems(1) have "n = 0" "p' = Finished exhausted"
    by (auto elim: poller_step.cases)
  with poller_run_Finished [of exhausted exhausted vs p''] silent.hyps(2) silent.prems(2)
  show ?case by simp
qed

section \<open>Loops that implement the machine\<close>

text \<open>
  A loop over the attempts left that sends \<open>rq\<close>, takes the verdict of the answer, and
  on \<open>Again\<close> sleeps \<open>d\<close> seconds before the next attempt, returns what the machine
  returns for the verdicts the world gives, in the world after the polls of its trace.
  \<open>finish\<close> is what the loop does with the result.
\<close>

lemma polled_frame [simp]:
  "remote (polled d rq vs w) = remote w"
  "length (requests_log (polled d rq vs w)) = length (requests_log w) + length vs"
  by (induction vs arbitrary: w) simp_all

lemma observed_frame:
  "remote w' = remote w \<Longrightarrow> observed verdict rq w' = observed verdict rq w"
  by (simp add: observed_def fun_eq_iff)

lemma loop_refines_poller:
  fixes loop :: "nat \<Rightarrow> world \<Rightarrow> 'a" and finish :: "'r raises \<Rightarrow> world \<Rightarrow> 'a"
  assumes zero: "\<And>w. loop 0 w = finish exhausted w"
    and more: "\<And>n w. loop (Suc n) w =
      (case verdict (fst (requests_send rq w)) of
         Stop r \<Rightarrow> finish (Inr r) (snd (requests_send rq w))
       | Fail e \<Rightarrow> finish (Inl e) (snd (requests_send rq w))
       | Again \<Rightarrow> loop n (time_sleep d (snd (requests_send rq w))))"
  shows "loop n w =
     finish (fst (poller exhausted (observed verdict rq w) n (length (requests_log w))))
       (polled d rq (trace exhausted (observed verdict rq w) n (length (requests_log w))) w)"
proof (induction n arbitrary: w)
  case 0
  show ?case by (simp add: zero)
next
  case (Suc n)
  let ?w1 = "time_sleep d (snd (requests_send rq w))"
  have obs: "observed verdict rq ?w1 = observed verdict rq w"
    by (rule observed_frame) simp
  have here: "fst (requests_send rq w) = remote w (length (requests_log w)) rq"
    by (simp add: requests_send_def Let_def)
  show ?case
  proof (cases "observed verdict rq w (length (requests_log w))")
    case Again
    with Suc [of ?w1] show ?thesis
      by (simp add: more here obs trace_Suc observed_def [symmetric])
  qed (simp_all add: more here trace_Suc observed_def [symmetric])
qed

end
