(* ===== verification/Generator_Poller.thy ===== *)
theory Generator_Poller
  imports Generator_Runs Poller
begin

text \<open>
  The two polling loops of \<^verbatim>\<open>generate_image\<close> against the poller of theory \<open>Poller\<close>:
  what a poll of each loop shows as a verdict of the machine, and that each loop returns
  what the machine returns for the verdicts the remote side gives, in the world after
  the polls it made.
\<close>

section \<open>Verdicts\<close>

text \<open>
  The verdict of the inner loop on an answer: an exception of the transport or of
  reading the response fails, \<^verbatim>\<open>break\<close> stops with the URL to use. The result of a
  timeout is the URL of the grid.
\<close>

definition upscale_verdict :: "json \<Rightarrow> http_response raises \<Rightarrow> json verdict" where
  "upscale_verdict image_url answer =
     (case answer of
        Inl e \<Rightarrow> Fail e
      | Inr response \<Rightarrow>
          (case upscale_poll_step image_url response of
             Inl e \<Rightarrow> Fail e
           | Inr (Break url) \<Rightarrow> Stop url
           | Inr Continue \<Rightarrow> Again))"

text \<open>
  The verdict of the outer loop: a completed task stops with its URL and its actions.
  The result of a timeout is the exception raised after the loop; a result is finished
  by raising it or by the branch of a completed task.
\<close>

definition imagine_verdict :: "py_lib \<Rightarrow> http_response raises \<Rightarrow> (json \<times> json) verdict" where
  "imagine_verdict lib answer =
     (case answer of
        Inl e \<Rightarrow> Fail e
      | Inr response \<Rightarrow>
          (case imagine_poll_step lib response of
             Inl e \<Rightarrow> Fail e
           | Inr (Completed image_url actions) \<Rightarrow> Stop (image_url, actions)
           | Inr Waiting \<Rightarrow> Again))"

definition imagine_timeout :: "(json \<times> json) raises" where
  "imagine_timeout = Inl ''Timed out waiting for Midjourney task to complete''"

definition finish_imagine ::
  "py_lib \<Rightarrow> generator \<Rightarrow> json \<Rightarrow> (json \<times> json) raises \<Rightarrow> string raises effect" where
  "finish_imagine lib self task_id result w =
     (case result of
        Inl e \<Rightarrow> (Inl e, w)
      | Inr (image_url, actions) \<Rightarrow> on_completed lib self task_id image_url actions w)"

section \<open>The loops as pollers\<close>

lemma poll_upscale_Suc:
  "poll_upscale lib self tid url (Suc n) w =
     (case upscale_verdict url (fst (requests_send (poll_request lib self tid) w)) of
        Stop r \<Rightarrow> (Inr r, snd (requests_send (poll_request lib self tid) w))
      | Fail e \<Rightarrow> (Inl e, snd (requests_send (poll_request lib self tid) w))
      | Again \<Rightarrow> poll_upscale lib self tid url n
          (time_sleep (real poll_interval) (snd (requests_send (poll_request lib self tid) w))))"
  by (simp add: upscale_verdict_def requests_eq case_prod_beta split: sum.splits loop_ctl.splits)

lemma poll_imagine_Suc:
  "poll_imagine lib self tid (Suc n) w =
     (case imagine_verdict lib (fst (requests_send (poll_request lib self tid) w)) of
        Stop r \<Rightarrow> finish_imagine lib self tid (Inr r) (snd (requests_send (poll_request lib self tid) w))
      | Fail e \<Rightarrow> finish_imagine lib self tid (Inl e) (snd (requests_send (poll_request lib self tid) w))
      | Again \<Rightarrow> poll_imagine lib self tid n
          (time_sleep (real poll_interval) (snd (requests_send (poll_request lib self tid) w))))"
  by (simp add: imagine_verdict_def finish_imagine_def requests_eq case_prod_beta
      split: sum.splits poll_verdict.splits)

lemma poll_upscale_poller:
  "poll_upscale lib self tid url n w =
     (fst (poller (Inr url) (observed (upscale_verdict url) (poll_request lib self tid) w) n
             (length (requests_log w))),
      polled (real poll_interval) (poll_request lib self tid)
        (trace (Inr url) (observed (upscale_verdict url) (poll_request lib self tid) w) n
           (length (requests_log w))) w)"
  by (rule loop_refines_poller [where loop = "poll_upscale lib self tid url" and finish = Pair])
    (simp_all only: poll_upscale.simps(1) poll_upscale_Suc)

lemma poll_imagine_poller:
  "poll_imagine lib self tid n w =
     finish_imagine lib self tid
       (fst (poller imagine_timeout (observed (imagine_verdict lib) (poll_request lib self tid) w) n
               (length (requests_log w))))
       (polled (real poll_interval) (poll_request lib self tid)
          (trace imagine_timeout (observed (imagine_verdict lib) (poll_request lib self tid) w) n
             (length (requests_log w))) w)"
  by (rule loop_refines_poller [where loop = "poll_imagine lib self tid"
        and finish = "finish_imagine lib self tid"])
    (simp_all only: poll_imagine_Suc, simp add: finish_imagine_def imagine_timeout_def)

section \<open>Refinement\<close>

text \<open>
  C15. The inner loop implements the poller: started with \<open>n\<close> attempts it returns what
  the machine returns for the verdicts of the answers that the remote side gives to its
  polls, the URL of the grid when the attempts run out, and it leaves the world after
  exactly the polls of the machine's trace, with a sleep of 10 seconds after every poll
  that asked for another.
\<close>

theorem poll_upscale_implements_poller:
  "let rq = poll_request lib self tid;
       obs = observed (upscale_verdict url) rq w;
       k = length (requests_log w)
   in poll_upscale lib self tid url n w =
        (fst (poller (Inr url) obs n k), polled 10 rq (trace (Inr url) obs n k) w)"
  using poll_upscale_poller [of lib self tid url n w] by (simp add: poll_interval_def)

theorem poll_upscale_implements_poller_witness:
  "poll_upscale red_lib studio (JStr ''t2'') (JStr ''https://cdn/grid.png'') 2
     (upscaling\<lparr>requests_log := replicate 4 (get_request [])\<rparr>) =
   (Inr (JStr ''https://cdn/up.png''),
    polled 10 (poll_request red_lib studio (JStr ''t2'')) [Again, Stop (JStr ''https://cdn/up.png'')]
      (upscaling\<lparr>requests_log := replicate 4 (get_request [])\<rparr>))"
  using poll_upscale_implements_poller [where lib = red_lib and self = studio and tid = "JStr ''t2''"
      and url = "JStr ''https://cdn/grid.png''" and n = 2
      and w = "upscaling\<lparr>requests_log := replicate 4 (get_request [])\<rparr>"]
  by (simp add: numeral_2_eq_2 trace_Suc observed_def upscale_verdict_def upscaling_def
      upscale_poll_step_processing upscale_poll_step_completed Let_def)

text \<open>
  C8. The outer loop implements the poller: started with \<open>n\<close> attempts it makes the
  polls of the machine's trace, with a sleep of 10 seconds after every poll that asked
  for another, and then raises the exception the machine ends with, the timeout when
  the attempts ran out, or enters the branch of a completed task with the URL and the
  actions the machine stopped with.
\<close>

theorem poll_imagine_implements_poller:
  "let rq = poll_request lib self tid;
       obs = observed (imagine_verdict lib) rq w;
       k = length (requests_log w);
       w' = polled 10 rq (trace imagine_timeout obs n k) w
   in poll_imagine lib self tid n w =
        (case fst (poller imagine_timeout obs n k) of
           Inl e \<Rightarrow> (Inl e, w')
         | Inr (image_url, actions) \<Rightarrow> on_completed lib self tid image_url actions w')"
  using poll_imagine_poller [of lib self tid n w]
  by (simp add: poll_interval_def finish_imagine_def)

theorem poll_imagine_implements_poller_witness:
  "poll_imagine red_lib studio (JStr ''t1'') 2 (stalled\<lparr>requests_log := [get_request []]\<rparr>) =
   (Inl ''Timed out waiting for Midjourney task to complete'',
    polled 10 (poll_request red_lib studio (JStr ''t1'')) [Again, Again]
      (stalled\<lparr>requests_log := [get_request []]\<rparr>))"
  using poll_imagine_implements_poller [where lib = red_lib and self = studio and tid = "JStr ''t1''"
      and n = 2 and w = "stalled\<lparr>requests_log := [get_request []]\<rparr>"]
  by (simp add: numeral_2_eq_2 trace_Suc observed_def imagine_verdict_def stalled_def
      imagine_poll_step_processing imagine_timeout_def Let_def)



end
