(* ===== verification/Generator_Safety.thy ===== *)
theory Generator_Safety
  imports Generator_Budget
begin

text \<open>
  Where the API key goes. The headers of the task API carry the key; the URLs that
  \<^verbatim>\<open>generate_image\<close> downloads come from the responses of the remote side. Every
  request of a run either goes to the task endpoint of the configured API with the
  headers of the API, or is a download without any header.
\<close>

text \<open>
  \<open>sends P w w'\<close>: from \<open>w\<close> to \<open>w'\<close> the log of requests was only appended to, with
  requests that satisfy \<open>P\<close>. \<open>keeps_key self rq\<close>: the request \<open>rq\<close> has no header, or
  it has the headers of the API and its URL begins with the task endpoint.
\<close>

definition sends :: "(http_request \<Rightarrow> bool) \<Rightarrow> world \<Rightarrow> world \<Rightarrow> bool" where
  "sends P w w' \<longleftrightarrow> (\<exists>rs. requests_log w' = requests_log w @ rs \<and> list_all P rs)"

definition keeps_key :: "generator \<Rightarrow> http_request \<Rightarrow> bool" where
  "keeps_key self rq \<longleftrightarrow>
     req_headers rq = [] \<or>
     req_headers rq = api_headers self \<and> prefix (task_endpoint self) (req_url rq)"

section \<open>Appending to the log\<close>

lemma sends_refl [simp, intro]: "sends P w w"
  by (simp add: sends_def)

lemma sends_frame: "requests_log w' = requests_log w \<Longrightarrow> sends P w w'"
  by (simp add: sends_def)

lemma sends_trans: "sends P w w1 \<Longrightarrow> sends P w1 w2 \<Longrightarrow> sends P w w2"
  unfolding sends_def by (metis append.assoc list_all_append)

lemma sends_send: "P rq \<Longrightarrow> sends P w (snd (requests_send rq w))"
  unfolding sends_def by (intro exI [of _ "[rq]"]) simp

lemma sends_step: "P rq \<Longrightarrow> sends P (snd (requests_send rq w)) w' \<Longrightarrow> sends P w w'"
  by (rule sends_trans [OF sends_send])

lemma sends_sleep: "sends P (time_sleep d w) w' \<Longrightarrow> sends P w w'"
  by (simp add: sends_def)

lemma sends_write_file: "sends P w (snd (write_file p d w))"
  using write_file_world [of p d w] by (auto intro: sends_frame)

lemma sends_write_file_step: "sends P (snd (write_file p d w)) w' \<Longrightarrow> sends P w w'"
  by (rule sends_trans [OF sends_write_file])

section \<open>The requests of generate_image\<close>

lemma keeps_key_requests [simp]:
  "keeps_key self (poll_request lib self tid)" "keeps_key self (task_request self payload)"
  "keeps_key self (get_request url)"
  by (simp_all add: keeps_key_def poll_request_def task_request_def get_request_def task_url_def
      task_endpoint_def)

lemma poll_upscale_sends:
  "sends (keeps_key self) w (snd (poll_upscale lib self tid url n w))"
proof (induction n arbitrary: w)
  case 0
  show ?case by simp
next
  case (Suc n)
  let ?w1 = "snd (requests_send (poll_request lib self tid) w)"
  have "sends (keeps_key self) w
      (snd (poll_upscale lib self tid url n (time_sleep (real poll_interval) ?w1)))"
    by (rule sends_step [OF _ sends_sleep [OF Suc.IH]]) simp
  then show ?case
    by (auto simp: requests_eq case_prod_beta sends_send split: sum.splits loop_ctl.splits)
qed

lemma request_upscale_sends:
  "sends (keeps_key self) w (snd (request_upscale lib self tid url best w))"
  unfolding request_upscale_def
  by (auto simp: requests_eq case_prod_beta sends_send
      intro!: sends_step [OF _ poll_upscale_sends] split: sum.splits)

lemma download_final_sends: "sends (keeps_key self) w (snd (download_final lib self url w))"
  unfolding download_final_def
  by (auto simp: requests_eq case_prod_beta Let_def sends_send
      intro!: sends_step [OF _ sends_write_file] split: sum.splits)

lemma select_and_upscale_sends:
  "sends (keeps_key self) w (snd (select_and_upscale lib self tid url w))"
  unfolding select_and_upscale_def
  by (auto simp: requests_eq case_prod_beta Let_def sends_send
      intro!: sends_step [OF _ sends_write_file_step [OF request_upscale_sends]]
              sends_step [OF _ sends_write_file]
      split: sum.splits)

lemma on_completed_sends:
  "sends (keeps_key self) w (snd (on_completed lib self tid url actions w))"
  unfolding on_completed_def
  by (auto simp: case_prod_beta
      intro: download_final_sends select_and_upscale_sends
             sends_trans [OF select_and_upscale_sends download_final_sends]
      split: sum.splits)

lemma poll_imagine_sends:
  "sends (keeps_key self) w (snd (poll_imagine lib self tid n w))"
proof (induction n arbitrary: w)
  case 0
  show ?case by simp
next
  case (Suc n)
  let ?w1 = "snd (requests_send (poll_request lib self tid) w)"
  have "sends (keeps_key self) w
      (snd (poll_imagine lib self tid n (time_sleep (real poll_interval) ?w1)))"
    by (rule sends_step [OF _ sends_sleep [OF Suc.IH]]) simp
  moreover have "sends (keeps_key self) w (snd (on_completed lib self tid url actions ?w1))"
    for url actions
    by (rule sends_step [OF _ on_completed_sends]) simp
  ultimately show ?case
    by (auto simp: requests_eq case_prod_beta sends_send split: sum.splits poll_verdict.splits)
qed

lemma generate_image_try_sends:
  "sends (keeps_key self) w (snd (generate_image_try lib self prompt w))"
  unfolding generate_image_try_def
  by (auto simp: requests_eq case_prod_beta sends_send
      intro!: sends_step [OF _ poll_imagine_sends] split: sum.splits)

section \<open>The key stays with the API\<close>

text \<open>
  C9. Whatever the remote side answers, every request that generate_image sends
  either has no header at all, as the downloads of the URLs that the remote side
  names, or has the headers of the API, with the key, and goes to a URL that begins
  with the task endpoint of the configured API: the key is sent nowhere else.
\<close>

theorem generate_image_confines_key:
  "\<exists>rs. requests_log (snd (generate_image lib self prompt w)) = requests_log w @ rs \<and>
        list_all (\<lambda>rq. req_headers rq = [] \<or>
                       req_headers rq = api_headers self \<and>
                       prefix (midjourney_api_url self @ ''/api/v1/task'') (req_url rq)) rs"
  using generate_image_try_sends [of self w lib prompt]
  by (simp add: sends_def keeps_key_def [abs_def] generate_image_world task_endpoint_def)

end
