(* ===== verification/Spec2Isabelle.thy ===== *)
theory Spec2Isabelle
  imports Generator_Content Generator_Init Generator_Poller Generator_Safety
begin

text \<open>
  \<^bold>\<open>InstaNexus content generation: a verification development.\<close>

  \<^bold>\<open>The program.\<close> The package \<^verbatim>\<open>src/src/content_generation\<close> produces images for
  Instagram posts through a remote task API (Midjourney behind GoAPI). It has two
  modules. \<^verbatim>\<open>image_analyzer.py\<close> holds the class \<^verbatim>\<open>ImageAnalyzer\<close>: four
  measurements of an image (sharpness, contrast, detail, noise), the quality score that
  weighs them, the splitter of a 2x2 grid and two selectors of the best candidate.
  \<^verbatim>\<open>ai_content_generator.py\<close> holds the class \<^verbatim>\<open>AIContentGenerator\<close>: its constructor
  reads the keys from the environment, tests them with one request each and creates the
  image directories; \<^verbatim>\<open>generate_image\<close> submits an imagine task, polls it at most 30
  times 10 seconds apart, and when the task completes with a grid downloads the grid,
  lets the analyzer select a cell, requests the upscale of that cell, polls the upscale
  task in the same way, and downloads the final image into the directory of generated
  images; \<^verbatim>\<open>generate_historical_content\<close> wraps one image into a record with a prompt
  and a caption, and \<^verbatim>\<open>generate_batch_content\<close> produces several records with a random
  pause between two. The generator calls the analyzer once, in the branch for a grid;
  everything else it does is requests, sleeps and files.

  \<^bold>\<open>The model.\<close> Every definition is a function that can be evaluated. A Python
  exception is its message: a computation that may raise returns \<open>Inl\<close> of the message or
  \<open>Inr\<close> of its value (type \<open>'a raises\<close>), and every \<^verbatim>\<open>raise\<close>, every \<^verbatim>\<open>except\<close> clause
  and every operation on a value of the wrong type is a branch. What the program does
  outside its memory is an effect on a value of type \<open>world\<close>, taken and returned: the
  remote side is an oracle that answers the \<open>n\<close>-th request of a run, the clock advances
  by the latency of each request and by each sleep, files are a map from paths to bytes
  beside the set of directories that exist. Loops are recursive functions.

  \<^bold>\<open>Theories and the code they model.\<close>
  \<^item> \<open>Py_Prelude\<close>: the built-ins called on plain data (\<^verbatim>\<open>max\<close>, \<^verbatim>\<open>list.index\<close>,
    \<^verbatim>\<open>str\<close> and \<^verbatim>\<open>int\<close> of numbers, \<^verbatim>\<open>str.lower\<close>, \<^verbatim>\<open>os.path.join\<close>) with their
    lemmas, and the fact collections \<open>py_defs\<close> and \<open>frame\<close>.
  \<^item> \<open>Json\<close>: the values of \<^verbatim>\<open>response.json()\<close> (datatype \<open>json\<close>) and the operations
    the generator applies to them: \<^verbatim>\<open>dict.get\<close> chains, truthiness, \<^verbatim>\<open>in\<close>, \<^verbatim>\<open>str\<close>.
  \<^item> \<open>World\<close>: the record \<open>world\<close>; \<^verbatim>\<open>requests.get\<close>, \<^verbatim>\<open>requests.post\<close>,
    \<^verbatim>\<open>time.sleep\<close>, \<^verbatim>\<open>time.time\<close>, \<^verbatim>\<open>open(...).write\<close>, \<^verbatim>\<open>os.makedirs\<close> and
    \<^verbatim>\<open>os.path.dirname\<close>; the relations \<open>spends\<close> (a run sent at most \<open>r\<close> requests and
    slept at most \<open>s\<close> times, removed no file or directory) and \<open>took\<close> (exactly \<open>r\<close> and
    \<open>s\<close>, which fixes the clock), with their composition lemmas.
  \<^item> \<open>Image_Analyzer\<close>: \<^verbatim>\<open>image_analyzer.py\<close>, method by method under the names of
    the source. An image is its size and its pixel rows; the OpenCV routines and
    \<^verbatim>\<open>Image.open\<close> are the fields of the record \<open>py_lib\<close>, and what NumPy computes on
    their results is defined, the wrap-around of \<^verbatim>\<open>uint8\<close> subtraction included.
    Lemmas: the measurements are non-negative, the score is the weighted sum of the
    clamped measurements and lies in the unit interval, it is 0 when anything raises;
    the four cells of the splitter with their sizes and pixels; the selectors return the
    first index of the greatest score.
  \<^item> \<open>Generator\<close>: \<^verbatim>\<open>AIContentGenerator.generate_image\<close>, cut along its nesting into
    \<open>generate_image\<close> (the \<^verbatim>\<open>except\<close> clause), \<open>generate_image_try\<close> (the submission),
    \<open>poll_imagine\<close> and \<open>imagine_poll_step\<close> (the outer loop and what one iteration
    decides), \<open>on_completed\<close>, \<open>select_and_upscale\<close>, \<open>request_upscale\<close>,
    \<open>poll_upscale\<close> and \<open>upscale_poll_step\<close> (the inner loop), \<open>download_final\<close>; with
    one lemma per way each piece can go.
  \<^item> \<open>Generator_Examples\<close>: a generator and worlds that script whole exchanges, used by
    the witnesses.
  \<^item> \<open>Generator_Budget\<close>: what holds of every run whatever the remote side answers: at
    most 64 requests and 59 sleeps of 10 seconds, the world stays well-formed, the
    result is a path of a stored file or an exception with the prefix of the method.
  \<^item> \<open>Generator_Runs\<close>: what a run returns, sends and stores when the answers of the
    remote side are known: the whole sequence for a grid, a single image, the timeout,
    a rejected or stalled upscale, an unavailable grid, a poll that raises, a submission
    that is refused.
  \<^item> \<open>Poller\<close> and \<open>Generator_Poller\<close>: the poller of the design as a machine of its own
    (an inductive step relation \<open>poller_step\<close>, its runs \<open>poller_run\<close>, the function
    \<open>poller\<close>), and the two loops as implementations of it: each returns what the
    machine returns on the verdicts of the answers, after exactly the polls and sleeps
    of the machine's trace.
  \<^item> \<open>Generator_Safety\<close>: every request of a run has no header, or has the headers of
    the API and goes to the task endpoint: the key is sent nowhere else.
  \<^item> \<open>Generator_Init\<close>: the constructor \<^verbatim>\<open>__init__\<close> and \<^verbatim>\<open>_test_api_keys\<close>; the
    invariant \<open>wf_generator\<close> that the constructor establishes and \<open>generate_image\<close>
    keeps; which requests test the keys and when a service counts as available; when
    the constructor raises.
  \<^item> \<open>Generator_Content\<close>: \<^verbatim>\<open>generate_historical_content\<close> and
    \<^verbatim>\<open>generate_batch_content\<close>; the loop \<open>batch_loop\<close> with its counter and its list of
    results against the reference \<open>batch_items\<close>; the shape of every record; the budget
    of a batch.
  \<^item> This theory: the properties that span components. The index that the upscale
    request carries is the 1-based position of the cell the analyzer selects; a
    generator that the constructor returns delivers an image into the directory the
    constructor created.

  \<^bold>\<open>Bounds and fuel.\<close> The two loops \<^verbatim>\<open>for ... in range(max_polls)\<close> are
  recursions on the number of attempts left, started with \<open>max_polls = 30\<close>; the loop
  variable is only logged, so this is the loop itself and no approximation: the
  functions are total, and a run that uses up its attempts is the timeout of the source
  (the exception of the outer loop, the fall-back to the grid of the inner one). The
  loop of the batch counts up to \<open>count\<close>, an \<open>int\<close> as in Python; it is a \<^theory_text>\<open>function\<close>
  with the measure \<open>count - i\<close>. No other definition needs a bound.

  \<^bold>\<open>Assumptions.\<close> Floating point numbers are reals, so rounding, overflow and NaN are
  outside the model. The remote side answers a request by its position in the run and
  its content; a request takes a fixed time per position. A response is its status, its
  text, its body and the result of decoding the body as JSON, which are not assumed to
  agree. Exceptions that are not subclasses of \<^verbatim>\<open>Exception\<close> (a keyboard interrupt) do
  not occur. The values of \<^verbatim>\<open>random.random()\<close> are a parameter of the batch.

  \<^bold>\<open>Not modelled.\<close> Logging, and \<^verbatim>\<open>load_dotenv\<close> and the logging set-up that run when
  the module is imported. The \<^verbatim>\<open>__main__\<close> block of \<^verbatim>\<open>ai_content_generator.py\<close>, which
  prints one record. The entry point \<^verbatim>\<open>src/run_web_interface.py\<close> and the packages
  \<^verbatim>\<open>instagram_bot\<close>, \<^verbatim>\<open>scheduler\<close>, \<^verbatim>\<open>web_interface\<close>, \<^verbatim>\<open>utils\<close> and \<^verbatim>\<open>analytics\<close>:
  the repository holds only their \<^verbatim>\<open>__init__.py\<close>, which import modules that are not
  part of it, so there is no code of theirs to model. The same holds for the modules
  that \<^verbatim>\<open>content_generation/__init__.py\<close> imports.
\<close>

section \<open>The selected cell on the wire\<close>

text \<open>The field \<^verbatim>\<open>input.index\<close> of a payload.\<close>

definition wire_index :: "json \<Rightarrow> json raises" where
  "wire_index payload = bind_raises (dict_get payload ''input'' JNull) (\<lambda>i. dict_get i ''index'' JNull)"

text \<open>
  An application whose remote side answers the two probes of the constructor as
  \<open>probed\<close> does and then the requests of a run as \<open>ready_at_30\<close> does.
\<close>

definition deployed :: world where
  "deployed = scripted (\<lambda>n rq. if n < 2 then remote probed n rq else remote ready_at_30 (n - 2) rq)"

lemma deployed_constructed:
  "\<exists>self. fst (AIContentGenerator app_env app_file deployed) = Inr self"
  using app_static
  by (simp add: AIContentGenerator_def Let_def case_prod_beta static_of_def path_join_def makedirs_app
      AIContentGenerator_world deployed_def)

text \<open>
  C2. The upscale request names the selected cell by the decimal string of its 1-based
  position: for every grid the index sent is one of \<^verbatim>\<open>"1"\<close> to \<^verbatim>\<open>"4"\<close> and reads back
  as one more than the 0-based index that \<open>analyze_grid_image\<close> returns.
\<close>

theorem upscale_index_one_based:
  "\<exists>s. wire_index (upscale_payload task_id (analyze_grid_image self lib img)) = Inr (JStr s) \<and>
       s \<in> {''1'', ''2'', ''3'', ''4''} \<and>
       read_nat s = Some (analyze_grid_image self lib img + 1)"
  using str_nat_1_to_4 [OF analyze_grid_image_less_4, of self lib img]
  by (simp add: wire_index_def upscale_payload_def read_nat_def str_nat_digits foldl_digits_str_nat)

section \<open>Construction and generation\<close>

text \<open>
  C13. Construction and generation together. On the generator that the constructor
  returns, in the world the constructor leaves, a task that completes with a single image
  whose download answers 200 is delivered: generate_image returns the static path of the
  image, the file is stored in the directory \<^verbatim>\<open>generated_images\<close> of the static
  directory beside the package, and the invariant of the generator still holds.
\<close>

theorem constructed_generator_delivers:
  assumes "fst (AIContentGenerator env module_file w0) = Inr self"
    and "w = snd (AIContentGenerator env module_file w0)"
    and "completes_at lib self prompt w task_id j url actions"
    and "str_in ''upscale1'' actions = Inr False"
    and "remote w (length (requests_log w) + (j + 2)) (get_request (py_str (py_repr lib) url)) = Inr img"
    and "status_code img = 200"
  shows "let name = ''midjourney_'' @ stamp w (j + 2) j @ ''.jpg'';
             w' = snd (generate_image lib self prompt w)
         in fst (generate_image lib self prompt w) = Inr (''/static/generated_images/'' @ name) \<and>
            files w' (path_join (path_join (static_of module_file) ''generated_images'') name)
              = Some (content img) \<and>
            wf_generator self w'"
proof -
  have wf: "wf_generator self w"
    unfolding assms(2) using assms(1) by (rule AIContentGenerator_Inr)
  then have "storable self w"
    and dir: "generated_images_dir self = path_join (static_of module_file) ''generated_images''"
    using AIContentGenerator_static [OF assms(1)] by (simp_all add: wf_generator_def)
  moreover have "wf_generator self (snd (generate_image lib self prompt w))"
    using wf generate_image_spends by (rule wf_generator_spends)
  ultimately show ?thesis
    using generate_image_single_run [OF assms(3,4) _ assms(5,6)] by (simp add: Let_def)
qed

theorem constructed_generator_delivers_witness:
  "\<exists>self name. fst (AIContentGenerator app_env app_file deployed) = Inr self \<and>
     fst (generate_image red_lib self ''a castle'' (snd (AIContentGenerator app_env app_file deployed)))
       = Inr (''/static/generated_images/'' @ name) \<and>
     files (snd (generate_image red_lib self ''a castle''
                   (snd (AIContentGenerator app_env app_file deployed))))
       (''/app/src/web_interface/static/generated_images/'' @ name) = Some [7]"
proof -
  let ?w = "snd (AIContentGenerator app_env app_file deployed)"
  from deployed_constructed obtain self
    where self: "fst (AIContentGenerator app_env app_file deployed) = Inr self" ..
  have w: "remote ?w = remote deployed" "length (requests_log ?w) = 2"
    by (simp_all add: AIContentGenerator_log AIContentGenerator_world app_env_def key_set_def
        configured_def deployed_def)
  have cmp: "completes_at red_lib self ''a castle'' ?w (JStr ''t1'') 29 (JStr ''https://cdn/a.png'')
      (JArr [JStr ''reroll''])"
    unfolding completes_at_def waits_at_def w
    by (simp add: deployed_def ready_at_30_def max_polls_def accepts_accepted_json
        imagine_poll_step_processing imagine_poll_step_completed)
  have img: "remote ?w (length (requests_log ?w) + (29 + 2)) rq = Inr (image_response [7])" for rq
    unfolding w by (simp add: deployed_def ready_at_30_def)
  have single: "str_in ''upscale1'' (JArr [JStr ''reroll'']) = Inr False"
    by (simp add: str_in_def)
  from constructed_generator_delivers [OF self refl cmp single img] show ?thesis
    using self
    by (intro exI [of _ self] exI [of _ "''midjourney_'' @ stamp ?w (29 + 2) 29 @ ''.jpg''"])
      (simp add: Let_def image_response_def app_static path_join_def)
qed

end
